theory Spec2Isabelle
  imports Main "HOL-Library.Sublist" "HOL-Library.Code_Target_Nat"
begin

section \<open>Sort options (NewIphones, BudgetSmartphoneDeals)\<close>

text \<open>
  Both listing pages carry their own \<^verbatim>\<open>mapOrdering\<close>: a \<^verbatim>\<open>switch\<close> over the value of the
  ordering select (here \<open>opt\<close>), starting from the defaults \<^verbatim>\<open>field = "DATE"\<close>, \<^verbatim>\<open>order = "DESC"\<close>.
  The result object \<^verbatim>\<open>{ field, order }\<close> is a pair of strings.
\<close>

definition mapOrdering_NewIphones :: "string \<Rightarrow> string \<times> string" where
  "mapOrdering_NewIphones opt =
     (if opt = ''-created_at'' then (''DATE'', ''DESC'')
      else if opt = ''new_price_ksh'' then (''PRICE'', ''ASC'')
      else if opt = ''-new_price_ksh'' then (''PRICE'', ''DESC'')
      else if opt = ''name'' then (''TITLE'', ''ASC'')
      else (''DATE'', ''DESC''))"

definition mapOrdering_BudgetSmartphoneDeals :: "string \<Rightarrow> string \<times> string" where
  "mapOrdering_BudgetSmartphoneDeals opt =
     (if opt = ''created_at'' then (''DATE'', ''ASC'')
      else if opt = ''-created_at'' then (''DATE'', ''DESC'')
      else if opt = ''name'' then (''TITLE'', ''ASC'')
      else if opt = ''-name'' then (''TITLE'', ''DESC'')
      else if opt = ''price_min_ksh'' then (''PRICE'', ''ASC'')
      else if opt = ''-price_min_ksh'' then (''PRICE'', ''DESC'')
      else (''DATE'', ''DESC''))"

text \<open>The \<^verbatim>\<open>case\<close> labels of each switch.\<close>

definition recognized_NewIphones :: "string list" where
  "recognized_NewIphones = [''-created_at'', ''new_price_ksh'', ''-new_price_ksh'', ''name'']"

definition recognized_BudgetSmartphoneDeals :: "string list" where
  "recognized_BudgetSmartphoneDeals =
     [''created_at'', ''-created_at'', ''name'', ''-name'', ''price_min_ksh'', ''-price_min_ksh'']"

section \<open>JavaScript values\<close>

text \<open>
  The values that cursors, price fields and error messages take: \<^verbatim>\<open>undefined\<close> (also
  what a read past the end of an array gives), \<^verbatim>\<open>null\<close> and strings. Of these only a
  non-empty string is truthy.
\<close>

datatype jsval = Undefined | Null | Str string

fun truthy :: "jsval \<Rightarrow> bool" where
  "truthy Undefined = False"
| "truthy Null = False"
| "truthy (Str s) = (s \<noteq> [])"

text \<open>\<^verbatim>\<open>v || null\<close>\<close>

definition or_null :: "jsval \<Rightarrow> jsval" where
  "or_null v = (if truthy v then v else Null)"

text \<open>\<^verbatim>\<open>xs[i]\<close>: a read outside the array gives \<^verbatim>\<open>undefined\<close>.\<close>

definition js_nth :: "jsval list \<Rightarrow> int \<Rightarrow> jsval" where
  "js_nth xs i = (if 0 \<le> i \<and> nat i < length xs then xs ! nat i else Undefined)"

text \<open>
  \<^verbatim>\<open>xs[i] = v\<close> on a copy of the array: inside the array the element is replaced; past
  the end the array grows, the skipped indices being holes that read as \<^verbatim>\<open>undefined\<close>;
  a negative index sets a property and leaves the elements alone.
\<close>

definition js_set :: "jsval list \<Rightarrow> int \<Rightarrow> jsval \<Rightarrow> jsval list" where
  "js_set xs i v =
     (if i < 0 then xs
      else if nat i < length xs then xs[nat i := v]
      else xs @ replicate (nat i - length xs) Undefined @ [v])"

section \<open>Cursor-stack pagination (NewIphones, BudgetSmartphoneDeals)\<close>

text \<open>
  The two listing pages have the same pagination code, up to the category slug and the
  page size. The component state that matters is \<^verbatim>\<open>page\<close> and \<^verbatim>\<open>endCursorStack\<close>; the
  \<^verbatim>\<open>pageInfo\<close> of the data currently shown is an input of \<^verbatim>\<open>goNext\<close>
  (\<open>None\<close> when \<^verbatim>\<open>data?.products?.pageInfo\<close> is undefined). Each handler runs on the
  state of the last render, and returns the new state with the request it issues.
\<close>

record pageInfo =
  hasNextPage :: bool
  endCursor :: jsval

record pager =
  page :: int
  endCursorStack :: "jsval list"

datatype request = FetchMore jsval | Refetch jsval

text \<open>\<^verbatim>\<open>useState(1)\<close>, \<^verbatim>\<open>useState([null])\<close>\<close>

definition initial :: pager where
  "initial = \<lparr>page = 1, endCursorStack = [Null]\<rparr>"

text \<open>The \<^verbatim>\<open>after\<close> variable of \<^verbatim>\<open>useQuery\<close>: \<^verbatim>\<open>endCursorStack[page - 1] || null\<close>.\<close>

definition query_after :: "pager \<Rightarrow> jsval" where
  "query_after st = or_null (js_nth (endCursorStack st) (page st - 1))"

text \<open>\<^verbatim>\<open>!!data?.products?.pageInfo?.hasNextPage\<close>\<close>

definition hasNext :: "pageInfo option \<Rightarrow> bool" where
  "hasNext d = (case d of None \<Rightarrow> False | Some pi \<Rightarrow> hasNextPage pi)"

definition goNext :: "pageInfo option \<Rightarrow> pager \<Rightarrow> pager \<times> request option" where
  "goNext d st =
     (if \<not> hasNext d then (st, None)
      else
        let after = or_null (case d of None \<Rightarrow> Undefined | Some pi \<Rightarrow> endCursor pi)
        in (\<lparr>page = page st + 1,
             endCursorStack = js_set (endCursorStack st) (page st) after\<rparr>,
            Some (FetchMore after)))"

definition goPrev :: "pager \<Rightarrow> pager \<times> request option" where
  "goPrev st =
     (if \<not> page st > 1 then (st, None)
      else
        let prevIndex = max 0 (page st - 2);
            after = or_null (js_nth (endCursorStack st) prevIndex)
        in (st\<lparr>page := max 1 (page st - 1)\<rparr>, Some (Refetch after)))"

text \<open>The effect that runs when search, ordering (or the badge filter) change.\<close>

definition resetPagination :: "pager \<Rightarrow> pager \<times> request option" where
  "resetPagination st = (\<lparr>page = 1, endCursorStack = [Null]\<rparr>, Some (Refetch Null))"

datatype event = GoNext "pageInfo option" | GoPrev | FiltersChanged

fun handle :: "pager \<Rightarrow> event \<Rightarrow> pager \<times> request option" where
  "handle st (GoNext d) = goNext d st"
| "handle st GoPrev = goPrev st"
| "handle st FiltersChanged = resetPagination st"

definition step :: "pager \<Rightarrow> event \<Rightarrow> pager" where
  "step st e = fst (handle st e)"

text \<open>The state reached from the initial one by a sequence of events.\<close>

definition state_after :: "event list \<Rightarrow> pager" where
  "state_after evs = foldl step initial evs"

text \<open>What the stack holds in a reachable state: \<^verbatim>\<open>null\<close> or a non-empty string.\<close>

definition stored :: "jsval \<Rightarrow> bool" where
  "stored v = (v = Null \<or> (\<exists>s. v = Str s \<and> s \<noteq> []))"

definition pager_inv :: "pager \<Rightarrow> bool" where
  "pager_inv st \<longleftrightarrow>
     1 \<le> page st \<and> page st \<le> int (length (endCursorStack st)) \<and>
     js_nth (endCursorStack st) 0 = Null \<and> list_all stored (endCursorStack st)"

section \<open>Header: the cart badge\<close>

text \<open>
  JavaScript numbers: \<^verbatim>\<open>NaN\<close>, the two infinities, and the finite ones. A finite number is
  a value of a type \<open>'a\<close> that is linearly ordered and has zero and addition (the reals,
  of which the doubles are some); the two zeros are not told apart.
\<close>

datatype 'a jsnum = NaN | NegInf | Fin 'a | PosInf

text \<open>A number that is not negative: \<^verbatim>\<open>x >= 0\<close>, which is false of \<^verbatim>\<open>NaN\<close>.\<close>

fun nonneg :: "'a::linordered_ab_group_add jsnum \<Rightarrow> bool" where
  "nonneg NaN = False"
| "nonneg NegInf = False"
| "nonneg (Fin r) = (0 \<le> r)"
| "nonneg PosInf = True"

text \<open>
  \<^verbatim>\<open>x + y\<close> on numbers. The sum of two finite numbers is their exact sum rounded to a
  double, or to an infinity when it overflows; this rounding is the parameter \<open>rnd\<close>.
\<close>

fun js_add ::
  "('a::linordered_ab_group_add \<Rightarrow> 'a jsnum) \<Rightarrow> 'a jsnum \<Rightarrow> 'a jsnum \<Rightarrow> 'a jsnum" where
  "js_add rnd (Fin a) (Fin b) = rnd (a + b)"
| "js_add rnd NaN y = NaN"
| "js_add rnd x NaN = NaN"
| "js_add rnd PosInf NegInf = NaN"
| "js_add rnd NegInf PosInf = NaN"
| "js_add rnd PosInf y = PosInf"
| "js_add rnd x PosInf = PosInf"
| "js_add rnd NegInf y = NegInf"
| "js_add rnd x NegInf = NegInf"

text \<open>\<^verbatim>\<open>Math.max(0, x)\<close>, which is \<^verbatim>\<open>NaN\<close> when \<open>x\<close> is.\<close>

fun max0 :: "'a::linordered_ab_group_add jsnum \<Rightarrow> 'a jsnum" where
  "max0 NaN = NaN"
| "max0 NegInf = Fin 0"
| "max0 (Fin r) = Fin (max 0 r)"
| "max0 PosInf = PosInf"

text \<open>\<^verbatim>\<open>x || 0\<close> on a number: \<^verbatim>\<open>NaN\<close> and zero are falsy.\<close>

definition or_zero :: "'a::linordered_ab_group_add jsnum \<Rightarrow> 'a jsnum" where
  "or_zero x = (if x = NaN \<or> x = Fin 0 then Fin 0 else x)"

text \<open>
  An element of \<^verbatim>\<open>detail.items\<close>, as the reducer reads it: \<^verbatim>\<open>it?.quantity\<close> and \<^verbatim>\<open>it?.qty\<close>,
  each \<open>None\<close> when null or undefined (as both are when the element itself is), and
  otherwise the number that \<^verbatim>\<open>Number\<close> makes of the value, which is \<^verbatim>\<open>NaN\<close> for a value
  that does not convert.
\<close>

record 'a line_item =
  line_quantity :: "'a jsnum option"
  line_qty :: "'a jsnum option"

text \<open>\<^verbatim>\<open>Number(it?.quantity ?? it?.qty ?? 0) || 0\<close>\<close>

definition quantity_of :: "'a::linordered_ab_group_add line_item \<Rightarrow> 'a jsnum" where
  "quantity_of it =
     or_zero (case line_quantity it of Some q \<Rightarrow> q
              | None \<Rightarrow> (case line_qty it of Some q \<Rightarrow> q | None \<Rightarrow> Fin 0))"

text \<open>
  The \<^verbatim>\<open>detail\<close> of a \<^verbatim>\<open>cart-updated\<close> event, as \<^verbatim>\<open>onCartUpdated\<close> inspects it. A field is
  \<open>None\<close> when its test fails: \<^verbatim>\<open>count\<close> and \<^verbatim>\<open>delta\<close> when \<^verbatim>\<open>typeof\<close> is not
  \<^verbatim>\<open>"number"\<close>, \<^verbatim>\<open>items\<close> when it is not an array. \<^verbatim>\<open>typeof NaN\<close> is \<^verbatim>\<open>"number"\<close>, so a field
  may be \<open>Some NaN\<close>. An event without detail is the record with all three \<open>None\<close>
  (\<^verbatim>\<open>e?.detail ?? {}\<close>).
\<close>

record 'a cart_updated =
  detail_count :: "'a jsnum option"
  detail_items :: "'a line_item list option"
  detail_delta :: "'a jsnum option"

text \<open>
  The new value of \<^verbatim>\<open>cartCount\<close> after \<^verbatim>\<open>onCartUpdated\<close>, from the old one. In the last
  branch the handler only asks for a refetch of the cart query and sets nothing.
\<close>

definition onCartUpdated ::
  "('a::linordered_ab_group_add \<Rightarrow> 'a jsnum) \<Rightarrow> 'a jsnum \<Rightarrow> 'a cart_updated \<Rightarrow> 'a jsnum" where
  "onCartUpdated rnd c d =
     (case detail_count d of
        Some n \<Rightarrow> n
      | None \<Rightarrow>
          (case detail_items d of
             Some its \<Rightarrow> foldl (\<lambda>acc it. js_add rnd acc (quantity_of it)) (Fin 0) its
           | None \<Rightarrow>
               (case detail_delta d of
                  Some k \<Rightarrow> max0 (js_add rnd c k)
                | None \<Rightarrow> c)))"

text \<open>
  What changes \<^verbatim>\<open>cartCount\<close>: a \<^verbatim>\<open>cart-updated\<close> event; the effect that follows a result of
  the cart query, with \<^verbatim>\<open>cartData?.cart?.contents?.itemCount\<close> (\<open>None\<close> when it is not a
  number); \<^verbatim>\<open>handleLogout\<close>, which calls \<^verbatim>\<open>setCartCount(0)\<close>.
\<close>

datatype 'a header_event = CartUpdated "'a cart_updated" | CartData "'a jsnum option" | Logout

fun badge_step ::
  "('a::linordered_ab_group_add \<Rightarrow> 'a jsnum) \<Rightarrow> 'a jsnum \<Rightarrow> 'a header_event \<Rightarrow> 'a jsnum" where
  "badge_step rnd c (CartUpdated d) = onCartUpdated rnd c d"
| "badge_step rnd c (CartData x) = (case x of Some n \<Rightarrow> n | None \<Rightarrow> c)"
| "badge_step rnd c Logout = Fin 0"

text \<open>
  \<^verbatim>\<open>useState(0)\<close>, then the events in order. The badge renders \<^verbatim>\<open>cartCount ?? 0\<close>, which is
  \<^verbatim>\<open>cartCount\<close>, a number being never null.
\<close>

definition badge_after ::
  "('a::linordered_ab_group_add \<Rightarrow> 'a jsnum) \<Rightarrow> 'a header_event list \<Rightarrow> 'a jsnum" where
  "badge_after rnd evs = foldl (badge_step rnd) (Fin 0) evs"

text \<open>
  An event whose numbers are those of a cart, judged on the field that the handler uses:
  a \<^verbatim>\<open>count\<close> that is a non-negative number; else items whose quantities, as the reducer
  coerces them, are non-negative; else a \<^verbatim>\<open>delta\<close> that is neither \<^verbatim>\<open>NaN\<close> nor
  \<^verbatim>\<open>-Infinity\<close>. An \<^verbatim>\<open>itemCount\<close> of the cart query is to be a non-negative number.
\<close>

fun cart_like :: "'a::linordered_ab_group_add header_event \<Rightarrow> bool" where
  "cart_like (CartUpdated d) =
     (case detail_count d of
        Some n \<Rightarrow> nonneg n
      | None \<Rightarrow>
          (case detail_items d of
             Some its \<Rightarrow> list_all (\<lambda>it. nonneg (quantity_of it)) its
           | None \<Rightarrow>
               (case detail_delta d of
                  Some k \<Rightarrow> k \<noteq> NaN \<and> k \<noteq> NegInf
                | None \<Rightarrow> True)))"
| "cart_like (CartData x) = (case x of Some n \<Rightarrow> nonneg n | None \<Rightarrow> True)"
| "cart_like Logout = True"

text \<open>
  What is asked of the rounding: the rounded sum of two finite numbers is a number, and
  it is not negative when the exact sum is not.
\<close>

definition rounding :: "('a::linordered_ab_group_add \<Rightarrow> 'a jsnum) \<Rightarrow> bool" where
  "rounding rnd \<longleftrightarrow> (\<forall>r. rnd r \<noteq> NaN \<and> (0 \<le> r \<longrightarrow> nonneg (rnd r)))"

section \<open>JavaScript strings\<close>

text \<open>
  Where the code units of a string matter, a JavaScript string is the list of its UTF-16
  code units, a code unit being a number below 65536. \<open>ascii\<close> gives the code units of
  an ASCII literal of the source.
\<close>

type_synonym ustring = "nat list"


section \<open>BudgetSmartphoneDeals: client-side filters\<close>

text \<open>
  \<^verbatim>\<open>String.prototype.toLowerCase\<close> and \<^verbatim>\<open>toUpperCase\<close> follow the Unicode case mappings,
  which are not written out: they are the parameters \<open>toLowerCase\<close> and \<open>toUpperCase\<close> of
  the definitions below.
\<close>














section \<open>Prices (Laptops, BudgetSmartphoneDeals)\<close>

text \<open>
  The price fields of a product node are strings or null in the GraphQL schema, and
  undefined on product types that do not have them. \<^verbatim>\<open>onSale\<close> is \<open>True\<close> only when the
  field is \<^verbatim>\<open>true\<close>.
\<close>

record product_node =
  salePrice :: jsval
  price :: jsval
  regularPrice :: jsval
  onSale :: bool

text \<open>\<^verbatim>\<open>a || b\<close>\<close>

definition js_or :: "jsval \<Rightarrow> jsval \<Rightarrow> jsval" where
  "js_or a b = (if truthy a then a else b)"

text \<open>\<^verbatim>\<open>String(v)\<close>\<close>

fun js_String :: "jsval \<Rightarrow> string" where
  "js_String Undefined = ''undefined''"
| "js_String Null = ''null''"
| "js_String (Str s) = s"

text \<open>\<^verbatim>\<open>s.replace(/[^\d.]/g, "")\<close>: only the ASCII digits and the dot stay.\<close>

definition keeps :: "char \<Rightarrow> bool" where
  "keeps c \<longleftrightarrow> c \<in> set ''0123456789.''"

definition strip_price :: "string \<Rightarrow> string" where
  "strip_price s = filter keeps s"

text \<open>
  The numbers of this section are left abstract. The functions \<^verbatim>\<open>Number\<close> (on strings),
  \<^verbatim>\<open>Number.isNaN\<close> and \<^verbatim>\<open>toLocaleString\<close> are parameters \<open>num\<close>, \<open>isNaN\<close> and \<open>fmt\<close> of the
  definitions that use them, over any type \<open>'n\<close> of numbers.
\<close>

text \<open>\<^verbatim>\<open>n.salePrice || n.price || n.regularPrice || null\<close>, on both pages.\<close>

definition current_price :: "product_node \<Rightarrow> jsval" where
  "current_price n = js_or (js_or (js_or (salePrice n) (price n)) (regularPrice n)) Null"

subsection \<open>Laptops\<close>

text \<open>
  \<^verbatim>\<open>!raw && raw !== 0\<close> is \<^verbatim>\<open>!raw\<close> on the values a price field takes.
\<close>

definition money_Laptops ::
  "(string \<Rightarrow> 'n) \<Rightarrow> ('n \<Rightarrow> bool) \<Rightarrow> ('n \<Rightarrow> string) \<Rightarrow> jsval \<Rightarrow> string" where
  "money_Laptops num isNaN fmt raw =
     (if \<not> truthy raw then []
      else
        let n = num (strip_price (js_String raw))
        in if isNaN n then js_String raw else ''Ksh '' @ fmt n)"

text \<open>\<^verbatim>\<open>n.onSale && n.regularPrice ? n.regularPrice : null\<close>\<close>

definition old_price :: "product_node \<Rightarrow> jsval" where
  "old_price n = (if onSale n \<and> truthy (regularPrice n) then regularPrice n else Null)"

text \<open>The \<^verbatim>\<open>price\<close> and \<^verbatim>\<open>oldPrice\<close> of \<^verbatim>\<open>normalize\<close>; \<open>None\<close> is \<^verbatim>\<open>null\<close>.\<close>

definition normalize_price ::
  "(string \<Rightarrow> 'n) \<Rightarrow> ('n \<Rightarrow> bool) \<Rightarrow> ('n \<Rightarrow> string) \<Rightarrow> product_node \<Rightarrow> string" where
  "normalize_price num isNaN fmt n = money_Laptops num isNaN fmt (current_price n)"

definition normalize_oldPrice ::
  "(string \<Rightarrow> 'n) \<Rightarrow> ('n \<Rightarrow> bool) \<Rightarrow> ('n \<Rightarrow> string) \<Rightarrow> product_node \<Rightarrow> string option" where
  "normalize_oldPrice num isNaN fmt n =
     (if truthy (old_price n) then Some (money_Laptops num isNaN fmt (old_price n)) else None)"

text \<open>
  The card: \<^verbatim>\<open>{oldPrice && <span className="... line-through ...">{oldPrice}</span>}\<close>. The
  result is the text of the crossed-out element, \<open>None\<close> when the card has none.
\<close>

definition crossed_out_Laptops ::
  "(string \<Rightarrow> 'n) \<Rightarrow> ('n \<Rightarrow> bool) \<Rightarrow> ('n \<Rightarrow> string) \<Rightarrow> product_node \<Rightarrow> string option" where
  "crossed_out_Laptops num isNaN fmt n =
     (case normalize_oldPrice num isNaN fmt n of
        None \<Rightarrow> None
      | Some s \<Rightarrow> if s = [] then None else Some s)"

subsection \<open>BudgetSmartphoneDeals\<close>

text \<open>\<^verbatim>\<open>raw == null || raw === ""\<close> gives \<^verbatim>\<open>null\<close>, here \<open>None\<close>.\<close>

definition money_Budget ::
  "(string \<Rightarrow> 'n) \<Rightarrow> ('n \<Rightarrow> bool) \<Rightarrow> ('n \<Rightarrow> string) \<Rightarrow> jsval \<Rightarrow> string option" where
  "money_Budget num isNaN fmt raw =
     (if raw = Null \<or> raw = Undefined \<or> raw = Str [] then None
      else
        let n = num (strip_price (js_String raw))
        in Some (if isNaN n then js_String raw else fmt n @ '' KSh''))"

text \<open>The em dash U+2014 of the source, in UTF-8.\<close>

definition em_dash :: string where
  "em_dash = [char_of (226 :: nat), char_of (128 :: nat), char_of (148 :: nat)]"

text \<open>\<^verbatim>\<open>price_display\<close>: \<^verbatim>\<open>money(priceRaw)\<close>, or the em dash when that is falsy.\<close>

definition price_display ::
  "(string \<Rightarrow> 'n) \<Rightarrow> ('n \<Rightarrow> bool) \<Rightarrow> ('n \<Rightarrow> string) \<Rightarrow> product_node \<Rightarrow> string" where
  "price_display num isNaN fmt n =
     (case money_Budget num isNaN fmt (current_price n) of
        None \<Rightarrow> em_dash
      | Some s \<Rightarrow> if s = [] then em_dash else s)"

text \<open>
  \<^verbatim>\<open>price_max_ksh: n.onSale && n.regularPrice ? Number(String(n.regularPrice).replace(...)) : null\<close>
\<close>

definition price_max_ksh :: "(string \<Rightarrow> 'n) \<Rightarrow> product_node \<Rightarrow> 'n option" where
  "price_max_ksh num n =
     (if onSale n \<and> truthy (regularPrice n)
      then Some (num (strip_price (js_String (regularPrice n)))) else None)"

text \<open>
  The card: \<^verbatim>\<open>{p?.price_display || "--"}\<close> (with the em dash) and, when \<^verbatim>\<open>p?.price_max_ksh\<close> is
  truthy, the crossed-out \<^verbatim>\<open>`${Number(p.price_max_ksh).toLocaleString()} KSh`\<close>. A number is
  falsy when it is NaN or zero; \<open>isZero\<close> is the test for zero, a parameter like \<open>isNaN\<close>.
\<close>

definition card_price ::
  "(string \<Rightarrow> 'n) \<Rightarrow> ('n \<Rightarrow> bool) \<Rightarrow> ('n \<Rightarrow> string) \<Rightarrow> product_node \<Rightarrow> string" where
  "card_price num isNaN fmt n =
     (if price_display num isNaN fmt n = [] then em_dash else price_display num isNaN fmt n)"

definition crossed_out_Budget ::
  "(string \<Rightarrow> 'n) \<Rightarrow> ('n \<Rightarrow> bool) \<Rightarrow> ('n \<Rightarrow> bool) \<Rightarrow> ('n \<Rightarrow> string) \<Rightarrow> product_node \<Rightarrow>
   string option" where
  "crossed_out_Budget num isNaN isZero fmt n =
     (case price_max_ksh num n of
        None \<Rightarrow> None
      | Some m \<Rightarrow> if isNaN m \<or> isZero m then None else Some (fmt m @ '' KSh''))"

section \<open>Auth state in localStorage\<close>

text \<open>
  Parsed JSON. Numbers are integers in this model. An object is the list of its
  members in the order of the text; a member that occurs twice has the value of its
  last occurrence, as \<^verbatim>\<open>JSON.parse\<close> has it.
\<close>

datatype json =
    JNull
  | JBool bool
  | JNum int
  | JStr string
  | JArr "json list"
  | JObj "(string \<times> json) list"

text \<open>\<^verbatim>\<open>v?.k\<close> on a parsed value; \<open>None\<close> is \<^verbatim>\<open>undefined\<close>.\<close>

definition get_prop :: "json \<Rightarrow> string \<Rightarrow> json option" where
  "get_prop v k = (case v of JObj kvs \<Rightarrow> map_of (rev kvs) k | _ \<Rightarrow> None)"

fun json_truthy :: "json \<Rightarrow> bool" where
  "json_truthy JNull = False"
| "json_truthy (JBool b) = b"
| "json_truthy (JNum n) = (n \<noteq> 0)"
| "json_truthy (JStr s) = (s \<noteq> [])"
| "json_truthy (JArr xs) = True"
| "json_truthy (JObj kvs) = True"

text \<open>\<^verbatim>\<open>x || null\<close> on a possibly undefined value; \<open>None\<close> is \<^verbatim>\<open>null\<close>.\<close>

definition truthy_or_null :: "json option \<Rightarrow> json option" where
  "truthy_or_null x = (case x of None \<Rightarrow> None | Some v \<Rightarrow> if json_truthy v then Some v else None)"

text \<open>The decimal digits of a natural number, and of an integer.\<close>

fun dec_nat :: "nat \<Rightarrow> string" where
  "dec_nat n = (if n < 10 then [char_of (48 + n)] else dec_nat (n div 10) @ [char_of (48 + n mod 10)])"

declare dec_nat.simps [simp del]

definition dec_int :: "int \<Rightarrow> string" where
  "dec_int i = (if i < 0 then CHR ''-'' # dec_nat (nat (- i)) else dec_nat (nat i))"

text \<open>
  The string a value becomes in a template literal. An array is its elements joined by
  commas, null elements giving the empty string.
\<close>

fun js_to_string :: "json \<Rightarrow> string"
  and join_elems :: "json list \<Rightarrow> string" where
  "js_to_string JNull = ''null''"
| "js_to_string (JBool b) = (if b then ''true'' else ''false'')"
| "js_to_string (JNum n) = dec_int n"
| "js_to_string (JStr s) = s"
| "js_to_string (JArr xs) = join_elems xs"
| "js_to_string (JObj kvs) = ''[object Object]''"
| "join_elems [] = []"
| "join_elems [x] = (if x = JNull then [] else js_to_string x)"
| "join_elems (x # y # ys) = (if x = JNull then [] else js_to_string x) @ '','' @ join_elems (y # ys)"

text \<open>
  \<^verbatim>\<open>localStorage\<close> maps keys to strings. \<^verbatim>\<open>JSON.parse\<close> and \<^verbatim>\<open>JSON.stringify\<close> are
  parameters \<open>parse\<close> and \<open>stringify\<close>; \<open>parse s = None\<close> when \<^verbatim>\<open>JSON.parse\<close> throws.
\<close>

type_synonym storage = "string \<rightharpoonup> string"

subsection \<open>apolloClient.js\<close>

definition getAuthToken :: "(string \<Rightarrow> json option) \<Rightarrow> storage \<Rightarrow> json option" where
  "getAuthToken parse ls =
     (case ls ''wpjwt'' of
        None \<Rightarrow> None
      | Some raw \<Rightarrow>
          if raw = [] then None
          else (case parse raw of
                  None \<Rightarrow> None
                | Some v \<Rightarrow> truthy_or_null (get_prop v ''authToken'')))"

text \<open>
  The context setter of \<^verbatim>\<open>authLink\<close>: the new \<^verbatim>\<open>headers\<close> from the given ones (the empty
  map when they are undefined).
\<close>

definition authLink :: "(string \<Rightarrow> json option) \<Rightarrow> storage \<Rightarrow> (string \<rightharpoonup> string) \<Rightarrow> (string \<rightharpoonup> string)" where
  "authLink parse ls headers =
     (case getAuthToken parse ls of
        Some token \<Rightarrow> headers(''Authorization'' \<mapsto> ''Bearer '' @ js_to_string token)
      | None \<Rightarrow> headers)"

subsection \<open>Header.jsx\<close>

text \<open>\<^verbatim>\<open>JSON.parse(localStorage.getItem("wpjwt") || "null")\<close>, \<^verbatim>\<open>null\<close> when that throws.\<close>

definition readJWT :: "(string \<Rightarrow> json option) \<Rightarrow> storage \<Rightarrow> json" where
  "readJWT parse ls =
     (let raw = (case ls ''wpjwt'' of None \<Rightarrow> ''null'' | Some r \<Rightarrow> if r = [] then ''null'' else r)
      in case parse raw of None \<Rightarrow> JNull | Some v \<Rightarrow> v)"

definition getAccessToken :: "(string \<Rightarrow> json option) \<Rightarrow> storage \<Rightarrow> json option" where
  "getAccessToken parse ls = truthy_or_null (get_prop (readJWT parse ls) ''authToken'')"

definition getUser :: "(string \<Rightarrow> json option) \<Rightarrow> storage \<Rightarrow> json option" where
  "getUser parse ls = truthy_or_null (get_prop (readJWT parse ls) ''user'')"

text \<open>\<^verbatim>\<open>clearAuth\<close>: the storage after \<^verbatim>\<open>localStorage.removeItem("wpjwt")\<close>.\<close>

definition clearAuth :: "storage \<Rightarrow> storage" where
  "clearAuth ls = ls(''wpjwt'' := None)"

section \<open>Request handlers and their effects\<close>

text \<open>
  The \<^verbatim>\<open>detail\<close> of the \<^verbatim>\<open>cart-updated\<close> events that the handlers of this section dispatch:
  \<^verbatim>\<open>{ count: n }\<close> with the \<^verbatim>\<open>itemCount\<close> of a response or of the cart on screen, or
  \<^verbatim>\<open>{ delta: 1 }\<close>. These counts are the \<^verbatim>\<open>Int\<close> of the GraphQL schema, integers here.
\<close>

record cart_item =
  quantity :: "int option"
  qty :: "int option"

record detail =
  count :: "int option"
  items :: "cart_item list option"
  delta :: "int option"

text \<open>
  A handler is modelled by the list of effects it performs, in order, given the outcome
  of each request it awaits. \<open>Request\<close> is a GraphQL operation sent to the server, named
  by its operation; a \<^verbatim>\<open>refetch()\<close> of the cart query is \<open>Request ''GetCart''\<close>. State
  setters of the component are \<open>SetState\<close> with the name of the state.
\<close>

datatype effect =
    Request string
  | ToastError string
  | ToastSuccess string
  | ConsoleError
  | SetState string
  | SetItem string string
  | DispatchCart detail
  | DispatchAuth
  | Navigate string

text \<open>
  What a \<^verbatim>\<open>catch\<close> block reads of the error it caught: \<^verbatim>\<open>e?.message\<close> and
  \<^verbatim>\<open>e?.graphQLErrors?.[0]?.message\<close>.
\<close>

record caught =
  err_message :: jsval
  err_graphQL :: jsval

subsection \<open>LoginForm.handleSubmit\<close>

text \<open>
  The object that \<^verbatim>\<open>JSON.stringify\<close> receives:
  \<^verbatim>\<open>{ authToken: payload.authToken, refreshToken: payload.refreshToken, user: payload.user }\<close>.
  A member whose value is undefined is left out by \<^verbatim>\<open>JSON.stringify\<close>.
\<close>

definition login_object :: "json \<Rightarrow> json" where
  "login_object payload =
     JObj (concat (map (\<lambda>k. case get_prop payload k of None \<Rightarrow> [] | Some v \<Rightarrow> [(k, v)])
                       [''authToken'', ''refreshToken'', ''user'']))"

text \<open>The \<^verbatim>\<open>catch\<close> block of \<^verbatim>\<open>handleSubmit\<close>.\<close>

definition login_failed :: "caught \<Rightarrow> effect list" where
  "login_failed err =
     (let graphQLError =
            js_String (js_or (js_or (err_graphQL err) (err_message err))
                             (Str ''Invalid credentials. Please try again.''))
      in [SetState ''error'', ToastError graphQLError])"

text \<open>
  \<open>outcome\<close> is what \<^verbatim>\<open>await doLogin(...)\<close> does: \<open>Inl err\<close> when it rejects,
  \<open>Inr payload\<close> when it resolves, \<open>payload\<close> being \<^verbatim>\<open>data?.login\<close> (\<open>None\<close> when undefined).
  The result is the storage after the handler and the effects.
\<close>

definition handleSubmit ::
  "(json \<Rightarrow> string) \<Rightarrow> string \<Rightarrow> string \<Rightarrow> caught + json option \<Rightarrow> storage \<Rightarrow>
   storage \<times> effect list" where
  "handleSubmit stringify identifier password outcome ls =
     (if identifier = [] \<or> password = [] then
        (ls, [SetState ''error'',
              ToastError ''Please enter your username/email and password.''])
      else
        (case outcome of
           Inl err \<Rightarrow> (ls, [SetState ''error'', Request ''Login''] @ login_failed err)
         | Inr payload \<Rightarrow>
             (case truthy_or_null (case payload of None \<Rightarrow> None | Some p \<Rightarrow> get_prop p ''authToken'') of
                None \<Rightarrow>
                  (ls, [SetState ''error'', Request ''Login''] @
                       login_failed \<lparr>err_message = Str ''Login failed. No token returned.'',
                                     err_graphQL = Undefined\<rparr>)
              | Some t \<Rightarrow>
                  (let text = stringify (login_object (case payload of None \<Rightarrow> JNull | Some p \<Rightarrow> p))
                   in (ls(''wpjwt'' \<mapsto> text),
                       [SetState ''error'', Request ''Login'', SetItem ''wpjwt'' text,
                        DispatchAuth, ToastSuccess ''Login successful!'', Navigate ''/''])))))"

subsection \<open>Laptops.handleAddToCart\<close>

text \<open>
  \<open>outcome\<close> is what \<^verbatim>\<open>await mutateAddToCart(...)\<close> does; on success it carries
  \<^verbatim>\<open>res?.data?.addToCart?.cart?.contents?.itemCount\<close> when that is a number.
\<close>

definition handleAddToCart :: "string \<Rightarrow> caught + int option \<Rightarrow> effect list" where
  "handleAddToCart productName outcome =
     [SetState ''addingMap'', Request ''AddToCart''] @
     (case outcome of
        Inr newCount \<Rightarrow>
          [DispatchCart
             (case newCount of
                Some n \<Rightarrow> \<lparr>count = Some n, items = None, delta = None\<rparr>
              | None \<Rightarrow> \<lparr>count = None, items = None, delta = Some 1\<rparr>),
           ToastSuccess (productName @ '' added to cart'')]
      | Inl err \<Rightarrow>
          [ToastError (js_String (js_or (err_message err) (Str ''Failed to add to cart'')))]) @
     [SetState ''addingMap'']"

subsection \<open>Cart: onInc, onDec, onRemove\<close>

text \<open>
  The three handlers share one shape: a mutation, then \<^verbatim>\<open>broadcastCount\<close> and
  \<^verbatim>\<open>await refetch()\<close> in the \<^verbatim>\<open>try\<close> block; \<^verbatim>\<open>console.error(e)\<close> and \<^verbatim>\<open>await refetch()\<close> in
  the \<^verbatim>\<open>catch\<close> block; \<^verbatim>\<open>setBusy(key, false)\<close> in the \<^verbatim>\<open>finally\<close> block. \<open>refetch_try\<close> and
  \<open>refetch_catch\<close> say whether the refetch awaited in the \<^verbatim>\<open>try\<close> block, and the one in the
  \<^verbatim>\<open>catch\<close> block, resolve. The result is the effects and whether the handler completes
  (\<open>False\<close>: the promise it returns rejects, with the error of the refetch in the
  \<^verbatim>\<open>catch\<close> block). \<open>itemCount\<close> is the count of the cart data on screen, and
  \<open>qty_now\<close> the quantity of the row, which decides the mutation that \<^verbatim>\<open>onDec\<close> sends.
\<close>

definition cart_mutation ::
  "string \<Rightarrow> int \<Rightarrow> caught + int option \<Rightarrow> bool \<Rightarrow> bool \<Rightarrow> effect list \<times> bool" where
  "cart_mutation opname itemCount outcome refetch_try refetch_catch =
     (case outcome of
        Inl err \<Rightarrow>
          ([SetState ''busyKeys'', Request opname, ConsoleError, Request ''GetCart'',
            SetState ''busyKeys''], refetch_catch)
      | Inr r \<Rightarrow>
          (let cnt = (case r of Some n \<Rightarrow> n | None \<Rightarrow> itemCount);
               try_block = [SetState ''busyKeys'', Request opname,
                            DispatchCart \<lparr>count = Some cnt, items = None, delta = None\<rparr>,
                            Request ''GetCart'']
           in if refetch_try then (try_block @ [SetState ''busyKeys''], True)
              else (try_block @ [ConsoleError, Request ''GetCart'', SetState ''busyKeys''],
                    refetch_catch)))"

definition onInc :: "int \<Rightarrow> caught + int option \<Rightarrow> bool \<Rightarrow> bool \<Rightarrow> effect list \<times> bool" where
  "onInc itemCount outcome refetch_try refetch_catch =
     cart_mutation ''UpdateQty'' itemCount outcome refetch_try refetch_catch"

definition onDec :: "int \<Rightarrow> int \<Rightarrow> caught + int option \<Rightarrow> bool \<Rightarrow> bool \<Rightarrow> effect list \<times> bool" where
  "onDec qty_now itemCount outcome refetch_try refetch_catch =
     (if qty_now - 1 \<le> 0
      then cart_mutation ''RemoveItems'' itemCount outcome refetch_try refetch_catch
      else cart_mutation ''UpdateQty'' itemCount outcome refetch_try refetch_catch)"

definition onRemove :: "int \<Rightarrow> caught + int option \<Rightarrow> bool \<Rightarrow> bool \<Rightarrow> effect list \<times> bool" where
  "onRemove itemCount outcome refetch_try refetch_catch =
     cart_mutation ''RemoveItems'' itemCount outcome refetch_try refetch_catch"

text \<open>How often an operation is sent, and whether an error toast is raised.\<close>

definition attempts :: "string \<Rightarrow> effect list \<Rightarrow> nat" where
  "attempts opname tr = count_list tr (Request opname)"

fun is_error_toast :: "effect \<Rightarrow> bool" where
  "is_error_toast (ToastError m) = True"
| "is_error_toast _ = False"

definition toasts_error :: "effect list \<Rightarrow> bool" where
  "toasts_error tr = list_ex is_error_toast tr"

subsection \<open>From a handler to the badge\<close>

text \<open>
  The event that the listener of the header receives when a handler dispatches the
  detail \<open>d\<close>: the same fields, the integers being finite numbers.
\<close>

definition received :: "detail \<Rightarrow> int cart_updated" where
  "received d =
     \<lparr>detail_count = map_option Fin (count d),
      detail_items =
        map_option (map (\<lambda>it. \<lparr>line_quantity = map_option Fin (quantity it),
                                line_qty = map_option Fin (qty it)\<rparr>)) (items d),
      detail_delta = map_option Fin (delta d)\<rparr>"

section \<open>Password reset: the link and its reading\<close>

text \<open>
  A PHP string is a byte string, and so is the link in the e-mail. The PHP functions are
  those of the language. On the frontend the names and values that \<^verbatim>\<open>URLSearchParams\<close>
  gives are JavaScript strings, lists of UTF-16 code units, decoded from the bytes of
  the query string as UTF-8.
\<close>

subsection \<open>PHP: the plugin (headless reset link)\<close>




text \<open>A PHP string is falsy when it is empty or \<^verbatim>\<open>"0"\<close>.\<close>

definition php_truthy :: "string \<Rightarrow> bool" where
  "php_truthy s \<longleftrightarrow> s \<noteq> [] \<and> s \<noteq> ''0''"



text \<open>
  \<^verbatim>\<open>rawurlencode\<close>: letters, digits and \<^verbatim>\<open>-_.~\<close> stay; every other byte becomes \<^verbatim>\<open>%\<close> and
  its two hexadecimal digits, in upper case.
\<close>

definition unreserved :: "char \<Rightarrow> bool" where
  "unreserved c \<longleftrightarrow>
     (let k = (of_char c :: nat)
      in (48 \<le> k \<and> k \<le> 57) \<or> (65 \<le> k \<and> k \<le> 90) \<or> (97 \<le> k \<and> k \<le> 122) \<or>
         c = CHR ''-'' \<or> c = CHR ''_'' \<or> c = CHR ''.'' \<or> c = CHR ''~'')"

definition hexdigit :: "nat \<Rightarrow> char" where
  "hexdigit k = char_of (if k < 10 then 48 + k else 55 + k)"

definition rawurlencode_char :: "char \<Rightarrow> string" where
  "rawurlencode_char c =
     (if unreserved c then [c]
      else [CHR ''%'', hexdigit ((of_char c :: nat) div 16), hexdigit ((of_char c :: nat) mod 16)])"

definition rawurlencode :: "string \<Rightarrow> string" where
  "rawurlencode s = concat (map rawurlencode_char s)"




subsection \<open>PHP: the WooCommerce e-mail template\<close>






subsection \<open>Frontend: ResetPassword\<close>


text \<open>The pieces of a string between occurrences of a separator.\<close>

primrec split_on :: "char \<Rightarrow> string \<Rightarrow> string list" where
  "split_on d [] = [[]]"
| "split_on d (c # cs) =
     (if c = d then [] # split_on d cs
      else (case split_on d cs of [] \<Rightarrow> [[c]] | w # ws \<Rightarrow> (c # w) # ws))"

definition hexval :: "char \<Rightarrow> nat option" where
  "hexval c =
     (let k = (of_char c :: nat)
      in if 48 \<le> k \<and> k \<le> 57 then Some (k - 48)
         else if 65 \<le> k \<and> k \<le> 70 then Some (k - 55)
         else if 97 \<le> k \<and> k \<le> 102 then Some (k - 87)
         else None)"

text \<open>
  Percent-decoding: \<^verbatim>\<open>%\<close> followed by two hexadecimal digits is the byte they denote;
  every other byte stands for itself.
\<close>

fun percent_decode :: "string \<Rightarrow> string" where
  "percent_decode [] = []"
| "percent_decode [c] = [c]"
| "percent_decode [c, d] = [c, d]"
| "percent_decode (c # d # e # cs) =
     (if c = CHR ''%'' then
        (case (hexval d, hexval e) of
           (Some h, Some l) \<Rightarrow> char_of (16 * h + l) # percent_decode cs
         | _ \<Rightarrow> c # percent_decode (d # e # cs))
      else c # percent_decode (d # e # cs))"

text \<open>
  Text is a list of Unicode scalar values: the code points below \<^verbatim>\<open>U+110000\<close> that are
  not surrogates. \<open>utf8\<close> is its encoding as bytes, which is what a PHP string holds of
  it, and \<open>utf16\<close> its encoding as code units, which is the JavaScript string of it.
\<close>

definition scalar :: "nat \<Rightarrow> bool" where
  "scalar k \<longleftrightarrow> k < 55296 \<or> (57344 \<le> k \<and> k < 1114112)"

definition utf8_bytes :: "nat \<Rightarrow> nat list" where
  "utf8_bytes k =
     (if k < 128 then [k]
      else if k < 2048 then [192 + k div 64, 128 + k mod 64]
      else if k < 65536 then [224 + k div 4096, 128 + k div 64 mod 64, 128 + k mod 64]
      else [240 + k div 262144, 128 + k div 4096 mod 64, 128 + k div 64 mod 64, 128 + k mod 64])"

definition utf8 :: "nat list \<Rightarrow> string" where
  "utf8 ks = map char_of (concat (map utf8_bytes ks))"

definition utf16_units :: "nat \<Rightarrow> nat list" where
  "utf16_units k =
     (if k < 65536 then [k]
      else [55296 + (k - 65536) div 1024, 56320 + (k - 65536) mod 1024])"

definition utf16 :: "nat list \<Rightarrow> ustring" where
  "utf16 ks = concat (map utf16_units ks)"

text \<open>
  The UTF-8 decoder of the Encoding standard, which \<^verbatim>\<open>URLSearchParams\<close> applies to the
  percent-decoded bytes: \<open>cp\<close> is the code point under construction, \<open>need\<close> the number of
  continuation bytes still expected, \<open>lo\<close> and \<open>hi\<close> the bounds of the next continuation
  byte. A byte that cannot start or continue a sequence gives \<^verbatim>\<open>U+FFFD\<close>; a byte that
  cannot continue one is then read again as the start of the next sequence. The input
  ending inside a sequence gives \<^verbatim>\<open>U+FFFD\<close> as well.
\<close>

function utf8_decode_from :: "nat \<Rightarrow> nat \<Rightarrow> nat \<Rightarrow> nat \<Rightarrow> nat list \<Rightarrow> nat list" where
  "utf8_decode_from cp need lo hi [] = (if need = 0 then [] else [65533])"
| "utf8_decode_from cp need lo hi (b # bs) =
     (if need = 0 then
        (if b < 128 then b # utf8_decode_from 0 0 128 191 bs
         else if 194 \<le> b \<and> b \<le> 223 then utf8_decode_from (b mod 32) 1 128 191 bs
         else if 224 \<le> b \<and> b \<le> 239 then
           utf8_decode_from (b mod 16) 2 (if b = 224 then 160 else 128)
             (if b = 237 then 159 else 191) bs
         else if 240 \<le> b \<and> b \<le> 244 then
           utf8_decode_from (b mod 8) 3 (if b = 240 then 144 else 128)
             (if b = 244 then 143 else 191) bs
         else 65533 # utf8_decode_from 0 0 128 191 bs)
      else if b < lo \<or> hi < b then 65533 # utf8_decode_from 0 0 128 191 (b # bs)
      else if need = 1 then (cp * 64 + b mod 64) # utf8_decode_from 0 0 128 191 bs
      else utf8_decode_from (cp * 64 + b mod 64) (need - 1) 128 191 bs)"
  by pat_completeness auto

termination
  by (relation "measure (\<lambda>(cp, need, lo, hi, bs). 2 * length bs + (if need = 0 then 0 else 1))")
    auto

declare utf8_decode_from.simps [simp del]

definition utf8_decode :: "string \<Rightarrow> nat list" where
  "utf8_decode s = utf8_decode_from 0 0 128 191 (map of_char s)"

text \<open>
  The decoding of a name or value: \<^verbatim>\<open>+\<close> is a space, then percent-decoding, then the
  decoding of the bytes as UTF-8 into a string.
\<close>

definition form_decode :: "string \<Rightarrow> ustring" where
  "form_decode s =
     utf16 (utf8_decode (percent_decode (map (\<lambda>c. if c = CHR ''+'' then CHR '' '' else c) s)))"





text \<open>The bytes with a meaning of their own in a URL or a query string.\<close>

definition special :: "char \<Rightarrow> bool" where
  "special c \<longleftrightarrow> c \<in> {CHR ''+'', CHR ''&'', CHR ''='', CHR ''#'', CHR ''?''}"


section \<open>Container bootstrap (docker-entrypoint-custom.sh)\<close>

text \<open>
  The script runs under \<^verbatim>\<open>set -euo pipefail\<close>: a command that fails outside a condition
  and without \<^verbatim>\<open>|| true\<close> ends the script. What the script does is the list of commands
  it runs, in order; \<^verbatim>\<open>echo\<close> lines are left out.
\<close>

datatype action =
    ProbeDB string string
  | Sleep
  | Chown
  | FindChmodDirs
  | FindChmodFiles
  | CoreIsInstalled
  | ConfigCreate
  | CoreInstall string
  | OptionUpdate string string
  | PluginIsInstalled string
  | PluginActivate string
  | RewriteStructure
  | RewriteFlush
  | ExecEntrypoint

text \<open>
  The environment of a run: the variables the script reads, and the outcome of each
  command whose failure matters. \<open>fsockopen host port i\<close> says whether the \<open>i\<close>-th
  connection attempt succeeds; \<open>db_vars_set\<close> says whether \<^verbatim>\<open>WORDPRESS_DB_NAME\<close>,
  \<^verbatim>\<open>WORDPRESS_DB_USER\<close> and \<^verbatim>\<open>WORDPRESS_DB_PASSWORD\<close> are set (an unset one ends the
  script at the expansion of \<^verbatim>\<open>wp config create\<close>). \<open>pathname_matches word\<close> is the sorted
  list of the names of the existing files that \<open>word\<close>, read as a pattern, matches when the
  \<^verbatim>\<open>for\<close> loop is reached; it is empty when there is none.
\<close>

record world =
  WORDPRESS_DB_HOST :: "string option"
  fsockopen :: "string \<Rightarrow> string \<Rightarrow> nat \<Rightarrow> bool"
  first_chown_ok :: bool
  core_is_installed :: bool
  db_vars_set :: bool
  config_create_ok :: bool
  core_install_ok :: bool
  WP_HOME :: "string option"
  WP_SITEURL :: "string option"
  WP_PLUGINS :: "string option"
  pathname_matches :: "string \<Rightarrow> string list"
  plugin_is_installed :: "string \<Rightarrow> bool"
  final_chown_ok :: bool

text \<open>
  \<^verbatim>\<open>array_pad(explode(":", $h, 2), 2, 3306)\<close>: host and port of \<^verbatim>\<open>WORDPRESS_DB_HOST\<close>, the
  port as text, \<^verbatim>\<open>3306\<close> when there is no colon.
\<close>

definition db_endpoint :: "string \<Rightarrow> string \<times> string" where
  "db_endpoint h =
     (takeWhile (\<lambda>c. c \<noteq> CHR '':'') h,
      if CHR '':'' \<in> set h then drop 1 (dropWhile (\<lambda>c. c \<noteq> CHR '':'') h) else ''3306'')"

text \<open>
  The \<open>i\<close>-th run of the PHP probe: it fails when the variable is unset or falsy, and
  otherwise succeeds exactly when the connection does.
\<close>

definition probe :: "world \<Rightarrow> nat \<Rightarrow> bool" where
  "probe w i =
     (case WORDPRESS_DB_HOST w of
        None \<Rightarrow> False
      | Some h \<Rightarrow> php_truthy h \<and> fsockopen w (fst (db_endpoint h)) (snd (db_endpoint h)) i)"

text \<open>
  \<^verbatim>\<open>until php -r '...'; do sleep 2; done\<close>, from the \<open>i\<close>-th attempt on: the index of the
  first attempt that succeeds. The loop does not return when no attempt succeeds.
\<close>

partial_function (option) wait_for_db :: "(nat \<Rightarrow> bool) \<Rightarrow> nat \<Rightarrow> nat option" where
  "wait_for_db p i = (if p i then Some i else wait_for_db p (Suc i))"

text \<open>
  A phase of the script is the commands it runs and whether the script goes on after it.
  \<open>run_all\<close> runs phases in order, stopping after the first that ends the script.
\<close>

type_synonym phase = "action list \<times> bool"

fun run_all :: "phase list \<Rightarrow> phase" where
  "run_all [] = ([], True)"
| "run_all ((t, ok) # ps) = (if ok then (t @ fst (run_all ps), snd (run_all ps)) else (t, False))"

definition probe_action :: "world \<Rightarrow> action" where
  "probe_action w =
     (case WORDPRESS_DB_HOST w of
        None \<Rightarrow> ProbeDB [] []
      | Some h \<Rightarrow> ProbeDB (fst (db_endpoint h)) (snd (db_endpoint h)))"

text \<open>The wait loop when the attempt with index \<open>n\<close> is the first to succeed.\<close>

definition wait_phase :: "world \<Rightarrow> nat \<Rightarrow> phase" where
  "wait_phase w n = (concat (replicate n [probe_action w, Sleep]) @ [probe_action w], True)"

definition permissions_phase :: "world \<Rightarrow> phase list" where
  "permissions_phase w = [([Chown], first_chown_ok w), ([FindChmodDirs, FindChmodFiles], True)]"

text \<open>\<^verbatim>\<open>if ! $WP core is-installed; then ... config create ...; ... core install ...; fi\<close>\<close>

definition install_phase :: "world \<Rightarrow> phase" where
  "install_phase w =
     (if core_is_installed w then ([CoreIsInstalled], True)
      else if \<not> db_vars_set w then ([CoreIsInstalled], False)
      else if \<not> config_create_ok w then ([CoreIsInstalled, ConfigCreate], False)
      else ([CoreIsInstalled, ConfigCreate,
             CoreInstall (case WP_HOME w of None \<Rightarrow> ''http://localhost:8000''
                          | Some u \<Rightarrow> if u = [] then ''http://localhost:8000'' else u)],
            core_install_ok w))"

text \<open>\<^verbatim>\<open>if [[ -n "${VAR:-}" ]]; then $WP option update name "${VAR}" || true; fi\<close>\<close>

definition option_update :: "string \<Rightarrow> string option \<Rightarrow> action list" where
  "option_update name var =
     (case var of None \<Rightarrow> [] | Some v \<Rightarrow> if v = [] then [] else [OptionUpdate name v])"

definition options_phase :: "world \<Rightarrow> phase" where
  "options_phase w =
     (option_update ''home'' (WP_HOME w) @ option_update ''siteurl'' (WP_SITEURL w), True)"

text \<open>
  \<^verbatim>\<open>for slug in ${WP_PLUGINS}\<close>: the expansion is not quoted, so its value is split into
  words and each word undergoes pathname expansion. \<open>shell_words\<close> is the word splitting
  (\<^verbatim>\<open>IFS\<close> is not changed by the script): the pieces between spaces, tabs and newlines.
\<close>

definition shell_words :: "string \<Rightarrow> string list" where
  "shell_words s =
     filter (\<lambda>w. w \<noteq> [])
       (split_on CHR '' '' (map (\<lambda>c. if (of_char c :: nat) \<in> {9, 10} then CHR '' '' else c) s))"

text \<open>
  Pathname expansion (the script sets neither \<^verbatim>\<open>-f\<close> nor \<^verbatim>\<open>nullglob\<close>): a word in which
  \<^verbatim>\<open>*\<close>, \<^verbatim>\<open>?\<close> or \<^verbatim>\<open>[\<close> occurs is a pattern and is replaced by the sorted names of the files it
  matches; a pattern that matches no file, and a word that is not a pattern, stay as
  they are.
\<close>

definition is_pattern :: "string \<Rightarrow> bool" where
  "is_pattern word \<longleftrightarrow> list_ex (\<lambda>c. c \<in> set ''*?['') word"

definition pathname_expansion :: "world \<Rightarrow> string \<Rightarrow> string list" where
  "pathname_expansion w word =
     (if is_pattern word \<and> pathname_matches w word \<noteq> [] then pathname_matches w word
      else [word])"

text \<open>The slugs listed in \<^verbatim>\<open>WP_PLUGINS\<close>: its words.\<close>

definition listed_slugs :: "world \<Rightarrow> string list" where
  "listed_slugs w = (case WP_PLUGINS w of None \<Rightarrow> [] | Some p \<Rightarrow> shell_words p)"

text \<open>The values that \<^verbatim>\<open>slug\<close> takes in the loop, in order.\<close>

definition plugin_slugs :: "world \<Rightarrow> string list" where
  "plugin_slugs w = concat (map (pathname_expansion w) (listed_slugs w))"

text \<open>
  One turn of the \<^verbatim>\<open>for\<close> loop: \<^verbatim>\<open>wp plugin is-installed\<close>, and \<^verbatim>\<open>wp plugin activate ... || true\<close>
  when that succeeds.
\<close>

definition plugin_turn :: "world \<Rightarrow> string \<Rightarrow> action list" where
  "plugin_turn w slug =
     PluginIsInstalled slug # (if plugin_is_installed w slug then [PluginActivate slug] else [])"

definition plugins_phase :: "world \<Rightarrow> phase" where
  "plugins_phase w = (concat (map (plugin_turn w) (plugin_slugs w)), True)"

definition closing_phases :: "world \<Rightarrow> phase list" where
  "closing_phases w =
     [([RewriteStructure, RewriteFlush], True), ([Chown], final_chown_ok w), ([ExecEntrypoint], True)]"

text \<open>
  The whole script: \<open>None\<close> when the wait loop never ends, otherwise the commands run and
  whether the last one was reached.
\<close>

definition bootstrap :: "world \<Rightarrow> phase option" where
  "bootstrap w =
     (case wait_for_db (probe w) 0 of
        None \<Rightarrow> None
      | Some n \<Rightarrow>
          Some (run_all ([wait_phase w n] @ permissions_phase w @
                         [install_phase w, options_phase w, plugins_phase w] @
                         closing_phases w)))"

text \<open>The commands between the wait loop and the \<^verbatim>\<open>exec\<close>, when none of them ends the script.\<close>

definition bootstrap_steps :: "world \<Rightarrow> action list" where
  "bootstrap_steps w =
     [Chown, FindChmodDirs, FindChmodFiles] @ fst (install_phase w) @ fst (options_phase w) @
     fst (plugins_phase w) @ [RewriteStructure, RewriteFlush, Chown]"

section \<open>Theorems\<close>

subsection \<open>C5: mapOrdering\<close>

lemma mapOrdering_NewIphones_range:
  "fst (mapOrdering_NewIphones s) \<in> {''DATE'', ''PRICE'', ''TITLE''} \<and>
   snd (mapOrdering_NewIphones s) \<in> {''ASC'', ''DESC''}"
  unfolding mapOrdering_NewIphones_def by simp

lemma mapOrdering_BudgetSmartphoneDeals_range:
  "fst (mapOrdering_BudgetSmartphoneDeals s) \<in> {''DATE'', ''PRICE'', ''TITLE''} \<and>
   snd (mapOrdering_BudgetSmartphoneDeals s) \<in> {''ASC'', ''DESC''}"
  unfolding mapOrdering_BudgetSmartphoneDeals_def by simp

lemma mapOrdering_NewIphones_default:
  "s \<notin> set recognized_NewIphones \<Longrightarrow> mapOrdering_NewIphones s = (''DATE'', ''DESC'')"
  unfolding mapOrdering_NewIphones_def recognized_NewIphones_def by simp

lemma mapOrdering_BudgetSmartphoneDeals_default:
  "s \<notin> set recognized_BudgetSmartphoneDeals \<Longrightarrow>
   mapOrdering_BudgetSmartphoneDeals s = (''DATE'', ''DESC'')"
  unfolding mapOrdering_BudgetSmartphoneDeals_def recognized_BudgetSmartphoneDeals_def by simp

text \<open>
  Claim C5. On both pages \<^verbatim>\<open>mapOrdering\<close> is total: every string yields a field among
  DATE, PRICE, TITLE and an order among ASC, DESC. \<^verbatim>\<open>"name"\<close> gives (TITLE, ASC),
  \<^verbatim>\<open>"-created_at"\<close> gives (DATE, DESC), the page's ascending-price option
  (\<^verbatim>\<open>"new_price_ksh"\<close> on NewIphones, \<^verbatim>\<open>"price_min_ksh"\<close> on BudgetSmartphoneDeals) gives
  (PRICE, ASC) and its \<^verbatim>\<open>"-"\<close>-prefixed variant (PRICE, DESC); every string that is not a
  case label of the page's switch, the empty string among them, gives the default
  (DATE, DESC).
\<close>

theorem C5_mapOrdering:
  "(\<forall>s. fst (mapOrdering_NewIphones s) \<in> {''DATE'', ''PRICE'', ''TITLE''} \<and>
        snd (mapOrdering_NewIphones s) \<in> {''ASC'', ''DESC''} \<and>
        fst (mapOrdering_BudgetSmartphoneDeals s) \<in> {''DATE'', ''PRICE'', ''TITLE''} \<and>
        snd (mapOrdering_BudgetSmartphoneDeals s) \<in> {''ASC'', ''DESC''}) \<and>
   mapOrdering_NewIphones ''name'' = (''TITLE'', ''ASC'') \<and>
   mapOrdering_BudgetSmartphoneDeals ''name'' = (''TITLE'', ''ASC'') \<and>
   mapOrdering_NewIphones ''-created_at'' = (''DATE'', ''DESC'') \<and>
   mapOrdering_BudgetSmartphoneDeals ''-created_at'' = (''DATE'', ''DESC'') \<and>
   mapOrdering_NewIphones ''new_price_ksh'' = (''PRICE'', ''ASC'') \<and>
   mapOrdering_BudgetSmartphoneDeals ''price_min_ksh'' = (''PRICE'', ''ASC'') \<and>
   mapOrdering_NewIphones ''-new_price_ksh'' = (''PRICE'', ''DESC'') \<and>
   mapOrdering_BudgetSmartphoneDeals ''-price_min_ksh'' = (''PRICE'', ''DESC'') \<and>
   mapOrdering_NewIphones [] = (''DATE'', ''DESC'') \<and>
   mapOrdering_BudgetSmartphoneDeals [] = (''DATE'', ''DESC'') \<and>
   (\<forall>s. s \<notin> set recognized_NewIphones \<longrightarrow> mapOrdering_NewIphones s = (''DATE'', ''DESC'')) \<and>
   (\<forall>s. s \<notin> set recognized_BudgetSmartphoneDeals \<longrightarrow>
        mapOrdering_BudgetSmartphoneDeals s = (''DATE'', ''DESC''))"
proof -
  have fixed:
    "mapOrdering_NewIphones ''name'' = (''TITLE'', ''ASC'')"
    "mapOrdering_BudgetSmartphoneDeals ''name'' = (''TITLE'', ''ASC'')"
    "mapOrdering_NewIphones ''-created_at'' = (''DATE'', ''DESC'')"
    "mapOrdering_BudgetSmartphoneDeals ''-created_at'' = (''DATE'', ''DESC'')"
    "mapOrdering_NewIphones ''new_price_ksh'' = (''PRICE'', ''ASC'')"
    "mapOrdering_BudgetSmartphoneDeals ''price_min_ksh'' = (''PRICE'', ''ASC'')"
    "mapOrdering_NewIphones ''-new_price_ksh'' = (''PRICE'', ''DESC'')"
    "mapOrdering_BudgetSmartphoneDeals ''-price_min_ksh'' = (''PRICE'', ''DESC'')"
    "mapOrdering_NewIphones [] = (''DATE'', ''DESC'')"
    "mapOrdering_BudgetSmartphoneDeals [] = (''DATE'', ''DESC'')"
    by (simp_all add: mapOrdering_NewIphones_def mapOrdering_BudgetSmartphoneDeals_def)
  show ?thesis
    using fixed mapOrdering_NewIphones_range mapOrdering_BudgetSmartphoneDeals_range
      mapOrdering_NewIphones_default mapOrdering_BudgetSmartphoneDeals_default
    by blast
qed

theorem C5_mapOrdering_witness:
  "''-name'' \<notin> set recognized_NewIphones \<and>
   mapOrdering_NewIphones ''-name'' = (''DATE'', ''DESC'') \<and>
   ''rating'' \<notin> set recognized_BudgetSmartphoneDeals \<and>
   mapOrdering_BudgetSmartphoneDeals ''rating'' = (''DATE'', ''DESC'')"
proof -
  have a: "''-name'' \<notin> set recognized_NewIphones"
    by (simp add: recognized_NewIphones_def)
  have b: "''rating'' \<notin> set recognized_BudgetSmartphoneDeals"
    by (simp add: recognized_BudgetSmartphoneDeals_def)
  from C5_mapOrdering a b show ?thesis by blast
qed

subsection \<open>C1: cursor-stack pagination\<close>

lemma stored_or_null: "stored (or_null v)"
  by (cases v) (auto simp: stored_def or_null_def)

lemma or_null_stored: "stored v \<Longrightarrow> or_null v = v"
  by (auto simp: stored_def or_null_def)

lemma inv_initial: "pager_inv initial"
  by (simp add: pager_inv_def initial_def js_nth_def stored_def)

lemma inv_goNext: "pager_inv st \<Longrightarrow> pager_inv (fst (goNext d st))"
  unfolding pager_inv_def goNext_def js_set_def js_nth_def Let_def
  by (auto simp: stored_or_null nth_list_update nth_append list_all_length)

lemma inv_goPrev: "pager_inv st \<Longrightarrow> pager_inv (fst (goPrev st))"
  unfolding pager_inv_def goPrev_def Let_def by auto

lemma inv_reset: "pager_inv (fst (resetPagination st))"
  by (simp add: pager_inv_def resetPagination_def js_nth_def stored_def)

lemma inv_step: "pager_inv st \<Longrightarrow> pager_inv (step st e)"
  by (cases e) (simp_all add: step_def inv_goNext inv_goPrev inv_reset)

lemma inv_foldl: "pager_inv st \<Longrightarrow> pager_inv (foldl step st evs)"
  by (induction evs arbitrary: st) (simp_all add: inv_step)

lemma inv_state_after: "pager_inv (state_after evs)"
  unfolding state_after_def by (rule inv_foldl [OF inv_initial])

lemma inv_nth_stored:
  "pager_inv st \<Longrightarrow> 0 \<le> i \<Longrightarrow> i < page st \<Longrightarrow> stored (js_nth (endCursorStack st) i)"
  by (auto simp: pager_inv_def js_nth_def list_all_length)

lemma query_after_inv:
  "pager_inv st \<Longrightarrow> query_after st = js_nth (endCursorStack st) (page st - 1)"
  unfolding query_after_def
  by (rule or_null_stored) (rule inv_nth_stored, auto simp: pager_inv_def)

lemma query_after_page1: "pager_inv st \<Longrightarrow> page st = 1 \<Longrightarrow> query_after st = Null"
  by (simp add: query_after_inv) (simp add: pager_inv_def)

lemma goNext_noop: "\<not> hasNext d \<Longrightarrow> goNext d st = (st, None)"
  by (simp add: goNext_def)

lemma goNext_moves:
  "hasNext d \<Longrightarrow> d = Some pi \<Longrightarrow>
   goNext d st =
     (\<lparr>page = page st + 1,
       endCursorStack = js_set (endCursorStack st) (page st) (or_null (endCursor pi))\<rparr>,
      Some (FetchMore (or_null (endCursor pi))))"
  by (simp add: goNext_def Let_def)

lemma js_set_inv:
  "pager_inv st \<Longrightarrow>
   js_set (endCursorStack st) (page st) v =
     (if page st < int (length (endCursorStack st))
      then (endCursorStack st)[nat (page st) := v] else endCursorStack st @ [v])"
  by (auto simp: pager_inv_def js_set_def)

lemma js_nth_js_set_same:
  "pager_inv st \<Longrightarrow> js_nth (js_set (endCursorStack st) (page st) v) (page st) = v"
  by (auto simp: pager_inv_def js_set_def js_nth_def nth_append)

lemma js_nth_js_set_other:
  "0 \<le> i \<Longrightarrow> i < j \<Longrightarrow> js_nth (js_set xs j v) i = js_nth xs i"
  by (auto simp: js_set_def js_nth_def nth_append nth_list_update)

lemma goPrev_noop: "page st = 1 \<Longrightarrow> goPrev st = (st, None)"
  by (simp add: goPrev_def)

lemma goPrev_moves:
  assumes inv: "pager_inv st" and ne: "page st \<noteq> 1"
  shows "goPrev st =
           (st\<lparr>page := page st - 1\<rparr>,
            Some (Refetch (js_nth (endCursorStack st) (page st - 2))))"
proof -
  from inv ne have p: "2 \<le> page st"
    by (simp add: pager_inv_def)
  have "stored (js_nth (endCursorStack st) (page st - 2))"
    using inv p by (intro inv_nth_stored) auto
  then have "or_null (js_nth (endCursorStack st) (page st - 2))
               = js_nth (endCursorStack st) (page st - 2)"
    by (rule or_null_stored)
  with p show ?thesis
    by (simp add: goPrev_def Let_def max_def)
qed

lemma next_then_prev:
  assumes inv: "pager_inv st" and hn: "hasNext d"
  shows "goPrev (fst (goNext d st)) =
           (\<lparr>page = page st, endCursorStack = endCursorStack (fst (goNext d st))\<rparr>,
            Some (Refetch (query_after st)))"
proof -
  have p: "1 \<le> page st"
    using inv by (simp add: pager_inv_def)
  have "js_nth (js_set (endCursorStack st) (page st) v) (page st - 1)
          = js_nth (endCursorStack st) (page st - 1)" for v
    using p by (intro js_nth_js_set_other) auto
  then show ?thesis
    using p hn by (simp add: goPrev_def goNext_def Let_def max_def query_after_def)
qed

lemma query_after_goNext:
  assumes inv: "pager_inv st" and hn: "hasNext d" and d: "d = Some pi"
  shows "query_after (fst (goNext d st)) = or_null (endCursor pi)"
proof -
  have "js_nth (js_set (endCursorStack st) (page st) (or_null (endCursor pi))) (page st)
          = or_null (endCursor pi)"
    using inv by (rule js_nth_js_set_same)
  then show ?thesis
    using hn d by (simp add: goNext_moves query_after_def or_null_stored stored_or_null)
qed

lemmas pager_defs = state_after_def step_def initial_def goNext_def goPrev_def
  resetPagination_def hasNext_def or_null_def js_set_def js_nth_def query_after_def Let_def

text \<open>
  Claim C1, as stated, says that \<^verbatim>\<open>goNext\<close> stores the current \<^verbatim>\<open>endCursor\<close> at stack
  index \<^verbatim>\<open>page\<close>. The handler stores \<^verbatim>\<open>endCursor || null\<close>: with \<^verbatim>\<open>hasNextPage\<close> true and
  the empty string as \<^verbatim>\<open>endCursor\<close>, index \<^verbatim>\<open>page\<close> of the new stack holds \<^verbatim>\<open>null\<close>, not the
  empty string.
\<close>

theorem C1_counterexample:
  "hasNext (Some \<lparr>hasNextPage = True, endCursor = Str []\<rparr>) \<and>
   js_nth (endCursorStack (fst (goNext (Some \<lparr>hasNextPage = True, endCursor = Str []\<rparr>)
             (state_after [])))) (page (state_after []))
     \<noteq> endCursor \<lparr>hasNextPage = True, endCursor = Str []\<rparr>"
  by (simp add: pager_defs)

text \<open>
  Claim C1, amended. In every state \<open>st\<close> reached from the initial one by \<^verbatim>\<open>goNext\<close>,
  \<^verbatim>\<open>goPrev\<close> and filter changes: \<^verbatim>\<open>page\<close> is at least 1 and \<^verbatim>\<open>endCursorStack[0]\<close> is \<^verbatim>\<open>null\<close>;
  the \<^verbatim>\<open>after\<close> cursor of the products query is \<^verbatim>\<open>endCursorStack[page - 1]\<close>, which is
  \<^verbatim>\<open>null\<close> on page 1; \<^verbatim>\<open>goNext\<close> does nothing when \<^verbatim>\<open>hasNextPage\<close> is false, and otherwise
  stores \<^verbatim>\<open>endCursor || null\<close> (the current \<^verbatim>\<open>endCursor\<close>, or \<^verbatim>\<open>null\<close> when that is missing
  or the empty string) at stack index \<^verbatim>\<open>page\<close>, increments \<^verbatim>\<open>page\<close> and fetches with that
  cursor, which is then also the cursor of the query of the new page; \<^verbatim>\<open>goPrev\<close> does
  nothing on page 1, and otherwise decrements \<^verbatim>\<open>page\<close> and refetches with
  \<^verbatim>\<open>endCursorStack[page - 2]\<close>, so that \<^verbatim>\<open>goNext\<close> followed at once by \<^verbatim>\<open>goPrev\<close> refetches
  with the cursor the query had before the \<^verbatim>\<open>goNext\<close>, on the same page number; a change
  of search or ordering sets \<^verbatim>\<open>page\<close> to 1 and the stack to \<^verbatim>\<open>[null]\<close>.
\<close>

theorem C1_cursor_stack:
  assumes st: "st = state_after evs"
  shows "1 \<le> page st \<and> js_nth (endCursorStack st) 0 = Null \<and>
         query_after st = js_nth (endCursorStack st) (page st - 1) \<and>
         (page st = 1 \<longrightarrow> query_after st = Null) \<and>
         (\<not> hasNext d \<longrightarrow> goNext d st = (st, None)) \<and>
         (\<forall>pi. hasNext d \<and> d = Some pi \<longrightarrow>
            goNext d st =
              (\<lparr>page = page st + 1,
                endCursorStack =
                  (if page st < int (length (endCursorStack st))
                   then (endCursorStack st)[nat (page st) := or_null (endCursor pi)]
                   else endCursorStack st @ [or_null (endCursor pi)])\<rparr>,
               Some (FetchMore (or_null (endCursor pi)))) \<and>
            query_after (fst (goNext d st)) = or_null (endCursor pi)) \<and>
         (page st = 1 \<longrightarrow> goPrev st = (st, None)) \<and>
         (page st \<noteq> 1 \<longrightarrow>
            goPrev st =
              (st\<lparr>page := page st - 1\<rparr>,
               Some (Refetch (js_nth (endCursorStack st) (page st - 2))))) \<and>
         (hasNext d \<longrightarrow>
            snd (goPrev (fst (goNext d st))) = Some (Refetch (query_after st)) \<and>
            page (fst (goPrev (fst (goNext d st)))) = page st) \<and>
         handle st FiltersChanged =
           (\<lparr>page = 1, endCursorStack = [Null]\<rparr>, Some (Refetch Null))"
proof -
  have inv: "pager_inv st"
    unfolding st by (rule inv_state_after)
  have a: "1 \<le> page st" "js_nth (endCursorStack st) 0 = Null"
    using inv by (simp_all add: pager_inv_def)
  have b: "query_after st = js_nth (endCursorStack st) (page st - 1)"
    using inv by (rule query_after_inv)
  have c: "page st = 1 \<longrightarrow> query_after st = Null"
    using inv by (simp add: query_after_page1)
  have e: "\<not> hasNext d \<longrightarrow> goNext d st = (st, None)"
    by (simp add: goNext_noop)
  have f: "\<forall>pi. hasNext d \<and> d = Some pi \<longrightarrow>
            goNext d st =
              (\<lparr>page = page st + 1,
                endCursorStack =
                  (if page st < int (length (endCursorStack st))
                   then (endCursorStack st)[nat (page st) := or_null (endCursor pi)]
                   else endCursorStack st @ [or_null (endCursor pi)])\<rparr>,
               Some (FetchMore (or_null (endCursor pi)))) \<and>
            query_after (fst (goNext d st)) = or_null (endCursor pi)"
  proof (intro allI impI, elim conjE)
    fix pi
    assume hn: "hasNext d" and d: "d = Some pi"
    show "goNext d st =
              (\<lparr>page = page st + 1,
                endCursorStack =
                  (if page st < int (length (endCursorStack st))
                   then (endCursorStack st)[nat (page st) := or_null (endCursor pi)]
                   else endCursorStack st @ [or_null (endCursor pi)])\<rparr>,
               Some (FetchMore (or_null (endCursor pi)))) \<and>
            query_after (fst (goNext d st)) = or_null (endCursor pi)"
      using goNext_moves [OF hn d, of st] js_set_inv [OF inv, of "or_null (endCursor pi)"]
        query_after_goNext [OF inv hn d]
      by simp
  qed
  have g: "page st = 1 \<longrightarrow> goPrev st = (st, None)"
    by (simp add: goPrev_noop)
  have h: "page st \<noteq> 1 \<longrightarrow>
            goPrev st =
              (st\<lparr>page := page st - 1\<rparr>,
               Some (Refetch (js_nth (endCursorStack st) (page st - 2))))"
    using inv by (simp add: goPrev_moves)
  have i: "hasNext d \<longrightarrow>
            snd (goPrev (fst (goNext d st))) = Some (Refetch (query_after st)) \<and>
            page (fst (goPrev (fst (goNext d st)))) = page st"
    using next_then_prev [OF inv, of d] by simp
  have j: "handle st FiltersChanged =
             (\<lparr>page = 1, endCursorStack = [Null]\<rparr>, Some (Refetch Null))"
    by (simp add: resetPagination_def)
  from a b c e f g h i j show ?thesis by blast
qed

theorem C1_cursor_stack_witness:
  "state_after [GoNext (Some \<lparr>hasNextPage = True, endCursor = Str ''c1''\<rparr>)]
     = \<lparr>page = 2, endCursorStack = [Null, Str ''c1'']\<rparr> \<and>
   query_after \<lparr>page = 2, endCursorStack = [Null, Str ''c1'']\<rparr> = Str ''c1'' \<and>
   hasNext (Some \<lparr>hasNextPage = True, endCursor = Str ''c2''\<rparr>) \<and>
   goNext (Some \<lparr>hasNextPage = True, endCursor = Str ''c2''\<rparr>)
       \<lparr>page = 2, endCursorStack = [Null, Str ''c1'']\<rparr>
     = (\<lparr>page = 3, endCursorStack = [Null, Str ''c1'', Str ''c2'']\<rparr>,
        Some (FetchMore (Str ''c2''))) \<and>
   goPrev \<lparr>page = 2, endCursorStack = [Null, Str ''c1'']\<rparr>
     = (\<lparr>page = 1, endCursorStack = [Null, Str ''c1'']\<rparr>, Some (Refetch Null)) \<and>
   snd (goPrev (fst (goNext (Some \<lparr>hasNextPage = True, endCursor = Str ''c2''\<rparr>)
       \<lparr>page = 2, endCursorStack = [Null, Str ''c1'']\<rparr>))) = Some (Refetch (Str ''c1'')) \<and>
   page (state_after []) = 1 \<and> query_after (state_after []) = Null \<and>
   goPrev (state_after []) = (state_after [], None) \<and>
   \<not> hasNext None \<and> goNext None (state_after []) = (state_after [], None)"
proof -
  let ?d1 = "Some \<lparr>hasNextPage = True, endCursor = Str ''c1''\<rparr>"
  let ?d2 = "Some \<lparr>hasNextPage = True, endCursor = Str ''c2''\<rparr>"
  have s: "state_after [GoNext ?d1] = \<lparr>page = 2, endCursorStack = [Null, Str ''c1'']\<rparr>"
    by (simp add: pager_defs)
  have h: "hasNext ?d2" "\<not> hasNext None"
    by (simp_all add: hasNext_def)
  have p0: "page (state_after []) = 1"
    by (simp add: pager_defs)
  show ?thesis
    using C1_cursor_stack [OF s [symmetric], of ?d2] C1_cursor_stack [OF refl, of "[]" None] h p0
    by (auto simp: s or_null_def js_nth_def)
qed

subsection \<open>C10: the cart badge is not negative\<close>

lemma js_add_nonneg:
  assumes "rounding rnd" "nonneg x" "nonneg y"
  shows "nonneg (js_add rnd x y)"
  using assms by (cases x; cases y) (simp_all add: rounding_def)

lemma js_add_number:
  assumes "rounding rnd" "x \<noteq> NaN" "y \<noteq> NaN"
    and "\<not> (x = PosInf \<and> y = NegInf)" "\<not> (x = NegInf \<and> y = PosInf)"
  shows "js_add rnd x y \<noteq> NaN"
  using assms by (cases x; cases y) (simp_all add: rounding_def)

lemma nonneg_number: "nonneg x \<Longrightarrow> x \<noteq> NaN \<and> x \<noteq> NegInf"
  by (cases x) simp_all

lemma max0_nonneg: "nonneg (max0 x) \<longleftrightarrow> x \<noteq> NaN"
  by (cases x) simp_all

lemma or_zero_number: "or_zero x \<noteq> NaN"
  by (simp add: or_zero_def)

lemma sum_quantities_nonneg:
  assumes "rounding rnd"
  shows "nonneg a \<Longrightarrow> list_all (\<lambda>it. nonneg (quantity_of it)) its \<Longrightarrow>
         nonneg (foldl (\<lambda>acc it. js_add rnd acc (quantity_of it)) a its)"
  by (induction its arbitrary: a) (simp_all add: js_add_nonneg [OF assms])

lemma delta_nonneg:
  assumes "rounding rnd" "nonneg c" "k \<noteq> NaN" "k \<noteq> NegInf"
  shows "nonneg (max0 (js_add rnd c k))"
  using assms nonneg_number [of c] by (simp add: max0_nonneg js_add_number)

lemma badge_step_nonneg:
  assumes "rounding rnd" "nonneg c" "cart_like e"
  shows "nonneg (badge_step rnd c e)"
proof (cases e)
  case (CartUpdated d)
  show ?thesis
  proof (cases "detail_count d")
    case (Some n)
    with assms CartUpdated show ?thesis
      by (simp add: onCartUpdated_def)
  next
    case None
    note nc = this
    show ?thesis
    proof (cases "detail_items d")
      case (Some its)
      with assms nc CartUpdated show ?thesis
        by (simp add: onCartUpdated_def sum_quantities_nonneg)
    next
      case None
      with assms nc CartUpdated show ?thesis
        by (cases "detail_delta d") (simp_all add: onCartUpdated_def delta_nonneg)
    qed
  qed
next
  case (CartData x)
  with assms show ?thesis
    by (cases x) simp_all
next
  case Logout
  then show ?thesis
    by simp
qed

lemma badge_foldl_nonneg:
  assumes "rounding rnd"
  shows "nonneg c \<Longrightarrow> list_all cart_like evs \<Longrightarrow> nonneg (foldl (badge_step rnd) c evs)"
  by (induction evs arbitrary: c) (simp_all add: badge_step_nonneg [OF assms])

text \<open>
  Claim C10, as stated, lets the events be any sequence, and the listener takes the
  detail of whatever \<^verbatim>\<open>cart-updated\<close> event reaches the window. A numeric \<^verbatim>\<open>count\<close> is
  stored as it comes, without a clamp. \<^verbatim>\<open>handleAddToCart\<close> dispatches the \<^verbatim>\<open>itemCount\<close> of
  the response as \<^verbatim>\<open>count\<close>: when the response carries \<open>-1\<close> the badge is \<open>-1\<close>. A \<^verbatim>\<open>count\<close> or
  a \<^verbatim>\<open>delta\<close> that is \<^verbatim>\<open>NaN\<close> passes the \<^verbatim>\<open>typeof\<close> test too, and the badge is then \<^verbatim>\<open>NaN\<close>.
\<close>

theorem C10_counterexample:
  "handleAddToCart ''Laptop'' (Inr (Some (- 1))) =
     [SetState ''addingMap'', Request ''AddToCart'',
      DispatchCart \<lparr>count = Some (- 1), items = None, delta = None\<rparr>,
      ToastSuccess ''Laptop added to cart'', SetState ''addingMap''] \<and>
   badge_after Fin [CartUpdated (received \<lparr>count = Some (- 1), items = None, delta = None\<rparr>)]
     = Fin (- 1) \<and>
   \<not> nonneg (Fin (- 1 :: int)) \<and>
   badge_after Fin
     [CartUpdated \<lparr>detail_count = Some NaN, detail_items = None, detail_delta = None\<rparr>]
     = (NaN :: int jsnum) \<and>
   badge_after Fin
     [CartUpdated \<lparr>detail_count = None, detail_items = None, detail_delta = Some NaN\<rparr>]
     = (NaN :: int jsnum)"
  by (simp add: handleAddToCart_def badge_after_def onCartUpdated_def received_def)

text \<open>
  Claim C10, amended. Starting from 0, the badge is a non-negative number after every
  sequence of \<^verbatim>\<open>cart-updated\<close> events, cart query results and logouts in which every
  \<^verbatim>\<open>count\<close> that is used is a non-negative number (not \<^verbatim>\<open>NaN\<close>), every item quantity that
  is summed is, after \<^verbatim>\<open>Number(...) || 0\<close>, not negative, and every \<^verbatim>\<open>delta\<close> that is used is
  neither \<^verbatim>\<open>NaN\<close> nor \<^verbatim>\<open>-Infinity\<close>. A numeric \<^verbatim>\<open>count\<close> replaces the value; otherwise an
  \<^verbatim>\<open>items\<close> array replaces it with the sum, from the left and starting at 0, of the items'
  quantities (\<^verbatim>\<open>quantity\<close>, else \<^verbatim>\<open>qty\<close>, else 0; \<^verbatim>\<open>NaN\<close> and 0 counting as 0); otherwise a
  numeric \<^verbatim>\<open>delta\<close> \<open>k\<close> gives \<^verbatim>\<open>Math.max(0, c + k)\<close>, which is a non-negative number exactly
  when \<open>c + k\<close> is not \<^verbatim>\<open>NaN\<close>, so whenever neither is \<^verbatim>\<open>NaN\<close> and they are not opposite
  infinities; logout sets the badge to 0.
\<close>

theorem C10_badge_nonneg:
  "(rounding rnd \<and> list_all cart_like evs \<longrightarrow> nonneg (badge_after rnd evs)) \<and>
   onCartUpdated rnd c \<lparr>detail_count = Some n, detail_items = its, detail_delta = dl\<rparr> = n \<and>
   onCartUpdated rnd c \<lparr>detail_count = None, detail_items = Some xs, detail_delta = dl\<rparr>
     = foldl (\<lambda>acc it. js_add rnd acc (quantity_of it)) (Fin 0) xs \<and>
   quantity_of \<lparr>line_quantity = Some q, line_qty = q'\<rparr> = (if q = NaN then Fin 0 else q) \<and>
   quantity_of \<lparr>line_quantity = None, line_qty = Some q\<rparr> = (if q = NaN then Fin 0 else q) \<and>
   quantity_of \<lparr>line_quantity = None, line_qty = None\<rparr> = Fin 0 \<and>
   onCartUpdated rnd c \<lparr>detail_count = None, detail_items = None, detail_delta = Some k\<rparr>
     = max0 (js_add rnd c k) \<and>
   (nonneg (onCartUpdated rnd c
              \<lparr>detail_count = None, detail_items = None, detail_delta = Some k\<rparr>)
      \<longleftrightarrow> js_add rnd c k \<noteq> NaN) \<and>
   (rounding rnd \<and> c \<noteq> NaN \<and> k \<noteq> NaN \<and> \<not> (c = PosInf \<and> k = NegInf) \<and>
    \<not> (c = NegInf \<and> k = PosInf) \<longrightarrow>
      nonneg (onCartUpdated rnd c
                \<lparr>detail_count = None, detail_items = None, detail_delta = Some k\<rparr>)) \<and>
   badge_step rnd c Logout = Fin 0 \<and>
   badge_after rnd (evs @ [Logout]) = Fin 0"
proof -
  have a: "rounding rnd \<and> list_all cart_like evs \<longrightarrow> nonneg (badge_after rnd evs)"
    unfolding badge_after_def by (simp add: badge_foldl_nonneg)
  have b: "onCartUpdated rnd c \<lparr>detail_count = Some n, detail_items = its, detail_delta = dl\<rparr> = n"
    by (simp add: onCartUpdated_def)
  have c: "onCartUpdated rnd c \<lparr>detail_count = None, detail_items = Some xs, detail_delta = dl\<rparr>
     = foldl (\<lambda>acc it. js_add rnd acc (quantity_of it)) (Fin 0) xs"
    by (simp add: onCartUpdated_def)
  have d: "quantity_of \<lparr>line_quantity = Some q, line_qty = q'\<rparr> = (if q = NaN then Fin 0 else q)"
    "quantity_of \<lparr>line_quantity = None, line_qty = Some q\<rparr> = (if q = NaN then Fin 0 else q)"
    "quantity_of \<lparr>line_quantity = None, line_qty = None\<rparr> = Fin 0"
    by (auto simp: quantity_of_def or_zero_def)
  have e: "onCartUpdated rnd c \<lparr>detail_count = None, detail_items = None, detail_delta = Some k\<rparr>
     = max0 (js_add rnd c k)"
    by (simp add: onCartUpdated_def)
  have f: "nonneg (onCartUpdated rnd c
              \<lparr>detail_count = None, detail_items = None, detail_delta = Some k\<rparr>)
      \<longleftrightarrow> js_add rnd c k \<noteq> NaN"
    by (simp only: e max0_nonneg)
  have g: "rounding rnd \<and> c \<noteq> NaN \<and> k \<noteq> NaN \<and> \<not> (c = PosInf \<and> k = NegInf) \<and>
    \<not> (c = NegInf \<and> k = PosInf) \<longrightarrow>
      nonneg (onCartUpdated rnd c
                \<lparr>detail_count = None, detail_items = None, detail_delta = Some k\<rparr>)"
    unfolding f using js_add_number [of rnd c k] by blast
  have h: "badge_step rnd c Logout = Fin 0"
    by simp
  have i: "badge_after rnd (evs @ [Logout]) = Fin 0"
    by (simp add: badge_after_def)
  from a b c d e f g h i show ?thesis
    by (intro conjI)
qed

theorem C10_badge_nonneg_witness:
  "rounding (Fin :: int \<Rightarrow> int jsnum) \<and>
   list_all cart_like
     [CartUpdated \<lparr>detail_count = Some (Fin (3 :: int)), detail_items = None, detail_delta = None\<rparr>,
      CartUpdated \<lparr>detail_count = None, detail_items = None, detail_delta = Some (Fin (- 5))\<rparr>,
      CartUpdated \<lparr>detail_count = None, detail_items = None, detail_delta = Some (Fin 1)\<rparr>,
      CartData None,
      CartUpdated \<lparr>detail_count = None,
        detail_items = Some [\<lparr>line_quantity = Some (Fin 2), line_qty = None\<rparr>,
                             \<lparr>line_quantity = None, line_qty = Some (Fin 4)\<rparr>,
                             \<lparr>line_quantity = Some NaN, line_qty = Some (Fin 7)\<rparr>],
        detail_delta = None\<rparr>] \<and>
   nonneg (badge_after Fin
     [CartUpdated \<lparr>detail_count = Some (Fin (3 :: int)), detail_items = None, detail_delta = None\<rparr>,
      CartUpdated \<lparr>detail_count = None, detail_items = None, detail_delta = Some (Fin (- 5))\<rparr>,
      CartUpdated \<lparr>detail_count = None, detail_items = None, detail_delta = Some (Fin 1)\<rparr>,
      CartData None,
      CartUpdated \<lparr>detail_count = None,
        detail_items = Some [\<lparr>line_quantity = Some (Fin 2), line_qty = None\<rparr>,
                             \<lparr>line_quantity = None, line_qty = Some (Fin 4)\<rparr>,
                             \<lparr>line_quantity = Some NaN, line_qty = Some (Fin 7)\<rparr>],
        detail_delta = None\<rparr>]) \<and>
   badge_after Fin
     [CartUpdated \<lparr>detail_count = Some (Fin (3 :: int)), detail_items = None, detail_delta = None\<rparr>,
      CartUpdated \<lparr>detail_count = None, detail_items = None, detail_delta = Some (Fin (- 5))\<rparr>,
      CartUpdated \<lparr>detail_count = None, detail_items = None, detail_delta = Some (Fin 1)\<rparr>,
      CartData None,
      CartUpdated \<lparr>detail_count = None,
        detail_items = Some [\<lparr>line_quantity = Some (Fin 2), line_qty = None\<rparr>,
                             \<lparr>line_quantity = None, line_qty = Some (Fin 4)\<rparr>,
                             \<lparr>line_quantity = Some NaN, line_qty = Some (Fin 7)\<rparr>],
        detail_delta = None\<rparr>] = Fin (6 :: int) \<and>
   nonneg (onCartUpdated Fin (Fin (3 :: int))
             \<lparr>detail_count = None, detail_items = None, detail_delta = Some (Fin (- 5))\<rparr>)"
proof -
  let ?evs = "[CartUpdated \<lparr>detail_count = Some (Fin (3 :: int)), detail_items = None, detail_delta = None\<rparr>,
      CartUpdated \<lparr>detail_count = None, detail_items = None, detail_delta = Some (Fin (- 5))\<rparr>,
      CartUpdated \<lparr>detail_count = None, detail_items = None, detail_delta = Some (Fin 1)\<rparr>,
      CartData None,
      CartUpdated \<lparr>detail_count = None,
        detail_items = Some [\<lparr>line_quantity = Some (Fin 2), line_qty = None\<rparr>,
                             \<lparr>line_quantity = None, line_qty = Some (Fin 4)\<rparr>,
                             \<lparr>line_quantity = Some NaN, line_qty = Some (Fin 7)\<rparr>],
        detail_delta = None\<rparr>] :: int header_event list"
  let ?rnd = "Fin :: int \<Rightarrow> int jsnum"
  have r: "rounding ?rnd"
    by (simp add: rounding_def)
  have h: "list_all cart_like ?evs"
    by (simp add: quantity_of_def or_zero_def)
  have v: "badge_after ?rnd ?evs = Fin 6"
    by (simp add: badge_after_def onCartUpdated_def quantity_of_def or_zero_def)
  have k: "?rnd = ?rnd \<and> rounding ?rnd \<and> Fin (3 :: int) \<noteq> NaN \<and> Fin (- 5 :: int) \<noteq> NaN \<and>
      \<not> (Fin (3 :: int) = PosInf \<and> Fin (- 5 :: int) = NegInf) \<and>
      \<not> (Fin (3 :: int) = NegInf \<and> Fin (- 5 :: int) = PosInf)"
    using r by simp
  note T = C10_badge_nonneg [of ?rnd ?evs "Fin 3" NaN None None "[]" NaN None "Fin (- 5)"]
  have a: "nonneg (badge_after ?rnd ?evs)"
    using conjunct1 [OF T] r h by blast
  have b: "nonneg (onCartUpdated ?rnd (Fin 3)
             \<lparr>detail_count = None, detail_items = None, detail_delta = Some (Fin (- 5))\<rparr>)"
    using conjunct1 [OF conjunct2 [OF conjunct2 [OF conjunct2 [OF conjunct2 [OF conjunct2
      [OF conjunct2 [OF conjunct2 [OF conjunct2 [OF T]]]]]]]]] k by blast
  from r h a v b show ?thesis
    by (intro conjI)
qed

subsection \<open>C7: the filtered grid\<close>












subsection \<open>C6: price normalization\<close>

lemma current_price_first_truthy:
  "current_price n =
     (if truthy (salePrice n) then salePrice n
      else if truthy (price n) then price n
      else if truthy (regularPrice n) then regularPrice n
      else Null)"
  by (simp add: current_price_def js_or_def)

lemma strip_price_chars: "set (strip_price s) = {c \<in> set s. keeps c}"
  by (simp add: strip_price_def)

lemma truthy_Str: "truthy v \<longleftrightarrow> (\<exists>s. v = Str s \<and> s \<noteq> [])"
  by (cases v) simp_all

text \<open>The current price is a non-empty string or null.\<close>

lemma current_price_cases:
  "current_price n = Null \<or> (\<exists>s. s \<noteq> [] \<and> current_price n = Str s)"
  by (auto simp: current_price_first_truthy truthy_Str)

lemma current_price_Str:
  assumes "current_price n = Str s"
  shows "s \<noteq> []"
  using assms current_price_cases [of n] by auto

lemma current_price_Null:
  "current_price n = Null \<longleftrightarrow>
     \<not> truthy (salePrice n) \<and> \<not> truthy (price n) \<and> \<not> truthy (regularPrice n)"
  by (auto simp: current_price_first_truthy truthy_Str)

text \<open>The displayed price of a node, on each page.\<close>

lemma displayed_price_Str:
  assumes "current_price n = Str s"
  shows "normalize_price num isNaN fmt n =
           (if isNaN (num (strip_price s)) then s else ''Ksh '' @ fmt (num (strip_price s)))"
    and "price_display num isNaN fmt n =
           (if isNaN (num (strip_price s)) then s else fmt (num (strip_price s)) @ '' KSh'')"
    and "card_price num isNaN fmt n = price_display num isNaN fmt n"
proof -
  have ne: "s \<noteq> []"
    using assms by (rule current_price_Str)
  show "normalize_price num isNaN fmt n =
           (if isNaN (num (strip_price s)) then s else ''Ksh '' @ fmt (num (strip_price s)))"
    using assms ne by (simp add: normalize_price_def money_Laptops_def Let_def)
  show pd: "price_display num isNaN fmt n =
           (if isNaN (num (strip_price s)) then s else fmt (num (strip_price s)) @ '' KSh'')"
    using assms ne by (simp add: price_display_def money_Budget_def Let_def)
  show "card_price num isNaN fmt n = price_display num isNaN fmt n"
    using ne by (simp add: card_price_def pd)
qed

lemma displayed_price_Null:
  assumes "current_price n = Null"
  shows "normalize_price num isNaN fmt n = []"
    and "price_display num isNaN fmt n = em_dash"
    and "card_price num isNaN fmt n = em_dash"
  using assms
  by (simp_all add: normalize_price_def money_Laptops_def price_display_def money_Budget_def
      card_price_def)

text \<open>The old price of a node, on each page.\<close>

lemma old_price_Laptops:
  "normalize_oldPrice num isNaN fmt n =
     (if onSale n \<and> truthy (regularPrice n)
      then Some (money_Laptops num isNaN fmt (regularPrice n)) else None)"
  by (simp add: normalize_oldPrice_def old_price_def)

lemma money_Laptops_truthy:
  assumes "truthy raw"
  shows "money_Laptops num isNaN fmt raw \<noteq> []"
  using assms by (cases raw) (simp_all add: money_Laptops_def Let_def)

lemma crossed_out_Laptops_iff:
  "crossed_out_Laptops num isNaN fmt n =
     (if onSale n \<and> truthy (regularPrice n)
      then Some (money_Laptops num isNaN fmt (regularPrice n)) else None)"
  by (simp add: crossed_out_Laptops_def old_price_Laptops money_Laptops_truthy)

lemma crossed_out_Budget_only:
  assumes "crossed_out_Budget num isNaN isZero fmt n \<noteq> None"
  shows "onSale n \<and> truthy (regularPrice n)"
  using assms by (simp add: crossed_out_Budget_def price_max_ksh_def split: if_splits)

text \<open>
  Claim C6. On both pages the current price is the first truthy of \<^verbatim>\<open>salePrice\<close>, \<^verbatim>\<open>price\<close>,
  \<^verbatim>\<open>regularPrice\<close> (else \<^verbatim>\<open>null\<close>). When it is the string \<open>s\<close>, the price shown is
  \<^verbatim>\<open>"Ksh "\<close> followed by \<^verbatim>\<open>toLocaleString()\<close> of the number parsed from the digits and dots
  of \<open>s\<close> on Laptops, and that text followed by \<^verbatim>\<open>" KSh"\<close> on BudgetSmartphoneDeals, or \<open>s\<close>
  unchanged on both pages when that number is NaN; when no price field is truthy it is
  the empty string on Laptops and the em dash on BudgetSmartphoneDeals. The old price of
  Laptops is \<^verbatim>\<open>money(regularPrice)\<close> when \<^verbatim>\<open>onSale\<close> is true and \<^verbatim>\<open>regularPrice\<close> is truthy
  and \<^verbatim>\<open>null\<close> otherwise, and its card shows a crossed-out price exactly then;
  \<^verbatim>\<open>price_max_ksh\<close> of BudgetSmartphoneDeals is the number parsed from \<^verbatim>\<open>regularPrice\<close> under
  the same condition and \<^verbatim>\<open>null\<close> otherwise, and its card shows a crossed-out price, that
  number's \<^verbatim>\<open>toLocaleString()\<close> followed by \<^verbatim>\<open>" KSh"\<close>, exactly when moreover the number is
  neither NaN nor zero. \<^verbatim>\<open>money\<close> keeps the digits and dots of the raw string, in order, and drops every
  other character; when the number parsed from the remainder is not NaN the result is
  that number's \<^verbatim>\<open>toLocaleString()\<close> with the marker, otherwise the raw string unchanged; a
  null, undefined or empty raw value gives the empty display value (the empty string on
  Laptops, \<^verbatim>\<open>null\<close> on BudgetSmartphoneDeals).
\<close>

theorem C6_price_normalization:
  "current_price n =
     (if truthy (salePrice n) then salePrice n
      else if truthy (price n) then price n
      else if truthy (regularPrice n) then regularPrice n
      else Null) \<and>
   (current_price n = Str p \<longrightarrow>
      normalize_price num isNaN fmt n =
        (if isNaN (num (strip_price p)) then p else ''Ksh '' @ fmt (num (strip_price p))) \<and>
      price_display num isNaN fmt n =
        (if isNaN (num (strip_price p)) then p else fmt (num (strip_price p)) @ '' KSh'') \<and>
      card_price num isNaN fmt n = price_display num isNaN fmt n) \<and>
   (\<not> truthy (salePrice n) \<and> \<not> truthy (price n) \<and> \<not> truthy (regularPrice n) \<longrightarrow>
      normalize_price num isNaN fmt n = [] \<and>
      price_display num isNaN fmt n = em_dash \<and>
      card_price num isNaN fmt n = em_dash) \<and>
   normalize_oldPrice num isNaN fmt n =
     (if onSale n \<and> truthy (regularPrice n)
      then Some (money_Laptops num isNaN fmt (regularPrice n)) else None) \<and>
   crossed_out_Laptops num isNaN fmt n = normalize_oldPrice num isNaN fmt n \<and>
   price_max_ksh num n =
     (if onSale n \<and> truthy (regularPrice n)
      then Some (num (strip_price (js_String (regularPrice n)))) else None) \<and>
   crossed_out_Budget num isNaN isZero fmt n =
     (if onSale n \<and> truthy (regularPrice n) \<and>
         \<not> isNaN (num (strip_price (js_String (regularPrice n)))) \<and>
         \<not> isZero (num (strip_price (js_String (regularPrice n))))
      then Some (fmt (num (strip_price (js_String (regularPrice n)))) @ '' KSh'') else None) \<and>
   (crossed_out_Budget num isNaN isZero fmt n \<noteq> None \<longrightarrow> onSale n \<and> truthy (regularPrice n)) \<and>
   (normalize_oldPrice num isNaN fmt n \<noteq> None \<longrightarrow> onSale n \<and> truthy (regularPrice n)) \<and>
   (price_max_ksh num n \<noteq> None \<longrightarrow> onSale n \<and> truthy (regularPrice n)) \<and>
   strip_price s = filter (\<lambda>c. c \<in> set ''0123456789.'') s \<and>
   (s \<noteq> [] \<and> \<not> isNaN (num (strip_price s)) \<longrightarrow>
      money_Laptops num isNaN fmt (Str s) = ''Ksh '' @ fmt (num (strip_price s)) \<and>
      money_Budget num isNaN fmt (Str s) = Some (fmt (num (strip_price s)) @ '' KSh'')) \<and>
   (s \<noteq> [] \<and> isNaN (num (strip_price s)) \<longrightarrow>
      money_Laptops num isNaN fmt (Str s) = s \<and>
      money_Budget num isNaN fmt (Str s) = Some s) \<and>
   (raw \<in> {Null, Undefined, Str []} \<longrightarrow>
      money_Laptops num isNaN fmt raw = [] \<and> money_Budget num isNaN fmt raw = None)"
proof -
  have c1: "current_price n =
     (if truthy (salePrice n) then salePrice n
      else if truthy (price n) then price n
      else if truthy (regularPrice n) then regularPrice n
      else Null)"
    by (rule current_price_first_truthy)
  have c2: "current_price n = Str p \<longrightarrow>
      normalize_price num isNaN fmt n =
        (if isNaN (num (strip_price p)) then p else ''Ksh '' @ fmt (num (strip_price p))) \<and>
      price_display num isNaN fmt n =
        (if isNaN (num (strip_price p)) then p else fmt (num (strip_price p)) @ '' KSh'') \<and>
      card_price num isNaN fmt n = price_display num isNaN fmt n"
    by (intro impI conjI; rule displayed_price_Str; assumption)
  have c3: "\<not> truthy (salePrice n) \<and> \<not> truthy (price n) \<and> \<not> truthy (regularPrice n) \<longrightarrow>
      normalize_price num isNaN fmt n = [] \<and>
      price_display num isNaN fmt n = em_dash \<and>
      card_price num isNaN fmt n = em_dash"
    by (intro impI conjI; rule displayed_price_Null; simp add: current_price_Null)
  have c4: "normalize_oldPrice num isNaN fmt n =
     (if onSale n \<and> truthy (regularPrice n)
      then Some (money_Laptops num isNaN fmt (regularPrice n)) else None)"
    by (rule old_price_Laptops)
  have c5: "crossed_out_Laptops num isNaN fmt n = normalize_oldPrice num isNaN fmt n"
    by (simp only: crossed_out_Laptops_iff old_price_Laptops)
  have c6: "price_max_ksh num n =
     (if onSale n \<and> truthy (regularPrice n)
      then Some (num (strip_price (js_String (regularPrice n)))) else None)"
    by (simp add: price_max_ksh_def)
  have c6': "crossed_out_Budget num isNaN isZero fmt n =
     (if onSale n \<and> truthy (regularPrice n) \<and>
         \<not> isNaN (num (strip_price (js_String (regularPrice n)))) \<and>
         \<not> isZero (num (strip_price (js_String (regularPrice n))))
      then Some (fmt (num (strip_price (js_String (regularPrice n)))) @ '' KSh'') else None)"
    by (simp add: crossed_out_Budget_def price_max_ksh_def)
  have c7: "crossed_out_Budget num isNaN isZero fmt n \<noteq> None \<longrightarrow>
      onSale n \<and> truthy (regularPrice n)"
    by (intro impI, rule crossed_out_Budget_only)
  have a: "normalize_oldPrice num isNaN fmt n \<noteq> None \<longrightarrow> onSale n \<and> truthy (regularPrice n)"
    by (auto simp: normalize_oldPrice_def old_price_def split: if_splits)
  have b: "price_max_ksh num n \<noteq> None \<longrightarrow> onSale n \<and> truthy (regularPrice n)"
    by (simp add: price_max_ksh_def)
  have c: "strip_price s = filter (\<lambda>c. c \<in> set ''0123456789.'') s"
    unfolding strip_price_def keeps_def ..
  have d: "s \<noteq> [] \<and> \<not> isNaN (num (strip_price s)) \<longrightarrow>
      money_Laptops num isNaN fmt (Str s) = ''Ksh '' @ fmt (num (strip_price s)) \<and>
      money_Budget num isNaN fmt (Str s) = Some (fmt (num (strip_price s)) @ '' KSh'')"
    by (simp add: money_Laptops_def money_Budget_def Let_def)
  have e: "s \<noteq> [] \<and> isNaN (num (strip_price s)) \<longrightarrow>
      money_Laptops num isNaN fmt (Str s) = s \<and>
      money_Budget num isNaN fmt (Str s) = Some s"
    by (simp add: money_Laptops_def money_Budget_def Let_def)
  have f: "raw \<in> {Null, Undefined, Str []} \<longrightarrow>
      money_Laptops num isNaN fmt raw = [] \<and> money_Budget num isNaN fmt raw = None"
    by (auto simp: money_Laptops_def money_Budget_def)
  from c1 c2 c3 c4 c5 c6 c6' c7 a b c d e f show ?thesis
    by (intro conjI)
qed

theorem C6_price_normalization_witness:
  "strip_price ''KSh 1,200.50'' = ''1200.50'' \<and>
   normalize_price (\<lambda>r. if r = ''1200.50'' then 1 else (0::nat)) (\<lambda>k. k = 0) (\<lambda>k. ''1,200.5'')
     \<lparr>salePrice = Null, price = Str ''KSh 1,200.50'', regularPrice = Str ''1500'', onSale = True\<rparr>
     = ''Ksh 1,200.5'' \<and>
   price_display (\<lambda>r. if r = ''1200.50'' then 1 else (0::nat)) (\<lambda>k. k = 0) (\<lambda>k. ''1,200.5'')
     \<lparr>salePrice = Null, price = Str ''KSh 1,200.50'', regularPrice = Str ''1500'', onSale = True\<rparr>
     = ''1,200.5 KSh'' \<and>
   price_display (\<lambda>r. if r = ''1200.50'' then 1 else (0::nat)) (\<lambda>k. k = 0) (\<lambda>k. ''1,200.5'')
     \<lparr>salePrice = Str [], price = Null, regularPrice = Undefined, onSale = True\<rparr>
     = em_dash \<and>
   normalize_price (\<lambda>r. if r = ''1200.50'' then 1 else (0::nat)) (\<lambda>k. k = 0) (\<lambda>k. ''1,200.5'')
     \<lparr>salePrice = Str [], price = Null, regularPrice = Undefined, onSale = True\<rparr>
     = [] \<and>
   money_Laptops (\<lambda>r. if r = ''1200.50'' then 1 else (0::nat)) (\<lambda>k. k = 0) (\<lambda>k. ''1,200.5'')
     (Str ''KSh 1,200.50'') = ''Ksh 1,200.5'' \<and>
   money_Budget (\<lambda>r. if r = ''1200.50'' then 1 else (0::nat)) (\<lambda>k. k = 0) (\<lambda>k. ''1,200.5'')
     (Str ''KSh 1,200.50'') = Some ''1,200.5 KSh'' \<and>
   money_Laptops (\<lambda>r. if r = ''1200.50'' then 1 else (0::nat)) (\<lambda>k. k = 0) (\<lambda>k. ''1,200.5'')
     (Str ''1.2.3'') = ''1.2.3'' \<and>
   money_Laptops (\<lambda>r. if r = ''1200.50'' then 1 else (0::nat)) (\<lambda>k. k = 0) (\<lambda>k. ''1,200.5'')
     Null = [] \<and>
   normalize_oldPrice (\<lambda>r. if r = ''1200.50'' then 1 else (0::nat)) (\<lambda>k. k = 0) (\<lambda>k. ''1,200.5'')
     \<lparr>salePrice = Null, price = Str ''KSh 1,200.50'', regularPrice = Str ''1500'', onSale = True\<rparr>
     = Some ''1500'' \<and>
   crossed_out_Budget (\<lambda>r. if r = ''1200.50'' then 1 else (0::nat)) (\<lambda>k. False) (\<lambda>k. False)
     (\<lambda>k. ''1,500'')
     \<lparr>salePrice = Null, price = Str ''KSh 1,200.50'', regularPrice = Str ''1500'', onSale = True\<rparr>
     = Some ''1,500 KSh'' \<and>
   current_price
     \<lparr>salePrice = Null, price = Str ''KSh 1,200.50'', regularPrice = Str ''1500'', onSale = True\<rparr>
     = Str ''KSh 1,200.50''"
proof -
  let ?num = "\<lambda>r. if r = ''1200.50'' then 1 else (0::nat)"
  let ?isNaN = "\<lambda>k::nat. k = 0"
  let ?never = "\<lambda>k::nat. False"
  let ?fmt = "\<lambda>k::nat. ''1,200.5''"
  let ?other = "\<lambda>k::nat. ''1,500''"
  let ?n = "\<lparr>salePrice = Null, price = Str ''KSh 1,200.50'', regularPrice = Str ''1500'',
             onSale = True\<rparr>"
  let ?e = "\<lparr>salePrice = Str [], price = Null, regularPrice = Undefined, onSale = True\<rparr>"
  have s: "strip_price ''KSh 1,200.50'' = ''1200.50''" "strip_price ''1.2.3'' = ''1.2.3''"
    "strip_price ''1500'' = ''1500''"
    by (simp_all add: strip_price_def keeps_def)
  have cp: "current_price ?n = Str ''KSh 1,200.50''"
    by (simp add: current_price_def js_or_def)
  have h0: "\<not> truthy (salePrice ?e) \<and> \<not> truthy (price ?e) \<and> \<not> truthy (regularPrice ?e)"
    by simp
  have h1: "''KSh 1,200.50'' \<noteq> [] \<and> \<not> ?isNaN (?num (strip_price ''KSh 1,200.50''))"
    by (simp add: s)
  have h2: "''1.2.3'' \<noteq> [] \<and> ?isNaN (?num (strip_price ''1.2.3''))"
    by (simp add: s)
  have h4: "Null \<in> {Null, Undefined, Str []}"
    by simp
  have h5: "crossed_out_Budget ?num ?never ?never ?other ?n = Some ''1,500 KSh''"
    by (simp add: crossed_out_Budget_def price_max_ksh_def)
  note T1 = C6_price_normalization [of ?n "''KSh 1,200.50''" ?num ?isNaN ?fmt ?never
      "''KSh 1,200.50''" Null]
  note T2 = C6_price_normalization [of ?e "''KSh 1,200.50''" ?num ?isNaN ?fmt ?never
      "''1.2.3''" Null]
  note T3 = C6_price_normalization [of ?n "''KSh 1,200.50''" ?num ?never ?other ?never
      "''1.2.3''" Null]
  have a: "normalize_price ?num ?isNaN ?fmt ?n = ''Ksh 1,200.5''"
    "price_display ?num ?isNaN ?fmt ?n = ''1,200.5 KSh''"
    using mp [OF conjunct1 [OF conjunct2 [OF T1]] cp] h1 by (simp_all add: s)
  have b: "price_display ?num ?isNaN ?fmt ?e = em_dash" "normalize_price ?num ?isNaN ?fmt ?e = []"
    using mp [OF conjunct1 [OF conjunct2 [OF conjunct2 [OF T2]]] h0] by simp_all
  have c: "normalize_oldPrice ?num ?isNaN ?fmt ?n = Some ''1500''"
    using conjunct1 [OF conjunct2 [OF conjunct2 [OF conjunct2 [OF T1]]]]
    by (simp add: money_Laptops_def s)
  have d: "onSale ?n \<and> truthy (regularPrice ?n)"
    using conjunct1 [OF conjunct2 [OF conjunct2 [OF conjunct2 [OF conjunct2 [OF conjunct2
      [OF conjunct2 [OF conjunct2 [OF T3]]]]]]]] h5 by simp
  from T1 T2 h1 h2 h4 s a b c d h5 cp
  show ?thesis by simp
qed

subsection \<open>C3: the Authorization header\<close>

lemma truthy_or_null_Some: "truthy_or_null x = Some v \<longleftrightarrow> x = Some v \<and> json_truthy v"
  by (auto simp: truthy_or_null_def split: option.splits)

text \<open>
  Claim C3. When \<^verbatim>\<open>localStorage\<close> holds under \<^verbatim>\<open>"wpjwt"\<close> a non-empty text that parses as
  JSON with a truthy \<^verbatim>\<open>authToken\<close> member \<open>t\<close>, the outgoing headers are the given headers
  with \<^verbatim>\<open>Authorization\<close> set to \<^verbatim>\<open>"Bearer "\<close> followed by \<open>t\<close> (by \<open>t\<close> itself when it is a
  non-empty string). When the key is absent, the text does not parse, the parsed value
  has no \<^verbatim>\<open>authToken\<close> or an empty one, the headers are the given headers, unchanged.
\<close>

theorem C3_authLink:
  "(ls ''wpjwt'' = Some raw \<and> raw \<noteq> [] \<and> parse raw = Some v \<and>
      get_prop v ''authToken'' = Some t \<and> json_truthy t \<longrightarrow>
      authLink parse ls headers = headers(''Authorization'' \<mapsto> ''Bearer '' @ js_to_string t)) \<and>
   (ls ''wpjwt'' = Some raw \<and> raw \<noteq> [] \<and> parse raw = Some v \<and>
      get_prop v ''authToken'' = Some (JStr tok) \<and> tok \<noteq> [] \<longrightarrow>
      authLink parse ls headers = headers(''Authorization'' \<mapsto> ''Bearer '' @ tok)) \<and>
   (ls ''wpjwt'' = None \<longrightarrow> authLink parse ls headers = headers) \<and>
   (ls ''wpjwt'' = Some raw \<and> parse raw = None \<longrightarrow> authLink parse ls headers = headers) \<and>
   (ls ''wpjwt'' = Some raw \<and> parse raw = Some v \<and>
      get_prop v ''authToken'' \<in> {None, Some (JStr []), Some JNull} \<longrightarrow>
      authLink parse ls headers = headers)"
  by (auto simp: authLink_def getAuthToken_def truthy_or_null_def)

theorem C3_authLink_witness:
  "authLink (\<lambda>s. if s = ''{authToken:abc}'' then Some (JObj [(''authToken'', JStr ''abc'')])
                 else if s = ''{authToken:}'' then Some (JObj [(''authToken'', JStr [])])
                 else None)
     [''wpjwt'' \<mapsto> ''{authToken:abc}''] [''Accept'' \<mapsto> ''*/*'']
     = [''Accept'' \<mapsto> ''*/*'', ''Authorization'' \<mapsto> ''Bearer abc''] \<and>
   authLink (\<lambda>s. if s = ''{authToken:abc}'' then Some (JObj [(''authToken'', JStr ''abc'')])
                 else if s = ''{authToken:}'' then Some (JObj [(''authToken'', JStr [])])
                 else None)
     [''wpjwt'' \<mapsto> ''{authToken:}''] [''Accept'' \<mapsto> ''*/*'']
     = [''Accept'' \<mapsto> ''*/*''] \<and>
   authLink (\<lambda>s. if s = ''{authToken:abc}'' then Some (JObj [(''authToken'', JStr ''abc'')])
                 else if s = ''{authToken:}'' then Some (JObj [(''authToken'', JStr [])])
                 else None)
     [''wpjwt'' \<mapsto> ''{authToken''] [''Accept'' \<mapsto> ''*/*'']
     = [''Accept'' \<mapsto> ''*/*''] \<and>
   authLink (\<lambda>s. if s = ''{authToken:abc}'' then Some (JObj [(''authToken'', JStr ''abc'')])
                 else if s = ''{authToken:}'' then Some (JObj [(''authToken'', JStr [])])
                 else None)
     [''other'' \<mapsto> ''x''] [''Accept'' \<mapsto> ''*/*'']
     = [''Accept'' \<mapsto> ''*/*'']"
proof -
  let ?parse = "\<lambda>s. if s = ''{authToken:abc}'' then Some (JObj [(''authToken'', JStr ''abc'')])
                 else if s = ''{authToken:}'' then Some (JObj [(''authToken'', JStr [])])
                 else None"
  let ?h = "[''Accept'' \<mapsto> ''*/*'']"
  have g: "get_prop (JObj [(''authToken'', JStr ''abc'')]) ''authToken'' = Some (JStr ''abc'')"
    "get_prop (JObj [(''authToken'', JStr [])]) ''authToken'' \<in> {None, Some (JStr []), Some JNull}"
    by (simp_all add: get_prop_def)
  have a: "authLink ?parse [''wpjwt'' \<mapsto> ''{authToken:abc}''] ?h
             = ?h(''Authorization'' \<mapsto> ''Bearer '' @ ''abc'')"
    using C3_authLink [of "[''wpjwt'' \<mapsto> ''{authToken:abc}'']" "''{authToken:abc}''" ?parse
        "JObj [(''authToken'', JStr ''abc'')]" "JStr ''abc''" ?h "''abc''"] g
    by simp
  have b: "authLink ?parse [''wpjwt'' \<mapsto> ''{authToken:}''] ?h = ?h"
    using C3_authLink [of "[''wpjwt'' \<mapsto> ''{authToken:}'']" "''{authToken:}''" ?parse
        "JObj [(''authToken'', JStr [])]" JNull ?h "[]"] g
    by auto
  have c: "authLink ?parse [''wpjwt'' \<mapsto> ''{authToken''] ?h = ?h"
    using C3_authLink [of "[''wpjwt'' \<mapsto> ''{authToken'']" "''{authToken''" ?parse
        JNull JNull ?h "[]"]
    by simp
  have d: "authLink ?parse [''other'' \<mapsto> ''x''] ?h = ?h"
    using C3_authLink [of "[''other'' \<mapsto> ''x'']" "[]" ?parse JNull JNull ?h "[]"]
    by simp
  from a b c d show ?thesis by simp
qed

subsection \<open>C4: one key for the auth state\<close>

lemma readers_same_key:
  assumes "ls ''wpjwt'' = ls' ''wpjwt''"
  shows "getAuthToken parse ls = getAuthToken parse ls'"
    and "readJWT parse ls = readJWT parse ls'"
    and "getAccessToken parse ls = getAccessToken parse ls'"
    and "getUser parse ls = getUser parse ls'"
  using assms by (simp_all add: getAuthToken_def readJWT_def getAccessToken_def getUser_def)

lemma login_success:
  assumes "identifier \<noteq> []" "password \<noteq> []"
    and "get_prop payload ''authToken'' = Some t" "json_truthy t"
  shows "handleSubmit stringify identifier password (Inr (Some payload)) ls =
           (ls(''wpjwt'' \<mapsto> stringify (login_object payload)),
            [SetState ''error'', Request ''Login'',
             SetItem ''wpjwt'' (stringify (login_object payload)),
             DispatchAuth, ToastSuccess ''Login successful!'', Navigate ''/''])"
  using assms by (simp add: handleSubmit_def truthy_or_null_def Let_def)

lemma login_object_full:
  assumes "get_prop payload ''authToken'' = Some t"
    and "get_prop payload ''refreshToken'' = Some r"
    and "get_prop payload ''user'' = Some u"
  shows "login_object payload = JObj [(''authToken'', t), (''refreshToken'', r), (''user'', u)]"
  using assms by (simp add: login_object_def)

text \<open>The stored object has the three members of the payload, each as the payload has it.\<close>

lemma get_prop_login_object:
  shows "get_prop (login_object payload) ''authToken'' = get_prop payload ''authToken''"
    and "get_prop (login_object payload) ''refreshToken'' = get_prop payload ''refreshToken''"
    and "get_prop (login_object payload) ''user'' = get_prop payload ''user''"
  by (cases "get_prop payload ''authToken''"; cases "get_prop payload ''refreshToken''";
      cases "get_prop payload ''user''"; simp add: login_object_def get_prop_def)+

text \<open>What the readers return when the text under the key parses.\<close>

lemma readers_stored:
  assumes "ls ''wpjwt'' = Some raw" "raw \<noteq> []" "parse raw = Some v"
  shows "readJWT parse ls = v"
    and "getAuthToken parse ls = truthy_or_null (get_prop v ''authToken'')"
    and "getAccessToken parse ls = truthy_or_null (get_prop v ''authToken'')"
    and "getUser parse ls = truthy_or_null (get_prop v ''user'')"
  using assms by (simp_all add: readJWT_def getAuthToken_def getAccessToken_def getUser_def)

text \<open>What the readers return when the key is absent, empty, or its text does not parse.\<close>

lemma readers_unparsable:
  assumes "ls ''wpjwt'' = Some raw" "raw \<noteq> []" "parse raw = None"
  shows "readJWT parse ls = JNull"
    and "getAuthToken parse ls = None"
    and "getAccessToken parse ls = None"
    and "getUser parse ls = None"
  using assms
  by (simp_all add: readJWT_def getAuthToken_def getAccessToken_def getUser_def get_prop_def
      truthy_or_null_def)

lemma after_clearAuth:
  assumes "parse ''null'' = Some JNull"
  shows "getAccessToken parse (clearAuth ls) = None" and "getUser parse (clearAuth ls) = None"
    and "getAuthToken parse (clearAuth ls) = None"
  using assms
  by (simp_all add: getAccessToken_def getUser_def getAuthToken_def readJWT_def clearAuth_def
      get_prop_def truthy_or_null_def)

text \<open>The readers after a successful login, when the stored text parses back.\<close>

lemma login_round_trip:
  assumes "identifier \<noteq> []" "password \<noteq> []"
    and "get_prop payload ''authToken'' = Some t" "json_truthy t"
    and "stringify (login_object payload) \<noteq> []"
    and "parse (stringify (login_object payload)) = Some (login_object payload)"
  shows "readJWT parse (fst (handleSubmit stringify identifier password (Inr (Some payload)) ls))
           = login_object payload"
    and "getAuthToken parse (fst (handleSubmit stringify identifier password (Inr (Some payload)) ls))
           = Some t"
    and "getAccessToken parse (fst (handleSubmit stringify identifier password (Inr (Some payload)) ls))
           = Some t"
    and "getUser parse (fst (handleSubmit stringify identifier password (Inr (Some payload)) ls))
           = truthy_or_null (get_prop payload ''user'')"
proof -
  let ?ls' = "fst (handleSubmit stringify identifier password (Inr (Some payload)) ls)"
  have s: "?ls' ''wpjwt'' = Some (stringify (login_object payload))"
    using assms(1-4) by (simp add: login_success)
  note st = readers_stored [of ?ls' "stringify (login_object payload)" parse "login_object payload",
      OF s assms(5) assms(6)]
  show "readJWT parse ?ls' = login_object payload"
    using st(1) .
  show "getAuthToken parse ?ls' = Some t"
    using st(2) assms(3,4) by (simp add: get_prop_login_object truthy_or_null_def)
  show "getAccessToken parse ?ls' = Some t"
    using st(3) assms(3,4) by (simp add: get_prop_login_object truthy_or_null_def)
  show "getUser parse ?ls' = truthy_or_null (get_prop payload ''user'')"
    using st(4) by (simp add: get_prop_login_object)
qed

text \<open>
  Claim C4. A successful login (both fields filled, the mutation resolves with a truthy
  \<^verbatim>\<open>authToken\<close>) writes the stringified object of \<^verbatim>\<open>authToken\<close>, \<^verbatim>\<open>refreshToken\<close> and \<^verbatim>\<open>user\<close>
  under \<^verbatim>\<open>"wpjwt"\<close> and changes no other key. The readers read that key and nothing else:
  when the text under \<^verbatim>\<open>"wpjwt"\<close> is not empty and parses to \<open>v\<close>, \<^verbatim>\<open>readJWT\<close> returns \<open>v\<close>,
  \<^verbatim>\<open>getAuthToken\<close> and \<^verbatim>\<open>getAccessToken\<close> return \<open>v.authToken || null\<close> and \<^verbatim>\<open>getUser\<close> returns
  \<open>v.user || null\<close>; when it does not parse they return \<^verbatim>\<open>null\<close>; and two storages that
  agree on \<^verbatim>\<open>"wpjwt"\<close> give the same results. So after a successful login whose stored text
  parses back to the stored object, \<^verbatim>\<open>getAuthToken\<close> and \<^verbatim>\<open>getAccessToken\<close> return the
  \<^verbatim>\<open>authToken\<close> of the payload, \<^verbatim>\<open>getUser\<close> its \<^verbatim>\<open>user\<close> (or \<^verbatim>\<open>null\<close> when that is falsy) and
  \<^verbatim>\<open>readJWT\<close> the stored object. \<^verbatim>\<open>clearAuth\<close> removes that key and leaves every other key as
  it is, and afterwards \<^verbatim>\<open>getAccessToken()\<close> and \<^verbatim>\<open>getUser()\<close> are \<^verbatim>\<open>null\<close>
  (\<^verbatim>\<open>JSON.parse("null")\<close> being \<^verbatim>\<open>null\<close>).
\<close>

theorem C4_single_key:
  "(identifier \<noteq> [] \<and> password \<noteq> [] \<and> get_prop payload ''authToken'' = Some t \<and>
      json_truthy t \<and> get_prop payload ''refreshToken'' = Some r \<and>
      get_prop payload ''user'' = Some u \<longrightarrow>
      fst (handleSubmit stringify identifier password (Inr (Some payload)) ls) =
        ls(''wpjwt'' \<mapsto>
             stringify (JObj [(''authToken'', t), (''refreshToken'', r), (''user'', u)])) \<and>
      (\<forall>k. k \<noteq> ''wpjwt'' \<longrightarrow>
         fst (handleSubmit stringify identifier password (Inr (Some payload)) ls) k = ls k)) \<and>
   (ls ''wpjwt'' = ls' ''wpjwt'' \<longrightarrow>
      getAuthToken parse ls = getAuthToken parse ls' \<and>
      readJWT parse ls = readJWT parse ls' \<and>
      getAccessToken parse ls = getAccessToken parse ls' \<and>
      getUser parse ls = getUser parse ls') \<and>
   clearAuth ls ''wpjwt'' = None \<and>
   (\<forall>k. k \<noteq> ''wpjwt'' \<longrightarrow> clearAuth ls k = ls k) \<and>
   (parse ''null'' = Some JNull \<longrightarrow>
      getAccessToken parse (clearAuth ls) = None \<and> getUser parse (clearAuth ls) = None) \<and>
   (ls ''wpjwt'' = Some raw \<and> raw \<noteq> [] \<and> parse raw = Some v \<longrightarrow>
      readJWT parse ls = v \<and>
      getAuthToken parse ls = truthy_or_null (get_prop v ''authToken'') \<and>
      getAccessToken parse ls = truthy_or_null (get_prop v ''authToken'') \<and>
      getUser parse ls = truthy_or_null (get_prop v ''user'')) \<and>
   (ls ''wpjwt'' = Some raw \<and> raw \<noteq> [] \<and> parse raw = None \<longrightarrow>
      readJWT parse ls = JNull \<and> getAuthToken parse ls = None \<and>
      getAccessToken parse ls = None \<and> getUser parse ls = None) \<and>
   (identifier \<noteq> [] \<and> password \<noteq> [] \<and> get_prop payload ''authToken'' = Some t \<and>
      json_truthy t \<and> stringify (login_object payload) \<noteq> [] \<and>
      parse (stringify (login_object payload)) = Some (login_object payload) \<longrightarrow>
      readJWT parse (fst (handleSubmit stringify identifier password (Inr (Some payload)) ls))
        = login_object payload \<and>
      getAuthToken parse (fst (handleSubmit stringify identifier password (Inr (Some payload)) ls))
        = Some t \<and>
      getAccessToken parse (fst (handleSubmit stringify identifier password (Inr (Some payload)) ls))
        = Some t \<and>
      getUser parse (fst (handleSubmit stringify identifier password (Inr (Some payload)) ls))
        = truthy_or_null (get_prop payload ''user''))"
proof -
  have a: "identifier \<noteq> [] \<and> password \<noteq> [] \<and> get_prop payload ''authToken'' = Some t \<and>
      json_truthy t \<and> get_prop payload ''refreshToken'' = Some r \<and>
      get_prop payload ''user'' = Some u \<longrightarrow>
      fst (handleSubmit stringify identifier password (Inr (Some payload)) ls) =
        ls(''wpjwt'' \<mapsto>
             stringify (JObj [(''authToken'', t), (''refreshToken'', r), (''user'', u)])) \<and>
      (\<forall>k. k \<noteq> ''wpjwt'' \<longrightarrow>
         fst (handleSubmit stringify identifier password (Inr (Some payload)) ls) k = ls k)"
    by (simp add: login_success login_object_full)
  have b: "ls ''wpjwt'' = ls' ''wpjwt'' \<longrightarrow>
      getAuthToken parse ls = getAuthToken parse ls' \<and>
      readJWT parse ls = readJWT parse ls' \<and>
      getAccessToken parse ls = getAccessToken parse ls' \<and>
      getUser parse ls = getUser parse ls'"
    using readers_same_key [of ls ls' parse] by blast
  have c: "clearAuth ls ''wpjwt'' = None" "\<forall>k. k \<noteq> ''wpjwt'' \<longrightarrow> clearAuth ls k = ls k"
    by (simp_all add: clearAuth_def)
  have d: "parse ''null'' = Some JNull \<longrightarrow>
      getAccessToken parse (clearAuth ls) = None \<and> getUser parse (clearAuth ls) = None"
    by (simp add: after_clearAuth)
  have e: "ls ''wpjwt'' = Some raw \<and> raw \<noteq> [] \<and> parse raw = Some v \<longrightarrow>
      readJWT parse ls = v \<and>
      getAuthToken parse ls = truthy_or_null (get_prop v ''authToken'') \<and>
      getAccessToken parse ls = truthy_or_null (get_prop v ''authToken'') \<and>
      getUser parse ls = truthy_or_null (get_prop v ''user'')"
    using readers_stored [of ls raw parse v] by blast
  have f: "ls ''wpjwt'' = Some raw \<and> raw \<noteq> [] \<and> parse raw = None \<longrightarrow>
      readJWT parse ls = JNull \<and> getAuthToken parse ls = None \<and>
      getAccessToken parse ls = None \<and> getUser parse ls = None"
    using readers_unparsable [of ls raw parse] by blast
  have g: "identifier \<noteq> [] \<and> password \<noteq> [] \<and> get_prop payload ''authToken'' = Some t \<and>
      json_truthy t \<and> stringify (login_object payload) \<noteq> [] \<and>
      parse (stringify (login_object payload)) = Some (login_object payload) \<longrightarrow>
      readJWT parse (fst (handleSubmit stringify identifier password (Inr (Some payload)) ls))
        = login_object payload \<and>
      getAuthToken parse (fst (handleSubmit stringify identifier password (Inr (Some payload)) ls))
        = Some t \<and>
      getAccessToken parse (fst (handleSubmit stringify identifier password (Inr (Some payload)) ls))
        = Some t \<and>
      getUser parse (fst (handleSubmit stringify identifier password (Inr (Some payload)) ls))
        = truthy_or_null (get_prop payload ''user'')"
    by (intro impI conjI; elim conjE; rule login_round_trip; assumption)
  from a b c d e f g show ?thesis by (intro conjI)
qed

theorem C4_single_key_witness:
  "fst (handleSubmit (\<lambda>v. ''J'') ''bob'' ''pw''
          (Inr (Some (JObj [(''authToken'', JStr ''tok''), (''refreshToken'', JStr ''ref''),
                            (''user'', JObj [(''id'', JStr ''u1'')])])))
          [''theme'' \<mapsto> ''dark''])
     = [''theme'' \<mapsto> ''dark'', ''wpjwt'' \<mapsto> ''J''] \<and>
   getAccessToken
     (\<lambda>s. if s = ''null'' then Some JNull
          else if s = ''J'' then Some (JObj [(''authToken'', JStr ''tok''),
                 (''refreshToken'', JStr ''ref''), (''user'', JObj [(''id'', JStr ''u1'')])])
          else None)
     (fst (handleSubmit (\<lambda>v. ''J'') ''bob'' ''pw''
          (Inr (Some (JObj [(''authToken'', JStr ''tok''), (''refreshToken'', JStr ''ref''),
                            (''user'', JObj [(''id'', JStr ''u1'')])])))
          [''theme'' \<mapsto> ''dark''])) = Some (JStr ''tok'') \<and>
   getUser
     (\<lambda>s. if s = ''null'' then Some JNull
          else if s = ''J'' then Some (JObj [(''authToken'', JStr ''tok''),
                 (''refreshToken'', JStr ''ref''), (''user'', JObj [(''id'', JStr ''u1'')])])
          else None)
     [''theme'' \<mapsto> ''dark'', ''wpjwt'' \<mapsto> ''J''] = Some (JObj [(''id'', JStr ''u1'')]) \<and>
   getAuthToken
     (\<lambda>s. if s = ''null'' then Some JNull
          else if s = ''J'' then Some (JObj [(''authToken'', JStr ''tok''),
                 (''refreshToken'', JStr ''ref''), (''user'', JObj [(''id'', JStr ''u1'')])])
          else None)
     [''theme'' \<mapsto> ''dark'', ''wpjwt'' \<mapsto> ''{''] = None \<and>
   getAccessToken
     (\<lambda>s. if s = ''null'' then Some JNull
          else if s = ''J'' then Some (JObj [(''authToken'', JStr ''tok''),
                 (''refreshToken'', JStr ''ref''), (''user'', JObj [(''id'', JStr ''u1'')])])
          else None)
     (clearAuth [''theme'' \<mapsto> ''dark'', ''wpjwt'' \<mapsto> ''J'']) = None \<and>
   getUser
     (\<lambda>s. if s = ''null'' then Some JNull
          else if s = ''J'' then Some (JObj [(''authToken'', JStr ''tok''),
                 (''refreshToken'', JStr ''ref''), (''user'', JObj [(''id'', JStr ''u1'')])])
          else None)
     (clearAuth [''theme'' \<mapsto> ''dark'', ''wpjwt'' \<mapsto> ''J'']) = None \<and>
   clearAuth [''theme'' \<mapsto> ''dark'', ''wpjwt'' \<mapsto> ''J''] ''theme'' = Some ''dark'' \<and>
   getAuthToken
     (\<lambda>s. if s = ''null'' then Some JNull
          else if s = ''J'' then Some (JObj [(''authToken'', JStr ''tok''),
                 (''refreshToken'', JStr ''ref''), (''user'', JObj [(''id'', JStr ''u1'')])])
          else None)
       [''theme'' \<mapsto> ''dark'', ''wpjwt'' \<mapsto> ''J'']
     = getAuthToken
     (\<lambda>s. if s = ''null'' then Some JNull
          else if s = ''J'' then Some (JObj [(''authToken'', JStr ''tok''),
                 (''refreshToken'', JStr ''ref''), (''user'', JObj [(''id'', JStr ''u1'')])])
          else None) [''wpjwt'' \<mapsto> ''J'']"
proof -
  let ?t = "JStr ''tok''" and ?r = "JStr ''ref''" and ?u = "JObj [(''id'', JStr ''u1'')]"
  let ?payload = "JObj [(''authToken'', ?t), (''refreshToken'', ?r), (''user'', ?u)]"
  let ?parse = "\<lambda>s. if s = ''null'' then Some JNull
          else if s = ''J'' then Some ?payload else None"
  let ?str = "\<lambda>v::json. ''J''"
  let ?start = "[''theme'' \<mapsto> ''dark'']"
  let ?ls = "[''theme'' \<mapsto> ''dark'', ''wpjwt'' \<mapsto> ''J'']"
  let ?bad = "[''theme'' \<mapsto> ''dark'', ''wpjwt'' \<mapsto> ''{'']"
  have lo: "login_object ?payload = ?payload"
    by (simp add: login_object_def get_prop_def)
  have g: "''bob'' \<noteq> [] \<and> ''pw'' \<noteq> [] \<and> get_prop ?payload ''authToken'' = Some ?t \<and>
      json_truthy ?t \<and> get_prop ?payload ''refreshToken'' = Some ?r \<and>
      get_prop ?payload ''user'' = Some ?u"
    by (simp add: get_prop_def)
  have g2: "''bob'' \<noteq> [] \<and> ''pw'' \<noteq> [] \<and> get_prop ?payload ''authToken'' = Some ?t \<and>
      json_truthy ?t \<and> ?str (login_object ?payload) \<noteq> [] \<and>
      ?parse (?str (login_object ?payload)) = Some (login_object ?payload)"
    by (simp add: get_prop_def lo)
  have k: "?ls ''wpjwt'' = [''wpjwt'' \<mapsto> ''J''] ''wpjwt''"
    by simp
  have n: "?parse ''null'' = Some JNull"
    by simp
  have m: "''theme'' \<noteq> ''wpjwt''"
    by simp
  have st: "?ls ''wpjwt'' = Some ''J'' \<and> ''J'' \<noteq> [] \<and> ?parse ''J'' = Some ?payload"
    by simp
  have bd: "?bad ''wpjwt'' = Some ''{'' \<and> ''{'' \<noteq> [] \<and> ?parse ''{'' = None"
    by simp
  note T1 = C4_single_key [of "''bob''" "''pw''" ?payload ?t ?r ?u ?str ?start ?start ?parse
      "''J''" ?payload]
  note T2 = C4_single_key [of "''bob''" "''pw''" ?payload ?t ?r ?u ?str ?ls
      "[''wpjwt'' \<mapsto> ''J'']" ?parse "''J''" ?payload]
  note T3 = C4_single_key [of "''bob''" "''pw''" ?payload ?t ?r ?u ?str ?bad ?bad ?parse
      "''{''" ?payload]
  note rest1 = conjunct2 [OF conjunct2 [OF conjunct2 [OF conjunct2 [OF conjunct2 [OF T1]]]]]
  note rest2 = conjunct2 [OF conjunct2 [OF conjunct2 [OF conjunct2 [OF conjunct2 [OF T2]]]]]
  note rest3 = conjunct2 [OF conjunct2 [OF conjunct2 [OF conjunct2 [OF conjunct2 [OF T3]]]]]
  have a: "fst (handleSubmit ?str ''bob'' ''pw'' (Inr (Some ?payload)) ?start) = ?ls"
    using mp [OF conjunct1 [OF T1] g] by (rule conjunct1)
  have rt: "getAccessToken ?parse (fst (handleSubmit ?str ''bob'' ''pw'' (Inr (Some ?payload)) ?start))
              = Some ?t"
    using mp [OF conjunct2 [OF conjunct2 [OF rest1]] g2] by (simp only: simp_thms)
  have us: "getUser ?parse ?ls = truthy_or_null (get_prop ?payload ''user'')"
    using mp [OF conjunct1 [OF rest2] st] by (simp only: simp_thms)
  have us': "truthy_or_null (get_prop ?payload ''user'') = Some ?u"
    by (simp add: truthy_or_null_def get_prop_def)
  have un: "getAuthToken ?parse ?bad = None"
    using mp [OF conjunct1 [OF conjunct2 [OF rest3]] bd] by (simp only: simp_thms)
  have b: "getAuthToken ?parse ?ls = getAuthToken ?parse [''wpjwt'' \<mapsto> ''J'']"
    using mp [OF conjunct1 [OF conjunct2 [OF T2]] k] by (rule conjunct1)
  have c: "clearAuth ?ls ''theme'' = ?ls ''theme''"
    using mp [OF spec [OF conjunct1 [OF conjunct2 [OF conjunct2 [OF conjunct2 [OF T2]]]]] m] .
  have d: "getAccessToken ?parse (clearAuth ?ls) = None \<and> getUser ?parse (clearAuth ?ls) = None"
    using conjunct1 [OF conjunct2 [OF conjunct2 [OF conjunct2 [OF conjunct2 [OF T2]]]]] n by (rule mp)
  have e: "?ls ''theme'' = Some ''dark''"
    by simp
  from a rt us us' un b c d e show ?thesis by (simp only: simp_thms)
qed

subsection \<open>C2: failed requests\<close>

lemma cart_mutation_failed:
  "cart_mutation opname itemCount (Inl err) rt rc =
     ([SetState ''busyKeys'', Request opname, ConsoleError, Request ''GetCart'',
       SetState ''busyKeys''], rc)"
  by (simp add: cart_mutation_def)

lemma cart_mutation_refetch_failed:
  "cart_mutation opname itemCount (Inr r) False rc =
     ([SetState ''busyKeys'', Request opname,
       DispatchCart \<lparr>count = Some (case r of Some n \<Rightarrow> n | None \<Rightarrow> itemCount),
                     items = None, delta = None\<rparr>,
       Request ''GetCart'', ConsoleError, Request ''GetCart'', SetState ''busyKeys''], rc)"
  by (simp add: cart_mutation_def Let_def)

text \<open>
  Claim C2, as stated, has every failed request of a page component surfaced by a toast,
  with at most one attempt of the failed operation. In the Cart page a failed quantity
  mutation raises no toast: \<^verbatim>\<open>onInc\<close> logs the error to the console and refetches the cart.
  And when the mutation succeeds and the refetch after it fails, the \<^verbatim>\<open>catch\<close> block sends
  the refetch a second time.
\<close>

theorem C2_counterexample:
  "\<not> toasts_error
       (fst (onInc 3 (Inl \<lparr>err_message = Str ''Network error'', err_graphQL = Undefined\<rparr>)
               True True)) \<and>
   attempts ''GetCart'' (fst (onInc 3 (Inr (Some 4)) False True)) = 2"
  by (simp add: onInc_def cart_mutation_def toasts_error_def attempts_def Let_def)

text \<open>
  Claim C2, amended. \<^verbatim>\<open>handleAddToCart\<close> of Laptops and \<^verbatim>\<open>handleSubmit\<close> of LoginForm catch
  a failed mutation and raise \<^verbatim>\<open>toast.error\<close> with the error's message (or their default
  text), having sent the mutation once and nothing after it. \<^verbatim>\<open>onInc\<close>, \<^verbatim>\<open>onDec\<close> and
  \<^verbatim>\<open>onRemove\<close> of Cart catch a failed mutation too, but raise no toast: they log the error
  with \<^verbatim>\<open>console.error\<close> and refetch the cart query once, having sent the mutation once;
  the handler's promise rejects only when that refetch fails. When their mutation
  succeeds and the refetch after it fails, they log that error and refetch once more.
  No handler sends a failed mutation again.
\<close>

theorem C2_failed_requests:
  "handleAddToCart productName (Inl err) =
     [SetState ''addingMap'', Request ''AddToCart'',
      ToastError (js_String (js_or (err_message err) (Str ''Failed to add to cart''))),
      SetState ''addingMap''] \<and>
   (identifier \<noteq> [] \<and> password \<noteq> [] \<longrightarrow>
      handleSubmit stringify identifier password (Inl err) ls =
        (ls, [SetState ''error'', Request ''Login'', SetState ''error'',
              ToastError (js_String (js_or (js_or (err_graphQL err) (err_message err))
                                           (Str ''Invalid credentials. Please try again.'')))])) \<and>
   onInc itemCount (Inl err) rt rc =
     ([SetState ''busyKeys'', Request ''UpdateQty'', ConsoleError, Request ''GetCart'',
       SetState ''busyKeys''], rc) \<and>
   onDec qty_now itemCount (Inl err) rt rc =
     ([SetState ''busyKeys'',
       Request (if qty_now - 1 \<le> 0 then ''RemoveItems'' else ''UpdateQty''),
       ConsoleError, Request ''GetCart'', SetState ''busyKeys''], rc) \<and>
   onRemove itemCount (Inl err) rt rc =
     ([SetState ''busyKeys'', Request ''RemoveItems'', ConsoleError, Request ''GetCart'',
       SetState ''busyKeys''], rc) \<and>
   \<not> toasts_error (fst (onInc itemCount (Inl err) rt rc)) \<and>
   \<not> toasts_error (fst (onDec qty_now itemCount (Inl err) rt rc)) \<and>
   \<not> toasts_error (fst (onRemove itemCount (Inl err) rt rc)) \<and>
   attempts ''UpdateQty'' (fst (onInc itemCount (Inl err) rt rc)) = 1 \<and>
   attempts ''UpdateQty'' (fst (onDec qty_now itemCount (Inl err) rt rc))
     + attempts ''RemoveItems'' (fst (onDec qty_now itemCount (Inl err) rt rc)) = 1 \<and>
   attempts ''RemoveItems'' (fst (onRemove itemCount (Inl err) rt rc)) = 1 \<and>
   attempts ''AddToCart'' (handleAddToCart productName (Inl err)) = 1 \<and>
   attempts ''Login'' (snd (handleSubmit stringify identifier password (Inl err) ls)) \<le> 1 \<and>
   onInc itemCount (Inr r) False rc =
     ([SetState ''busyKeys'', Request ''UpdateQty'',
       DispatchCart \<lparr>count = Some (case r of Some n \<Rightarrow> n | None \<Rightarrow> itemCount),
                     items = None, delta = None\<rparr>,
       Request ''GetCart'', ConsoleError, Request ''GetCart'', SetState ''busyKeys''], rc) \<and>
   onRemove itemCount (Inr r) False rc =
     ([SetState ''busyKeys'', Request ''RemoveItems'',
       DispatchCart \<lparr>count = Some (case r of Some n \<Rightarrow> n | None \<Rightarrow> itemCount),
                     items = None, delta = None\<rparr>,
       Request ''GetCart'', ConsoleError, Request ''GetCart'', SetState ''busyKeys''], rc) \<and>
   onDec qty_now itemCount (Inr r) False rc =
     ([SetState ''busyKeys'',
       Request (if qty_now - 1 \<le> 0 then ''RemoveItems'' else ''UpdateQty''),
       DispatchCart \<lparr>count = Some (case r of Some n \<Rightarrow> n | None \<Rightarrow> itemCount),
                     items = None, delta = None\<rparr>,
       Request ''GetCart'', ConsoleError, Request ''GetCart'', SetState ''busyKeys''], rc)"
proof -
  have a: "handleAddToCart productName (Inl err) =
     [SetState ''addingMap'', Request ''AddToCart'',
      ToastError (js_String (js_or (err_message err) (Str ''Failed to add to cart''))),
      SetState ''addingMap'']"
    by (simp add: handleAddToCart_def)
  have b: "identifier \<noteq> [] \<and> password \<noteq> [] \<longrightarrow>
      handleSubmit stringify identifier password (Inl err) ls =
        (ls, [SetState ''error'', Request ''Login'', SetState ''error'',
              ToastError (js_String (js_or (js_or (err_graphQL err) (err_message err))
                                           (Str ''Invalid credentials. Please try again.'')))])"
    by (simp add: handleSubmit_def login_failed_def)
  have c: "onInc itemCount (Inl err) rt rc =
     ([SetState ''busyKeys'', Request ''UpdateQty'', ConsoleError, Request ''GetCart'',
       SetState ''busyKeys''], rc)"
    "onDec qty_now itemCount (Inl err) rt rc =
     ([SetState ''busyKeys'',
       Request (if qty_now - 1 \<le> 0 then ''RemoveItems'' else ''UpdateQty''),
       ConsoleError, Request ''GetCart'', SetState ''busyKeys''], rc)"
    "onRemove itemCount (Inl err) rt rc =
     ([SetState ''busyKeys'', Request ''RemoveItems'', ConsoleError, Request ''GetCart'',
       SetState ''busyKeys''], rc)"
    by (simp_all add: onInc_def onDec_def onRemove_def cart_mutation_failed)
  have d: "\<not> toasts_error (fst (onInc itemCount (Inl err) rt rc))"
    "\<not> toasts_error (fst (onDec qty_now itemCount (Inl err) rt rc))"
    "\<not> toasts_error (fst (onRemove itemCount (Inl err) rt rc))"
    unfolding c by (simp_all add: toasts_error_def)
  have e: "attempts ''UpdateQty'' (fst (onInc itemCount (Inl err) rt rc)) = 1"
    "attempts ''UpdateQty'' (fst (onDec qty_now itemCount (Inl err) rt rc))
     + attempts ''RemoveItems'' (fst (onDec qty_now itemCount (Inl err) rt rc)) = 1"
    "attempts ''RemoveItems'' (fst (onRemove itemCount (Inl err) rt rc)) = 1"
    unfolding c by (simp_all add: attempts_def)
  have f: "attempts ''AddToCart'' (handleAddToCart productName (Inl err)) = 1"
    unfolding a by (simp add: attempts_def)
  have g: "attempts ''Login'' (snd (handleSubmit stringify identifier password (Inl err) ls)) \<le> 1"
    by (simp add: handleSubmit_def login_failed_def attempts_def)
  have h: "onInc itemCount (Inr r) False rc =
     ([SetState ''busyKeys'', Request ''UpdateQty'',
       DispatchCart \<lparr>count = Some (case r of Some n \<Rightarrow> n | None \<Rightarrow> itemCount),
                     items = None, delta = None\<rparr>,
       Request ''GetCart'', ConsoleError, Request ''GetCart'', SetState ''busyKeys''], rc)"
    "onRemove itemCount (Inr r) False rc =
     ([SetState ''busyKeys'', Request ''RemoveItems'',
       DispatchCart \<lparr>count = Some (case r of Some n \<Rightarrow> n | None \<Rightarrow> itemCount),
                     items = None, delta = None\<rparr>,
       Request ''GetCart'', ConsoleError, Request ''GetCart'', SetState ''busyKeys''], rc)"
    "onDec qty_now itemCount (Inr r) False rc =
     ([SetState ''busyKeys'',
       Request (if qty_now - 1 \<le> 0 then ''RemoveItems'' else ''UpdateQty''),
       DispatchCart \<lparr>count = Some (case r of Some n \<Rightarrow> n | None \<Rightarrow> itemCount),
                     items = None, delta = None\<rparr>,
       Request ''GetCart'', ConsoleError, Request ''GetCart'', SetState ''busyKeys''], rc)"
    by (simp_all add: onInc_def onDec_def onRemove_def cart_mutation_refetch_failed)
  show ?thesis
    by (intro conjI) (rule a b c d e f g h)+
qed

theorem C2_failed_requests_witness:
  "handleSubmit (\<lambda>v. ''J'') ''bob'' ''wrong''
      (Inl \<lparr>err_message = Str ''Response not successful'', err_graphQL = Str ''invalid_password''\<rparr>)
      [''theme'' \<mapsto> ''dark'']
     = ([''theme'' \<mapsto> ''dark''],
        [SetState ''error'', Request ''Login'', SetState ''error'', ToastError ''invalid_password'']) \<and>
   handleAddToCart ''ThinkPad'' (Inl \<lparr>err_message = Undefined, err_graphQL = Undefined\<rparr>)
     = [SetState ''addingMap'', Request ''AddToCart'', ToastError ''Failed to add to cart'',
        SetState ''addingMap'']"
proof -
  let ?e = "\<lparr>err_message = Str ''Response not successful'', err_graphQL = Str ''invalid_password''\<rparr>"
  let ?u = "\<lparr>err_message = Undefined, err_graphQL = Undefined\<rparr>"
  have n: "''bob'' \<noteq> [] \<and> ''wrong'' \<noteq> []"
    by simp
  note T1 = C2_failed_requests [of "''ThinkPad''" ?e "''bob''" "''wrong''" "\<lambda>v. ''J''"
      "[''theme'' \<mapsto> ''dark'']" 0 True True 1 None]
  note T2 = C2_failed_requests [of "''ThinkPad''" ?u "''bob''" "''wrong''" "\<lambda>v. ''J''"
      "[''theme'' \<mapsto> ''dark'']" 0 True True 1 None]
  have a: "handleSubmit (\<lambda>v. ''J'') ''bob'' ''wrong'' (Inl ?e) [''theme'' \<mapsto> ''dark'']
     = ([''theme'' \<mapsto> ''dark''],
        [SetState ''error'', Request ''Login'', SetState ''error'',
         ToastError (js_String (js_or (js_or (err_graphQL ?e) (err_message ?e))
                                           (Str ''Invalid credentials. Please try again.'')))])"
    using mp [OF conjunct1 [OF conjunct2 [OF T1]] n] .
  have b: "handleAddToCart ''ThinkPad'' (Inl ?u) =
     [SetState ''addingMap'', Request ''AddToCart'',
      ToastError (js_String (js_or (err_message ?u) (Str ''Failed to add to cart''))),
      SetState ''addingMap'']"
    using conjunct1 [OF T2] .
  from a b show ?thesis
    by (simp add: js_or_def)
qed

subsection \<open>C8: the password-reset round trip\<close>

lemma of_char_less_256: "(of_char (c :: char) :: nat) < 256"
  by (cases c) simp

lemma hexval_hexdigit: "k < 16 \<Longrightarrow> hexval (hexdigit k) = Some k"
  by (auto simp: hexval_def hexdigit_def Let_def)

lemma unreserved_not_special: "unreserved c \<Longrightarrow> \<not> special c \<and> c \<noteq> CHR ''%''"
  by (auto simp: unreserved_def special_def Let_def)

lemma of_char_hexdigit:
  "k < 16 \<Longrightarrow> (of_char (hexdigit k) :: nat) = (if k < 10 then 48 + k else 55 + k)"
  by (simp add: hexdigit_def)

lemma char_eq_of_char: "c = d \<longleftrightarrow> (of_char c :: nat) = of_char d"
  by simp

lemma hexdigit_not_special: "k < 16 \<Longrightarrow> \<not> special (hexdigit k)"
  unfolding special_def insert_iff empty_iff char_eq_of_char [of "hexdigit k"]
  by (simp add: of_char_hexdigit)

lemma nibbles_less: "(of_char (c :: char) :: nat) div 16 < 16" "(of_char c :: nat) mod 16 < 16"
  using of_char_less_256 [of c] by arith+

lemma rawurlencode_char_not_special: "c' \<in> set (rawurlencode_char c) \<Longrightarrow> \<not> special c'"
  using unreserved_not_special [of c] hexdigit_not_special [OF nibbles_less(1), of c]
    hexdigit_not_special [OF nibbles_less(2), of c]
  by (auto simp: rawurlencode_char_def special_def split: if_splits)

lemma rawurlencode_not_special: "c \<in> set (rawurlencode s) \<Longrightarrow> \<not> special c"
  by (auto simp: rawurlencode_def rawurlencode_char_not_special)

lemma percent_decode_plain:
  "c \<noteq> CHR ''%'' \<Longrightarrow> percent_decode (c # cs) = c # percent_decode cs"
  by (cases "(c # cs)" rule: percent_decode.cases) simp_all

lemma percent_decode_hex:
  "hexval d = Some h \<Longrightarrow> hexval e = Some l \<Longrightarrow>
   percent_decode (CHR ''%'' # d # e # cs) = char_of (16 * h + l) # percent_decode cs"
  by simp

lemma percent_decode_rawurlencode_char:
  "percent_decode (rawurlencode_char c @ cs) = c # percent_decode cs"
proof (cases "unreserved c")
  case True
  then show ?thesis
    using unreserved_not_special [of c] by (simp add: rawurlencode_char_def percent_decode_plain)
next
  case False
  note lt = nibbles_less [of c]
  have "char_of (16 * ((of_char c :: nat) div 16) + (of_char c :: nat) mod 16) = c"
    by simp
  with False show ?thesis
    by (simp add: rawurlencode_char_def
        percent_decode_hex [OF hexval_hexdigit [OF lt(1)] hexval_hexdigit [OF lt(2)]]
        del: percent_decode.simps)
qed

lemma percent_decode_rawurlencode: "percent_decode (rawurlencode s) = s"
  by (induction s) (simp_all add: rawurlencode_def percent_decode_rawurlencode_char)

text \<open>The decoder gives back the text of which it reads the encoding.\<close>

lemma utf8_bytes_less: "scalar k \<Longrightarrow> b \<in> set (utf8_bytes k) \<Longrightarrow> b < 256"
  unfolding utf8_bytes_def scalar_def by (auto split: if_splits)

lemma start_ascii:
  "b < 128 \<Longrightarrow> utf8_decode_from cp 0 lo hi (b # bs) = b # utf8_decode_from 0 0 128 191 bs"
  by (subst utf8_decode_from.simps) simp

lemma start_2:
  "194 \<le> b \<Longrightarrow> b \<le> 223 \<Longrightarrow>
   utf8_decode_from cp 0 lo hi (b # bs) = utf8_decode_from (b mod 32) 1 128 191 bs"
  by (subst utf8_decode_from.simps) simp

lemma start_3:
  "224 \<le> b \<Longrightarrow> b \<le> 239 \<Longrightarrow>
   utf8_decode_from cp 0 lo hi (b # bs) =
     utf8_decode_from (b mod 16) (Suc (Suc 0)) (if b = 224 then 160 else 128)
       (if b = 237 then 159 else 191) bs"
  by (subst utf8_decode_from.simps) (simp add: numeral_2_eq_2)

lemma start_4:
  "240 \<le> b \<Longrightarrow> b \<le> 244 \<Longrightarrow>
   utf8_decode_from cp 0 lo hi (b # bs) =
     utf8_decode_from (b mod 8) (Suc (Suc (Suc 0))) (if b = 240 then 144 else 128)
       (if b = 244 then 143 else 191) bs"
  by (subst utf8_decode_from.simps) (simp add: numeral_3_eq_3)

lemma cont_last:
  "lo \<le> b \<Longrightarrow> b \<le> hi \<Longrightarrow>
   utf8_decode_from cp (Suc 0) lo hi (b # bs) = (cp * 64 + b mod 64) # utf8_decode_from 0 0 128 191 bs"
  by (subst utf8_decode_from.simps) simp

lemma cont_more:
  "lo \<le> b \<Longrightarrow> b \<le> hi \<Longrightarrow>
   utf8_decode_from cp (Suc (Suc n)) lo hi (b # bs) =
     utf8_decode_from (cp * 64 + b mod 64) (Suc n) 128 191 bs"
  by (subst utf8_decode_from.simps) simp

lemma mod_high: "c < m \<Longrightarrow> (q * m + c) mod m = (c::nat)"
  by simp

lemma split64: "\<exists>a c. k = a * 64 + c \<and> c < (64::nat)"
  by (rule exI [of _ "k div 64"], rule exI [of _ "k mod 64"]) simp

lemma decode_1:
  assumes "k < 128"
  shows "utf8_decode_from 0 0 128 191 (utf8_bytes k @ bs) = k # utf8_decode_from 0 0 128 191 bs"
  using assms by (simp add: utf8_bytes_def start_ascii)

lemma decode_2:
  assumes "128 \<le> k" "k < 2048"
  shows "utf8_decode_from 0 0 128 191 (utf8_bytes k @ bs) = k # utf8_decode_from 0 0 128 191 bs"
proof -
  obtain a c where k: "k = a * 64 + c" and c: "c < 64"
    using split64 by blast
  from assms k c have a: "2 \<le> a" "a < 32"
    by simp_all
  have b1: "192 + k div 64 = 192 + a" and b2: "128 + k mod 64 = 128 + c"
    using c by (simp_all add: k)
  have m: "(192 + a) mod 32 = a" "(128 + c) mod 64 = c"
    using mod_high [of a 32 6] mod_high [of c 64 2] a c by simp_all
  have "utf8_decode_from 0 0 128 191 ([192 + a, 128 + c] @ bs) = (a * 64 + c) # utf8_decode_from 0 0 128 191 bs"
    using a c by (simp add: start_2 cont_last m)
  then show ?thesis
    using assms by (simp add: utf8_bytes_def b1 b2 k [symmetric])
qed


lemma decode_3:
  assumes "2048 \<le> k" "k < 65536" "scalar k"
  shows "utf8_decode_from 0 0 128 191 (utf8_bytes k @ bs) = k # utf8_decode_from 0 0 128 191 bs"
proof -
  define c where "c = k mod 64"
  define r where "r = k div 64"
  define b where "b = r mod 64"
  define a where "a = r div 64"
  have k: "k = r * 64 + c" and c: "c < 64"
    by (simp_all add: c_def r_def)
  have r: "r = a * 64 + b" and b: "b < 64"
    by (simp_all add: a_def b_def)
  have d: "k div 4096 = a"
    using div_mult2_eq [of k 64 64] by (simp add: a_def r_def)
  from assms(1,2) k c r b have a: "a < 16" "a = 0 \<longrightarrow> 32 \<le> b"
    by arith+
  from assms(3) k c r b have s: "a = 13 \<longrightarrow> b \<le> 31"
    unfolding scalar_def by arith
  have m: "(224 + a) mod 16 = a" "(128 + b) mod 64 = b" "(128 + c) mod 64 = c"
    using mod_high [of a 16 14] mod_high [of b 64 2] mod_high [of c 64 2] a b c by simp_all
  define lo :: nat where "lo = (if 224 + a = 224 then 160 else 128)"
  define hi :: nat where "hi = (if 224 + a = 237 then 159 else 191)"
  have lo: "lo \<le> 128 + b"
    using a by (simp add: lo_def)
  have hi: "128 + b \<le> hi"
    using s b by (simp add: hi_def)
  have s1: "utf8_decode_from 0 0 128 191 ((224 + a) # rest)
              = utf8_decode_from ((224 + a) mod 16) (Suc (Suc 0)) lo hi rest" for rest
    unfolding lo_def hi_def using a by (intro start_3) simp_all
  have s2: "utf8_decode_from a (Suc (Suc 0)) lo hi ((128 + b) # rest)
              = utf8_decode_from (a * 64 + (128 + b) mod 64) (Suc 0) 128 191 rest" for rest
    using lo hi by (rule cont_more)
  have s3: "utf8_decode_from (a * 64 + b) (Suc 0) 128 191 ((128 + c) # rest)
              = ((a * 64 + b) * 64 + (128 + c) mod 64) # utf8_decode_from 0 0 128 191 rest" for rest
    using c by (intro cont_last) simp_all
  have "utf8_decode_from 0 0 128 191 ([224 + a, 128 + b, 128 + c] @ bs)
          = ((a * 64 + b) * 64 + c) # utf8_decode_from 0 0 128 191 bs"
    by (simp only: append_Cons append_Nil s1 m s2 s3)
  then have chain: "utf8_decode_from 0 0 128 191 ([224 + a, 128 + b, 128 + c] @ bs)
          = k # utf8_decode_from 0 0 128 191 bs"
    using k r by simp
  have "utf8_bytes k = [224 + k div 4096, 128 + k div 64 mod 64, 128 + k mod 64]"
    using assms by (simp add: utf8_bytes_def)
  also have "\<dots> = [224 + a, 128 + b, 128 + c]"
    unfolding d b_def r_def c_def ..
  finally show ?thesis
    using chain by (simp only:)
qed

lemma decode_4:
  assumes "65536 \<le> k" "k < 1114112"
  shows "utf8_decode_from 0 0 128 191 (utf8_bytes k @ bs) = k # utf8_decode_from 0 0 128 191 bs"
proof -
  define d where "d = k mod 64"
  define q where "q = k div 64"
  define c where "c = q mod 64"
  define r where "r = q div 64"
  define b where "b = r mod 64"
  define a where "a = r div 64"
  have k: "k = q * 64 + d" and d: "d < 64"
    by (simp_all add: d_def q_def)
  have q: "q = r * 64 + c" and c: "c < 64"
    by (simp_all add: c_def r_def)
  have r: "r = a * 64 + b" and b: "b < 64"
    by (simp_all add: a_def b_def)
  have d1: "k div 4096 = r"
    using div_mult2_eq [of k 64 64] by (simp add: r_def q_def)
  have d2: "k div 262144 = a"
    using div_mult2_eq [of k 4096 64] by (simp add: d1 a_def)
  from assms k d q c r b have a: "a \<le> 4" "a = 0 \<longrightarrow> 16 \<le> b" "a = 4 \<longrightarrow> b \<le> 15"
    by arith+
  have m: "(240 + a) mod 8 = a" "(128 + b) mod 64 = b" "(128 + c) mod 64 = c"
    "(128 + d) mod 64 = d"
    using mod_high [of a 8 30] mod_high [of b 64 2] mod_high [of c 64 2] mod_high [of d 64 2]
      a b c d by simp_all
  define lo :: nat where "lo = (if 240 + a = 240 then 144 else 128)"
  define hi :: nat where "hi = (if 240 + a = 244 then 143 else 191)"
  have lo: "lo \<le> 128 + b"
    using a by (simp add: lo_def)
  have hi: "128 + b \<le> hi"
    using a b by (simp add: hi_def)
  have s1: "utf8_decode_from 0 0 128 191 ((240 + a) # rest)
              = utf8_decode_from ((240 + a) mod 8) (Suc (Suc (Suc 0))) lo hi rest" for rest
    unfolding lo_def hi_def using a by (intro start_4) simp_all
  have s2: "utf8_decode_from a (Suc (Suc (Suc 0))) lo hi ((128 + b) # rest)
              = utf8_decode_from (a * 64 + (128 + b) mod 64) (Suc (Suc 0)) 128 191 rest" for rest
    using lo hi by (rule cont_more)
  have s3: "utf8_decode_from (a * 64 + b) (Suc (Suc 0)) 128 191 ((128 + c) # rest)
              = utf8_decode_from ((a * 64 + b) * 64 + (128 + c) mod 64) (Suc 0) 128 191 rest" for rest
    using c by (intro cont_more) simp_all
  have s4: "utf8_decode_from ((a * 64 + b) * 64 + c) (Suc 0) 128 191 ((128 + d) # rest)
              = (((a * 64 + b) * 64 + c) * 64 + (128 + d) mod 64) #
                utf8_decode_from 0 0 128 191 rest" for rest
    using d by (intro cont_last) simp_all
  have "utf8_decode_from 0 0 128 191 ([240 + a, 128 + b, 128 + c, 128 + d] @ bs)
          = (((a * 64 + b) * 64 + c) * 64 + d) # utf8_decode_from 0 0 128 191 bs"
    by (simp only: append_Cons append_Nil s1 m s2 s3 s4)
  then have chain: "utf8_decode_from 0 0 128 191 ([240 + a, 128 + b, 128 + c, 128 + d] @ bs)
          = k # utf8_decode_from 0 0 128 191 bs"
    using k q r by simp
  have "utf8_bytes k =
          [240 + k div 262144, 128 + k div 4096 mod 64, 128 + k div 64 mod 64, 128 + k mod 64]"
    using assms by (simp add: utf8_bytes_def)
  also have "\<dots> = [240 + a, 128 + b, 128 + c, 128 + d]"
    unfolding d2 d1 b_def c_def q_def d_def ..
  finally show ?thesis
    using chain by (simp only:)
qed

lemma decode_char:
  assumes "scalar k"
  shows "utf8_decode_from 0 0 128 191 (utf8_bytes k @ bs) = k # utf8_decode_from 0 0 128 191 bs"
proof -
  consider "k < 128" | "128 \<le> k" "k < 2048" | "2048 \<le> k" "k < 65536"
    | "65536 \<le> k" "k < 1114112"
    using assms unfolding scalar_def by linarith
  then show ?thesis
    using assms by cases (simp_all add: decode_1 decode_2 decode_3 decode_4)
qed

lemma decode_utf8_bytes:
  "list_all scalar ks \<Longrightarrow>
   utf8_decode_from 0 0 128 191 (concat (map utf8_bytes ks)) = ks"
  by (induction ks) (simp_all add: decode_char utf8_decode_from.simps(1))

lemma of_char_char_of_bytes:
  assumes "\<forall>b \<in> set bs. b < 256"
  shows "map of_char (map char_of bs :: string) = (bs :: nat list)"
  using assms by (induction bs) simp_all

lemma utf8_decode_utf8: "list_all scalar ks \<Longrightarrow> utf8_decode (utf8 ks) = ks"
proof -
  assume a: "list_all scalar ks"
  then have "\<forall>b \<in> set (concat (map utf8_bytes ks)). b < 256"
    by (auto simp: list_all_iff utf8_bytes_less)
  then show ?thesis
    using a by (simp only: utf8_decode_def utf8_def of_char_char_of_bytes decode_utf8_bytes)
qed









lemma plus_free_rawurlencode:
  "map (\<lambda>c. if c = CHR ''+'' then CHR '' '' else c) (rawurlencode s) = rawurlencode s"
  using rawurlencode_not_special [of _ s] by (intro map_idI) (auto simp: special_def)

lemma form_decode_rawurlencode: "form_decode (rawurlencode s) = utf16 (utf8_decode s)"
  by (simp add: form_decode_def plus_free_rawurlencode percent_decode_rawurlencode)

lemma form_decode_text:
  "list_all scalar ks \<Longrightarrow> form_decode (rawurlencode (utf8 ks)) = utf16 ks"
  by (simp add: form_decode_rawurlencode utf8_decode_utf8)


































subsection \<open>C9: the order of the bootstrap\<close>

lemma wait_for_db_Some:
  assumes "wait_for_db p i = Some n"
  shows "i \<le> n \<and> p n \<and> (\<forall>j. i \<le> j \<and> j < n \<longrightarrow> \<not> p j)"
proof (rule wait_for_db.raw_induct
    [where P = "\<lambda>p i n. i \<le> n \<and> p n \<and> (\<forall>j. i \<le> j \<and> j < n \<longrightarrow> \<not> p j)", OF _ assms])
  fix f :: "(nat \<Rightarrow> bool) \<Rightarrow> nat \<Rightarrow> nat option" and p i n
  assume ih: "\<And>p i n. f p i = Some n \<Longrightarrow> i \<le> n \<and> p n \<and> (\<forall>j. i \<le> j \<and> j < n \<longrightarrow> \<not> p j)"
    and eq: "(if p i then Some i else f p (Suc i)) = Some n"
  show "i \<le> n \<and> p n \<and> (\<forall>j. i \<le> j \<and> j < n \<longrightarrow> \<not> p j)"
  proof (cases "p i")
    case True
    with eq show ?thesis by auto
  next
    case False
    with eq have "f p (Suc i) = Some n" by simp
    from ih [OF this] False show ?thesis
      by (auto simp: less_Suc_eq_le dest: le_neq_implies_less)
  qed
qed

lemma wait_for_db_returns: "p n \<Longrightarrow> i \<le> n \<Longrightarrow> \<exists>m. wait_for_db p i = Some m"
proof (induction k \<equiv> "n - i" arbitrary: i)
  case 0
  then have "i = n" by simp
  with 0 show ?case by (simp add: wait_for_db.simps)
next
  case (Suc k)
  show ?case
  proof (cases "p i")
    case True
    then show ?thesis by (simp add: wait_for_db.simps)
  next
    case False
    from Suc.hyps(2) Suc.prems(2) have a: "k = n - Suc i" and b: "Suc i \<le> n"
      by simp_all
    have "\<exists>m. wait_for_db p (Suc i) = Some m"
      using a Suc.prems(1) b by (rule Suc.hyps(1))
    with False show ?thesis
      by (subst wait_for_db.simps) simp
  qed
qed

lemma wait_for_db_first:
  assumes "p n" "\<forall>j < n. \<not> p j"
  shows "wait_for_db p 0 = Some n"
proof -
  from wait_for_db_returns [of p n 0] assms(1) obtain m where m: "wait_for_db p 0 = Some m"
    by auto
  from wait_for_db_Some [OF m] assms have "m = n"
    by (metis linorder_neqE_nat zero_le)
  with m show ?thesis by simp
qed

lemma wait_for_db_never: "(\<forall>j. \<not> p j) \<Longrightarrow> wait_for_db p i = None"
  using wait_for_db_Some [of p i] by (cases "wait_for_db p i") auto

lemma run_all_bootstrap:
  "run_all ([wait_phase w n] @ permissions_phase w @
            [install_phase w, options_phase w, plugins_phase w] @ closing_phases w) =
     (if \<not> first_chown_ok w then (fst (wait_phase w n) @ [Chown], False)
      else if \<not> snd (install_phase w)
      then (fst (wait_phase w n) @ [Chown, FindChmodDirs, FindChmodFiles] @ fst (install_phase w),
            False)
      else if \<not> final_chown_ok w then (fst (wait_phase w n) @ bootstrap_steps w, False)
      else (fst (wait_phase w n) @ bootstrap_steps w @ [ExecEntrypoint], True))"
  by (cases "install_phase w")
    (simp add: wait_phase_def permissions_phase_def options_phase_def plugins_phase_def
      closing_phases_def bootstrap_steps_def)

lemma probe_action_cases: "\<exists>h p. probe_action w = ProbeDB h p"
  by (simp add: probe_action_def split: option.splits)

lemma wait_phase_set: "set (fst (wait_phase w n)) \<subseteq> {probe_action w, Sleep}"
  by (auto simp: wait_phase_def)

lemma install_phase_set:
  "set (fst (install_phase w)) \<subseteq> {CoreIsInstalled, ConfigCreate} \<union> range CoreInstall"
  by (auto simp: install_phase_def)

lemma install_phase_guard:
  "ConfigCreate \<in> set (fst (install_phase w)) \<or> CoreInstall u \<in> set (fst (install_phase w))
   \<Longrightarrow> \<not> core_is_installed w"
  by (auto simp: install_phase_def split: if_splits)

lemma install_phase_order:
  "\<exists>rest. fst (install_phase w) = CoreIsInstalled # rest \<and> CoreIsInstalled \<notin> set rest"
  by (simp add: install_phase_def)

lemma options_phase_set: "set (fst (options_phase w)) \<subseteq> range (\<lambda>(a, b). OptionUpdate a b)"
  by (auto simp: options_phase_def option_update_def split: option.splits if_splits)

lemma plugins_phase_set:
  "a \<in> set (fst (plugins_phase w)) \<longleftrightarrow>
     (\<exists>slug \<in> set (plugin_slugs w).
        a = PluginIsInstalled slug \<or> (a = PluginActivate slug \<and> plugin_is_installed w slug))"
  by (auto simp: plugins_phase_def plugin_turn_def)

lemma plugin_activate_steps:
  "PluginActivate slug \<in> set (bootstrap_steps w) \<longleftrightarrow>
     slug \<in> set (plugin_slugs w) \<and> plugin_is_installed w slug"
  using install_phase_set [of w] options_phase_set [of w]
  by (auto simp: bootstrap_steps_def plugins_phase_set)

lemma bootstrap_steps_guard:
  "ConfigCreate \<in> set (bootstrap_steps w) \<or> CoreInstall u \<in> set (bootstrap_steps w)
   \<Longrightarrow> \<not> core_is_installed w"
  using install_phase_guard [of w u] options_phase_set [of w]
  by (auto simp: bootstrap_steps_def plugins_phase_set)

lemma bootstrap_steps_free:
  "ExecEntrypoint \<notin> set (bootstrap_steps w)" "Sleep \<notin> set (bootstrap_steps w)"
  "ProbeDB h p \<notin> set (bootstrap_steps w)"
  using install_phase_set [of w] options_phase_set [of w]
  by (auto simp: bootstrap_steps_def plugins_phase_set)

lemma bootstrap_cases:
  assumes "bootstrap w = Some (tr, fin)"
  obtains n where "probe w n" "\<forall>j<n. \<not> probe w j"
    and "(tr = fst (wait_phase w n) @ [Chown] \<and> \<not> fin) \<or>
         (tr = fst (wait_phase w n) @ [Chown, FindChmodDirs, FindChmodFiles] @ fst (install_phase w)
            \<and> \<not> fin) \<or>
         (tr = fst (wait_phase w n) @ bootstrap_steps w \<and> \<not> fin) \<or>
         (tr = fst (wait_phase w n) @ bootstrap_steps w @ [ExecEntrypoint] \<and> fin)"
proof -
  from assms obtain n where n: "wait_for_db (probe w) 0 = Some n"
    and r: "run_all ([wait_phase w n] @ permissions_phase w @
            [install_phase w, options_phase w, plugins_phase w] @ closing_phases w) = (tr, fin)"
    by (auto simp: bootstrap_def split: option.splits)
  from wait_for_db_Some [OF n] have p: "probe w n" "\<forall>j<n. \<not> probe w j"
    by auto
  from r [unfolded run_all_bootstrap]
  have "(tr = fst (wait_phase w n) @ [Chown] \<and> \<not> fin) \<or>
         (tr = fst (wait_phase w n) @ [Chown, FindChmodDirs, FindChmodFiles] @ fst (install_phase w)
            \<and> \<not> fin) \<or>
         (tr = fst (wait_phase w n) @ bootstrap_steps w \<and> \<not> fin) \<or>
         (tr = fst (wait_phase w n) @ bootstrap_steps w @ [ExecEntrypoint] \<and> fin)"
    by (auto split: if_splits)
  with p show thesis by (rule that)
qed

lemma wait_phase_free:
  "ExecEntrypoint \<notin> set (fst (wait_phase w n))" "RewriteStructure \<notin> set (fst (wait_phase w n))"
  "ConfigCreate \<notin> set (fst (wait_phase w n))" "CoreInstall u \<notin> set (fst (wait_phase w n))"
  "PluginActivate slug \<notin> set (fst (wait_phase w n))"
  using wait_phase_set [of w n] probe_action_cases [of w] by auto

lemma install_phase_free:
  "ExecEntrypoint \<notin> set (fst (install_phase w))" "RewriteStructure \<notin> set (fst (install_phase w))"
  "PluginActivate slug \<notin> set (fst (install_phase w))"
  using install_phase_set [of w] by auto

lemma install_prefix_steps:
  "prefix ([Chown, FindChmodDirs, FindChmodFiles] @ fst (install_phase w)) (bootstrap_steps w)"
  by (simp add: bootstrap_steps_def)

lemma bootstrap_prefix:
  assumes "bootstrap w = Some (tr, fin)"
  shows "\<exists>n. probe w n \<and> (\<forall>j<n. \<not> probe w j) \<and>
           prefix (fst (wait_phase w n)) tr \<and>
           prefix tr (fst (wait_phase w n) @ bootstrap_steps w @ [ExecEntrypoint]) \<and>
           (ExecEntrypoint \<in> set tr \<longleftrightarrow>
              tr = fst (wait_phase w n) @ bootstrap_steps w @ [ExecEntrypoint]) \<and>
           (RewriteStructure \<in> set tr \<longrightarrow> prefix (fst (wait_phase w n) @ bootstrap_steps w) tr) \<and>
           (fin \<longleftrightarrow> ExecEntrypoint \<in> set tr)"
proof -
  from assms obtain n where p: "probe w n" "\<forall>j<n. \<not> probe w j"
    and c: "(tr = fst (wait_phase w n) @ [Chown] \<and> \<not> fin) \<or>
         (tr = fst (wait_phase w n) @ [Chown, FindChmodDirs, FindChmodFiles] @ fst (install_phase w)
            \<and> \<not> fin) \<or>
         (tr = fst (wait_phase w n) @ bootstrap_steps w \<and> \<not> fin) \<or>
         (tr = fst (wait_phase w n) @ bootstrap_steps w @ [ExecEntrypoint] \<and> fin)"
    by (rule bootstrap_cases)
  have s: "bootstrap_steps w = Chown # tl (bootstrap_steps w)"
    by (simp add: bootstrap_steps_def)
  have ne: "ExecEntrypoint \<notin> set xs \<Longrightarrow>
            xs \<noteq> fst (wait_phase w n) @ bootstrap_steps w @ [ExecEntrypoint]" for xs
    by auto
  from c have "prefix (fst (wait_phase w n)) tr \<and>
           prefix tr (fst (wait_phase w n) @ bootstrap_steps w @ [ExecEntrypoint]) \<and>
           (ExecEntrypoint \<in> set tr \<longleftrightarrow>
              tr = fst (wait_phase w n) @ bootstrap_steps w @ [ExecEntrypoint]) \<and>
           (RewriteStructure \<in> set tr \<longrightarrow> prefix (fst (wait_phase w n) @ bootstrap_steps w) tr) \<and>
           (fin \<longleftrightarrow> ExecEntrypoint \<in> set tr)"
  proof (elim disjE conjE)
    assume t: "tr = fst (wait_phase w n) @ [Chown]" and f: "\<not> fin"
    have a: "prefix [Chown] (bootstrap_steps w @ [ExecEntrypoint])"
      by (subst s) simp
    have b: "ExecEntrypoint \<notin> set tr" "RewriteStructure \<notin> set tr"
      unfolding t using wait_phase_free by simp_all
    from a b f ne [OF b(1)] show ?thesis
      by (simp add: t)
  next
    assume t: "tr = fst (wait_phase w n) @ [Chown, FindChmodDirs, FindChmodFiles] @ fst (install_phase w)"
      and f: "\<not> fin"
    have a: "prefix ([Chown, FindChmodDirs, FindChmodFiles] @ fst (install_phase w))
            (bootstrap_steps w @ [ExecEntrypoint])"
      using install_prefix_steps [of w] by (rule prefix_prefix)
    have b: "ExecEntrypoint \<notin> set tr" "RewriteStructure \<notin> set tr"
      unfolding t using wait_phase_free install_phase_free by simp_all
    from a b f ne [OF b(1)] show ?thesis
      by (simp add: t)
  next
    assume t: "tr = fst (wait_phase w n) @ bootstrap_steps w" and f: "\<not> fin"
    have b: "ExecEntrypoint \<notin> set tr"
      unfolding t using wait_phase_free bootstrap_steps_free by simp
    from b f ne [OF b] show ?thesis
      by (simp add: t)
  next
    assume t: "tr = fst (wait_phase w n) @ bootstrap_steps w @ [ExecEntrypoint]" and f: fin
    show ?thesis
      unfolding t using f by simp
  qed
  with p show ?thesis by blast
qed

lemma bootstrap_returns: "probe w i \<Longrightarrow> \<exists>r. bootstrap w = Some r"
  using wait_for_db_returns [of "probe w" i 0] by (auto simp: bootstrap_def)

lemma bootstrap_waits: "\<forall>i. \<not> probe w i \<Longrightarrow> bootstrap w = None"
  by (simp add: bootstrap_def wait_for_db_never)

lemma concat_singletons: "concat (map (\<lambda>x. [x]) xs) = xs"
  by (induction xs) simp_all

lemma plugin_slugs_plain:
  assumes "\<forall>word \<in> set (listed_slugs w). \<not> is_pattern word"
  shows "plugin_slugs w = listed_slugs w"
proof -
  have "map (pathname_expansion w) (listed_slugs w) = map (\<lambda>x. [x]) (listed_slugs w)"
    using assms by (intro map_cong) (simp_all add: pathname_expansion_def)
  then have "plugin_slugs w = concat (map (\<lambda>x. [x]) (listed_slugs w))"
    unfolding plugin_slugs_def by (rule arg_cong)
  then show ?thesis
    by (simp only: concat_singletons)
qed

lemma plugin_slugs_from:
  assumes "slug \<in> set (plugin_slugs w)"
  shows "\<exists>word \<in> set (listed_slugs w).
           slug = word \<or> (is_pattern word \<and> slug \<in> set (pathname_matches w word))"
  using assms by (auto simp: plugin_slugs_def pathname_expansion_def split: if_splits)

text \<open>
  A run in which a word of \<^verbatim>\<open>WP_PLUGINS\<close> is a pattern: with \<^verbatim>\<open>WP_PLUGINS="* x"\<close>, a file
  named \<^verbatim>\<open>a\<close> in the working directory and a plugin \<^verbatim>\<open>a\<close> installed, the script activates
  \<^verbatim>\<open>a\<close>, which is not among the listed slugs \<^verbatim>\<open>*\<close> and \<^verbatim>\<open>x\<close>.
\<close>

theorem C9_counterexample:
  "bootstrap \<lparr>WORDPRESS_DB_HOST = Some ''db'', fsockopen = (\<lambda>h p i. True),
       first_chown_ok = True, core_is_installed = True, db_vars_set = True,
       config_create_ok = True, core_install_ok = True,
       WP_HOME = None, WP_SITEURL = None, WP_PLUGINS = Some ''* x'',
       pathname_matches = (\<lambda>word. if word = ''*'' then [''a''] else []),
       plugin_is_installed = (\<lambda>s. s = ''a''), final_chown_ok = True\<rparr>
     = Some ([ProbeDB ''db'' ''3306'', Chown, FindChmodDirs, FindChmodFiles, CoreIsInstalled,
              PluginIsInstalled ''a'', PluginActivate ''a'', PluginIsInstalled ''x'',
              RewriteStructure, RewriteFlush, Chown, ExecEntrypoint], True) \<and>
   listed_slugs \<lparr>WORDPRESS_DB_HOST = Some ''db'', fsockopen = (\<lambda>h p i. True),
       first_chown_ok = True, core_is_installed = True, db_vars_set = True,
       config_create_ok = True, core_install_ok = True,
       WP_HOME = None, WP_SITEURL = None, WP_PLUGINS = Some ''* x'',
       pathname_matches = (\<lambda>word. if word = ''*'' then [''a''] else []),
       plugin_is_installed = (\<lambda>s. s = ''a''), final_chown_ok = True\<rparr> = [''*'', ''x''] \<and>
   ''a'' \<notin> set [''*'', ''x'']"
proof -
  let ?w = "\<lparr>WORDPRESS_DB_HOST = Some ''db'', fsockopen = (\<lambda>h p i. True),
       first_chown_ok = True, core_is_installed = True, db_vars_set = True,
       config_create_ok = True, core_install_ok = True,
       WP_HOME = None, WP_SITEURL = None, WP_PLUGINS = Some ''* x'',
       pathname_matches = (\<lambda>word. if word = ''*'' then [''a''] else []),
       plugin_is_installed = (\<lambda>s. s = ''a''), final_chown_ok = True\<rparr>"
  have e: "db_endpoint ''db'' = (''db'', ''3306'')"
    by (simp add: db_endpoint_def)
  have pr: "probe ?w i" for i
    by (simp add: probe_def e php_truthy_def)
  have wt: "wait_for_db (probe ?w) 0 = Some 0"
    using pr by (subst wait_for_db.simps) simp
  have ls: "listed_slugs ?w = [''*'', ''x'']"
    by (simp add: listed_slugs_def shell_words_def)
  have ps: "plugin_slugs ?w = [''a'', ''x'']"
    by (simp add: plugin_slugs_def ls pathname_expansion_def is_pattern_def)
  have b: "bootstrap ?w
     = Some ([ProbeDB ''db'' ''3306'', Chown, FindChmodDirs, FindChmodFiles, CoreIsInstalled,
              PluginIsInstalled ''a'', PluginActivate ''a'', PluginIsInstalled ''x'',
              RewriteStructure, RewriteFlush, Chown, ExecEntrypoint], True)"
    by (simp add: bootstrap_def wt ps wait_phase_def probe_action_def e permissions_phase_def
        install_phase_def options_phase_def option_update_def plugins_phase_def plugin_turn_def
        closing_phases_def)
  from b ls show ?thesis
    by simp
qed

text \<open>
  Claim C9, amended. The script is past its wait loop only when a connection attempt to
  the host and port of \<^verbatim>\<open>WORDPRESS_DB_HOST\<close> has succeeded: with no successful attempt it
  never returns, and otherwise what it runs starts with one probe and sleep per failed
  attempt and the first successful probe, everything else coming after. \<^verbatim>\<open>wp config create\<close>
  and \<^verbatim>\<open>wp core install\<close> are run only when \<^verbatim>\<open>wp core is-installed\<close> has failed. The plugin
  loop runs over the words that word splitting and pathname expansion make of
  \<^verbatim>\<open>WP_PLUGINS\<close>: each of them is a listed slug or a file name matched by a listed slug that
  is a pattern, and they are the listed slugs themselves when none contains \<^verbatim>\<open>*\<close>, \<^verbatim>\<open>?\<close> or
  \<^verbatim>\<open>[\<close>. Activation is attempted only for those of these words that are installed, and,
  once the plugin loop is done, for every one of them. The \<^verbatim>\<open>exec\<close> of the original
  entrypoint is the last command, reached only after the wait loop and all the bootstrap
  steps in the order of the script: permissions, the install check with config creation
  and core install, option updates, the plugin loop, the rewrite rules, the final
  \<^verbatim>\<open>chown\<close>.
\<close>

theorem C9_bootstrap_order:
  "(bootstrap w = Some (tr, fin) \<longrightarrow>
      (\<exists>n. probe w n \<and> (\<forall>j<n. \<not> probe w j) \<and>
         prefix (concat (replicate n [probe_action w, Sleep]) @ [probe_action w]) tr \<and>
         prefix tr (concat (replicate n [probe_action w, Sleep]) @ [probe_action w] @
                    bootstrap_steps w @ [ExecEntrypoint]) \<and>
         (ExecEntrypoint \<in> set tr \<longleftrightarrow>
            tr = concat (replicate n [probe_action w, Sleep]) @ [probe_action w] @
                 bootstrap_steps w @ [ExecEntrypoint])) \<and>
      (fin \<longleftrightarrow> ExecEntrypoint \<in> set tr) \<and>
      (ConfigCreate \<in> set tr \<or> (\<exists>u. CoreInstall u \<in> set tr) \<longrightarrow> \<not> core_is_installed w) \<and>
      (\<forall>slug. PluginActivate slug \<in> set tr \<longrightarrow>
         slug \<in> set (plugin_slugs w) \<and> plugin_is_installed w slug) \<and>
      (RewriteStructure \<in> set tr \<longrightarrow>
         (\<forall>slug \<in> set (plugin_slugs w).
            plugin_is_installed w slug \<longrightarrow> PluginActivate slug \<in> set tr))) \<and>
   bootstrap_steps w =
     [Chown, FindChmodDirs, FindChmodFiles] @ fst (install_phase w) @ fst (options_phase w) @
     concat (map (plugin_turn w) (plugin_slugs w)) @ [RewriteStructure, RewriteFlush, Chown] \<and>
   plugin_slugs w = concat (map (pathname_expansion w) (listed_slugs w)) \<and>
   (\<forall>slug \<in> set (plugin_slugs w). \<exists>word \<in> set (listed_slugs w).
      slug = word \<or> (is_pattern word \<and> slug \<in> set (pathname_matches w word))) \<and>
   ((\<forall>word \<in> set (listed_slugs w). \<not> is_pattern word) \<longrightarrow> plugin_slugs w = listed_slugs w) \<and>
   ((\<forall>i. \<not> probe w i) \<longrightarrow> bootstrap w = None) \<and>
   ((\<exists>i. probe w i) \<longrightarrow> (\<exists>r. bootstrap w = Some r))"
proof -
  have main: "(\<exists>n. probe w n \<and> (\<forall>j<n. \<not> probe w j) \<and>
         prefix (concat (replicate n [probe_action w, Sleep]) @ [probe_action w]) tr \<and>
         prefix tr (concat (replicate n [probe_action w, Sleep]) @ [probe_action w] @
                    bootstrap_steps w @ [ExecEntrypoint]) \<and>
         (ExecEntrypoint \<in> set tr \<longleftrightarrow>
            tr = concat (replicate n [probe_action w, Sleep]) @ [probe_action w] @
                 bootstrap_steps w @ [ExecEntrypoint])) \<and>
      (fin \<longleftrightarrow> ExecEntrypoint \<in> set tr) \<and>
      (ConfigCreate \<in> set tr \<or> (\<exists>u. CoreInstall u \<in> set tr) \<longrightarrow> \<not> core_is_installed w) \<and>
      (\<forall>slug. PluginActivate slug \<in> set tr \<longrightarrow>
         slug \<in> set (plugin_slugs w) \<and> plugin_is_installed w slug) \<and>
      (RewriteStructure \<in> set tr \<longrightarrow>
         (\<forall>slug \<in> set (plugin_slugs w).
            plugin_is_installed w slug \<longrightarrow> PluginActivate slug \<in> set tr))"
    if b: "bootstrap w = Some (tr, fin)"
  proof -
    from bootstrap_prefix [OF b] obtain n where p: "probe w n" "\<forall>j<n. \<not> probe w j"
      and a: "prefix (fst (wait_phase w n)) tr"
      and u: "prefix tr (fst (wait_phase w n) @ bootstrap_steps w @ [ExecEntrypoint])"
      and e: "ExecEntrypoint \<in> set tr \<longleftrightarrow>
                tr = fst (wait_phase w n) @ bootstrap_steps w @ [ExecEntrypoint]"
      and r: "RewriteStructure \<in> set tr \<longrightarrow> prefix (fst (wait_phase w n) @ bootstrap_steps w) tr"
      and f: "fin \<longleftrightarrow> ExecEntrypoint \<in> set tr"
      by blast
    have sub: "set tr \<subseteq> set (fst (wait_phase w n)) \<union> set (bootstrap_steps w) \<union> {ExecEntrypoint}"
      using set_mono_prefix [OF u] by auto
    have g: "ConfigCreate \<in> set tr \<or> (\<exists>u. CoreInstall u \<in> set tr) \<longrightarrow> \<not> core_is_installed w"
      using sub wait_phase_free bootstrap_steps_guard [of w] by blast
    have h: "\<forall>slug. PluginActivate slug \<in> set tr \<longrightarrow>
         slug \<in> set (plugin_slugs w) \<and> plugin_is_installed w slug"
      using sub wait_phase_free plugin_activate_steps [of _ w] by blast
    have k: "RewriteStructure \<in> set tr \<longrightarrow>
         (\<forall>slug \<in> set (plugin_slugs w).
            plugin_is_installed w slug \<longrightarrow> PluginActivate slug \<in> set tr)"
    proof (intro impI ballI)
      fix slug
      assume "RewriteStructure \<in> set tr" "slug \<in> set (plugin_slugs w)" "plugin_is_installed w slug"
      with r have "prefix (fst (wait_phase w n) @ bootstrap_steps w) tr"
        and "PluginActivate slug \<in> set (bootstrap_steps w)"
        by (simp_all add: plugin_activate_steps)
      then show "PluginActivate slug \<in> set tr"
        using set_mono_prefix by fastforce
    qed
    from p a u e f g h k show ?thesis
      unfolding wait_phase_def fst_conv append_assoc by blast
  qed
  have steps: "bootstrap_steps w =
     [Chown, FindChmodDirs, FindChmodFiles] @ fst (install_phase w) @ fst (options_phase w) @
     concat (map (plugin_turn w) (plugin_slugs w)) @ [RewriteStructure, RewriteFlush, Chown]"
    by (simp add: bootstrap_steps_def plugins_phase_def)
  have slugs: "plugin_slugs w = concat (map (pathname_expansion w) (listed_slugs w))"
    by (simp add: plugin_slugs_def)
  have from_words: "\<forall>slug \<in> set (plugin_slugs w). \<exists>word \<in> set (listed_slugs w).
      slug = word \<or> (is_pattern word \<and> slug \<in> set (pathname_matches w word))"
    by (intro ballI, rule plugin_slugs_from)
  have plain: "(\<forall>word \<in> set (listed_slugs w). \<not> is_pattern word) \<longrightarrow>
      plugin_slugs w = listed_slugs w"
    by (intro impI, rule plugin_slugs_plain)
  have never: "(\<forall>i. \<not> probe w i) \<longrightarrow> bootstrap w = None"
    using bootstrap_waits [of w] by blast
  have returns: "(\<exists>i. probe w i) \<longrightarrow> (\<exists>r. bootstrap w = Some r)"
    using bootstrap_returns [of w] by blast
  have first: "bootstrap w = Some (tr, fin) \<longrightarrow>
      (\<exists>n. probe w n \<and> (\<forall>j<n. \<not> probe w j) \<and>
         prefix (concat (replicate n [probe_action w, Sleep]) @ [probe_action w]) tr \<and>
         prefix tr (concat (replicate n [probe_action w, Sleep]) @ [probe_action w] @
                    bootstrap_steps w @ [ExecEntrypoint]) \<and>
         (ExecEntrypoint \<in> set tr \<longleftrightarrow>
            tr = concat (replicate n [probe_action w, Sleep]) @ [probe_action w] @
                 bootstrap_steps w @ [ExecEntrypoint])) \<and>
      (fin \<longleftrightarrow> ExecEntrypoint \<in> set tr) \<and>
      (ConfigCreate \<in> set tr \<or> (\<exists>u. CoreInstall u \<in> set tr) \<longrightarrow> \<not> core_is_installed w) \<and>
      (\<forall>slug. PluginActivate slug \<in> set tr \<longrightarrow>
         slug \<in> set (plugin_slugs w) \<and> plugin_is_installed w slug) \<and>
      (RewriteStructure \<in> set tr \<longrightarrow>
         (\<forall>slug \<in> set (plugin_slugs w).
            plugin_is_installed w slug \<longrightarrow> PluginActivate slug \<in> set tr))"
    by (intro impI, rule main)
  from first steps slugs from_words plain never returns show ?thesis
    by (intro conjI)
qed

theorem C9_bootstrap_order_witness:
  "bootstrap \<lparr>WORDPRESS_DB_HOST = Some ''db:3306'',
       fsockopen = (\<lambda>h p i. h = ''db'' \<and> p = ''3306'' \<and> 2 \<le> i),
       first_chown_ok = True, core_is_installed = False, db_vars_set = True,
       config_create_ok = True, core_install_ok = True,
       WP_HOME = Some ''http://localhost:8000'', WP_SITEURL = None,
       WP_PLUGINS = Some ''wp-graphql  missing'',
       pathname_matches = (\<lambda>word. []),
       plugin_is_installed = (\<lambda>s. s = ''wp-graphql''), final_chown_ok = True\<rparr>
     = Some ([ProbeDB ''db'' ''3306'', Sleep, ProbeDB ''db'' ''3306'', Sleep, ProbeDB ''db'' ''3306'',
              Chown, FindChmodDirs, FindChmodFiles,
              CoreIsInstalled, ConfigCreate, CoreInstall ''http://localhost:8000'',
              OptionUpdate ''home'' ''http://localhost:8000'',
              PluginIsInstalled ''wp-graphql'', PluginActivate ''wp-graphql'',
              PluginIsInstalled ''missing'',
              RewriteStructure, RewriteFlush, Chown, ExecEntrypoint], True) \<and>
   \<not> core_is_installed \<lparr>WORDPRESS_DB_HOST = Some ''db:3306'',
       fsockopen = (\<lambda>h p i. h = ''db'' \<and> p = ''3306'' \<and> 2 \<le> i),
       first_chown_ok = True, core_is_installed = False, db_vars_set = True,
       config_create_ok = True, core_install_ok = True,
       WP_HOME = Some ''http://localhost:8000'', WP_SITEURL = None,
       WP_PLUGINS = Some ''wp-graphql  missing'',
       pathname_matches = (\<lambda>word. []),
       plugin_is_installed = (\<lambda>s. s = ''wp-graphql''), final_chown_ok = True\<rparr> \<and>
   plugin_slugs \<lparr>WORDPRESS_DB_HOST = Some ''db:3306'',
       fsockopen = (\<lambda>h p i. h = ''db'' \<and> p = ''3306'' \<and> 2 \<le> i),
       first_chown_ok = True, core_is_installed = False, db_vars_set = True,
       config_create_ok = True, core_install_ok = True,
       WP_HOME = Some ''http://localhost:8000'', WP_SITEURL = None,
       WP_PLUGINS = Some ''wp-graphql  missing'',
       pathname_matches = (\<lambda>word. []),
       plugin_is_installed = (\<lambda>s. s = ''wp-graphql''), final_chown_ok = True\<rparr>
     = [''wp-graphql'', ''missing''] \<and>
   bootstrap \<lparr>WORDPRESS_DB_HOST = Some ''db:3306'', fsockopen = (\<lambda>h p i. False),
       first_chown_ok = True, core_is_installed = False, db_vars_set = True,
       config_create_ok = True, core_install_ok = True,
       WP_HOME = None, WP_SITEURL = None, WP_PLUGINS = None,
       pathname_matches = (\<lambda>word. []),
       plugin_is_installed = (\<lambda>s. False), final_chown_ok = True\<rparr> = None"
proof -
  let ?w = "\<lparr>WORDPRESS_DB_HOST = Some ''db:3306'',
       fsockopen = (\<lambda>h p i. h = ''db'' \<and> p = ''3306'' \<and> 2 \<le> i),
       first_chown_ok = True, core_is_installed = False, db_vars_set = True,
       config_create_ok = True, core_install_ok = True,
       WP_HOME = Some ''http://localhost:8000'', WP_SITEURL = None,
       WP_PLUGINS = Some ''wp-graphql  missing'',
       pathname_matches = (\<lambda>word. []),
       plugin_is_installed = (\<lambda>s. s = ''wp-graphql''), final_chown_ok = True\<rparr>"
  let ?v = "\<lparr>WORDPRESS_DB_HOST = Some ''db:3306'', fsockopen = (\<lambda>h p i. False),
       first_chown_ok = True, core_is_installed = False, db_vars_set = True,
       config_create_ok = True, core_install_ok = True,
       WP_HOME = None, WP_SITEURL = None, WP_PLUGINS = None,
       pathname_matches = (\<lambda>word. []),
       plugin_is_installed = (\<lambda>s. False), final_chown_ok = True\<rparr>"
  let ?tr = "[ProbeDB ''db'' ''3306'', Sleep, ProbeDB ''db'' ''3306'', Sleep, ProbeDB ''db'' ''3306'',
              Chown, FindChmodDirs, FindChmodFiles,
              CoreIsInstalled, ConfigCreate, CoreInstall ''http://localhost:8000'',
              OptionUpdate ''home'' ''http://localhost:8000'',
              PluginIsInstalled ''wp-graphql'', PluginActivate ''wp-graphql'',
              PluginIsInstalled ''missing'',
              RewriteStructure, RewriteFlush, Chown, ExecEntrypoint]"
  have e: "db_endpoint ''db:3306'' = (''db'', ''3306'')"
    by (simp add: db_endpoint_def)
  have pr: "probe ?w i \<longleftrightarrow> 2 \<le> i" for i
    by (simp add: probe_def e php_truthy_def)
  then have wt: "wait_for_db (probe ?w) 0 = Some 2"
    by (intro wait_for_db_first) simp_all
  have ls: "listed_slugs ?w = [''wp-graphql'', ''missing'']"
    by (simp add: listed_slugs_def shell_words_def)
  have np: "\<forall>word \<in> set (listed_slugs ?w). \<not> is_pattern word"
    by (simp add: ls is_pattern_def)
  note T = C9_bootstrap_order [of ?w ?tr True]
  have ps: "plugin_slugs ?w = listed_slugs ?w"
    using conjunct1 [OF conjunct2 [OF conjunct2 [OF conjunct2 [OF conjunct2 [OF T]]]]] np
    by (rule mp)
  have ps': "plugin_slugs ?w = [''wp-graphql'', ''missing'']"
    using ps ls by simp
  from wt ps' have b: "bootstrap ?w = Some (?tr, True)"
    by (simp add: bootstrap_def wait_phase_def probe_action_def e permissions_phase_def
        install_phase_def options_phase_def option_update_def plugins_phase_def plugin_turn_def
        closing_phases_def numeral_2_eq_2)
  have c: "ConfigCreate \<in> set ?tr"
    by simp
  have n: "\<forall>i. \<not> probe ?v i"
    by (simp add: probe_def)
  from T b c have "\<not> core_is_installed ?w"
    by blast
  moreover from C9_bootstrap_order [of ?v "[]" True] n have "bootstrap ?v = None"
    by blast
  ultimately show ?thesis
    using b ps' by (intro conjI)
qed

end
